theory Spec2Isabelle
  imports Main "HOL-Library.Sublist" "HOL-Library.AList" "HOL-Library.List_Lexorder"
    "HOL-Library.Multiset"
begin

section \<open>Python strings\<close>

text \<open>
  A Python \<open>str\<close> is a sequence of Unicode code points. The scrapers test for code points
  beyond one byte (U+2013, U+2014, U+2019, U+201C, U+201D), so a string is a list of
  code points, each a natural number; \<open>ascii\<close> reads an ASCII literal.
\<close>

type_synonym codepoint = nat
type_synonym pystr = "codepoint list"

definition ascii :: "string \<Rightarrow> pystr" where
  "ascii s = map of_char s"

text \<open>\<open>s.find(sub)\<close>: the least index at which \<open>sub\<close> occurs, \<open>None\<close> for Python's -1.\<close>

primrec py_find :: "pystr \<Rightarrow> pystr \<Rightarrow> nat option" where
  "py_find sub [] = (if sub = [] then Some 0 else None)"
| "py_find sub (c # cs) =
     (if prefix sub (c # cs) then Some 0 else map_option Suc (py_find sub cs))"

text \<open>\<open>sub in s\<close>.\<close>

definition py_in :: "pystr \<Rightarrow> pystr \<Rightarrow> bool" where
  "py_in sub s = (py_find sub s \<noteq> None)"

text \<open>
  \<open>s.replace(old, new)\<close>: the occurrences of \<open>old\<close> are replaced from the left, without
  overlap. With an empty \<open>old\<close> Python puts \<open>new\<close> around every character.
\<close>

fun py_replace :: "pystr \<Rightarrow> pystr \<Rightarrow> pystr \<Rightarrow> pystr" where
  "py_replace old new [] = (if old = [] then new else [])"
| "py_replace old new (c # cs) =
     (if old = [] then new @ c # py_replace old new cs
      else if prefix old (c # cs) then new @ py_replace old new (drop (length old - 1) cs)
      else c # py_replace old new cs)"

text \<open>
  \<open>s.split(sep)\<close> for a non-empty separator (every call of the scrapers passes a
  non-empty literal; Python raises ValueError on an empty one).
\<close>

fun py_split :: "pystr \<Rightarrow> pystr \<Rightarrow> pystr list" where
  "py_split sep [] = [[]]"
| "py_split sep (c # cs) =
     (if sep \<noteq> [] \<and> prefix sep (c # cs) then [] # py_split sep (drop (length sep - 1) cs)
      else (case py_split sep cs of [] \<Rightarrow> [[c]] | w # ws \<Rightarrow> (c # w) # ws))"

text \<open>\<open>sep.join(xs)\<close>.\<close>

fun py_join :: "pystr \<Rightarrow> pystr list \<Rightarrow> pystr" where
  "py_join sep [] = []"
| "py_join sep [x] = x"
| "py_join sep (x # y # ys) = x @ sep @ py_join sep (y # ys)"

text \<open>
  \<open>s.strip(chars)\<close> removes the leading and the trailing characters that belong to
  \<open>chars\<close>; \<open>s.strip()\<close> removes those for which \<open>str.isspace\<close> holds.
\<close>

definition py_strip :: "(codepoint \<Rightarrow> bool) \<Rightarrow> pystr \<Rightarrow> pystr" where
  "py_strip p s = rev (dropWhile p (rev (dropWhile p s)))"

definition py_isspace :: "codepoint \<Rightarrow> bool" where
  "py_isspace c =
     ((9 \<le> c \<and> c \<le> 13) \<or> (28 \<le> c \<and> c \<le> 32) \<or> c = 133 \<or> c = 160 \<or> c = 5760
      \<or> (8192 \<le> c \<and> c \<le> 8202) \<or> c = 8232 \<or> c = 8233 \<or> c = 8239 \<or> c = 8287
      \<or> c = 12288)"

definition strip_chars :: "string \<Rightarrow> pystr \<Rightarrow> pystr" where
  "strip_chars chars s = py_strip (\<lambda>c. c \<in> set (ascii chars)) s"

definition strip_ws :: "pystr \<Rightarrow> pystr" where
  "strip_ws s = py_strip py_isspace s"

text \<open>
  \<open>str(n)\<close> and \<open>'{0}'.format(n)\<close> of an integer: its decimal digits, after a minus sign
  when it is negative.
\<close>

fun digits_of :: "nat \<Rightarrow> pystr" where
  "digits_of n = (if n < 10 then [48 + n] else digits_of (n div 10) @ [48 + n mod 10])"

definition str_int :: "int \<Rightarrow> pystr" where
  "str_int i = (if i < 0 then 45 # digits_of (nat (- i)) else digits_of (nat i))"

section \<open>Regular-expression substitution\<close>

text \<open>
  \<open>re.sub(pattern, repl, s)\<close> scans \<open>s\<close> from the left; where the pattern matches, the
  matched text is replaced and the scan goes on behind the match, elsewhere one character
  is copied. A pattern is modelled by its matcher: the length of its match at the start
  of the rest of the subject. None of the scrapers' patterns matches the empty string.
\<close>

type_synonym matcher = "pystr \<Rightarrow> nat option"

fun re_sub :: "matcher \<Rightarrow> (pystr \<Rightarrow> pystr) \<Rightarrow> pystr \<Rightarrow> pystr" where
  "re_sub m r [] = []"
| "re_sub m r (c # cs) =
     (case m (c # cs) of
        None \<Rightarrow> c # re_sub m r cs
      | Some 0 \<Rightarrow> c # re_sub m r cs
      | Some (Suc n) \<Rightarrow> r (take (Suc n) (c # cs)) @ re_sub m r (drop n cs))"

text \<open>A literal pattern.\<close>

definition lit :: "pystr \<Rightarrow> matcher" where
  "lit pat s = (if prefix pat s then Some (length pat) else None)"

text \<open>A sequence of character classes, such as \<open>[MF] \(\<close> or \<open> ft.\<close>.\<close>

definition cls_seq :: "(codepoint \<Rightarrow> bool) list \<Rightarrow> matcher" where
  "cls_seq ps s =
     (if length ps \<le> length s \<and> list_all2 (\<lambda>p c. p c) ps (take (length ps) s)
      then Some (length ps) else None)"

text \<open>An alternative \<open>a|b\<close>; \<open>levels?\<close> is \<open>levels|level\<close>.\<close>

definition alt :: "matcher \<Rightarrow> matcher \<Rightarrow> matcher" where
  "alt a b s = (case a s of Some n \<Rightarrow> Some n | None \<Rightarrow> b s)"

text \<open>
  \<open>re.sub(r'(?<!\\)%', r'\\%', s)\<close>: a percent sign is matched where the character
  before it in the subject is not a backslash, and replaced by a backslash and a percent
  sign. \<open>prev\<close> is the character before the rest of the subject.
\<close>

fun re_sub_percent :: "codepoint option \<Rightarrow> pystr \<Rightarrow> pystr" where
  "re_sub_percent prev [] = []"
| "re_sub_percent prev (c # cs) =
     (if c = 37 \<and> prev \<noteq> Some 92 then 92 # 37 # re_sub_percent (Some c) cs
      else c # re_sub_percent (Some c) cs)"

section \<open>texify\<close>

text \<open>
  The function is the same in both scrapers. The code points: 13 carriage return,
  8211 U+2013, 8212 U+2014 (the em-dash), 8217 U+2019, 8220 U+201C, 8221 U+201D,
  37 percent, 92 backslash, 10 newline.
\<close>

definition texify :: "pystr \<Rightarrow> pystr" where
  "texify text0 =
     (let text1 = re_sub (lit [13]) (\<lambda>_. []) text0;
          text2 = re_sub (lit [8211]) (\<lambda>_. ascii ''$-$'') text1;
          text3 = re_sub (lit [8212]) (\<lambda>_. ascii ''--'') text2;
          text4 = re_sub (lit [8217]) (\<lambda>_. [39]) text3;
          text5 = re_sub (lit [8220]) (\<lambda>_. [39, 39]) text4;
          text6 = re_sub (lit [8221]) (\<lambda>_. [39, 39]) text5;
          text7 = re_sub_percent None text6;
          text8 = py_replace [10] [92, 92] text7
      in text8)"

text \<open>
  The escaping rules in the specification's words, each as a function on strings, and
  their composition in the specification's order.
\<close>

definition strip_cr :: "pystr \<Rightarrow> pystr" where
  "strip_cr s = filter (\<lambda>c. c \<noteq> 13) s"

definition subst_char :: "codepoint \<Rightarrow> pystr \<Rightarrow> pystr \<Rightarrow> pystr" where
  "subst_char c r s = concat (map (\<lambda>x. if x = c then r else [x]) s)"

definition escape_bare_percent :: "pystr \<Rightarrow> pystr" where
  "escape_bare_percent s =
     concat (map (\<lambda>i. if s ! i = 37 \<and> \<not> (0 < i \<and> s ! (i - 1) = 92) then [92, 37] else [s ! i])
                 [0..<length s])"

definition texify_rules :: "pystr \<Rightarrow> pystr" where
  "texify_rules s =
     subst_char 10 [92, 92]
       (escape_bare_percent
         (subst_char 8221 [39, 39]
           (subst_char 8220 [39, 39]
             (subst_char 8217 [39]
               (subst_char 8212 [45, 45]
                 (subst_char 8211 [36, 45, 36]
                   (strip_cr s)))))))"

text \<open>The characters that one of the rules rewrites.\<close>

definition texify_special :: "codepoint list" where
  "texify_special = [13, 10, 37, 8211, 8212, 8217, 8220, 8221]"


section \<open>Results, exceptions and diagnostics\<close>

text \<open>
  A Python function of the scrapers returns a value or raises, and on its way it may call
  \<open>warnings.warn\<close>. Its model returns the messages it passed to \<open>warn\<close>, in order, and
  either the exception (\<open>Inl\<close>) or the value (\<open>Inr\<close>). The messages passed before an
  exception are kept.
\<close>

datatype error = AttributeError | TypeError | IndexError | ValueError | KeyError

type_synonym 'a res = "pystr list \<times> (error + 'a)"

definition ret :: "'a \<Rightarrow> 'a res" where
  "ret x = ([], Inr x)"

definition raise :: "error \<Rightarrow> 'a res" where
  "raise e = ([], Inl e)"

definition warn :: "pystr \<Rightarrow> unit res" where
  "warn msg = ([msg], Inr ())"

definition bind :: "'a res \<Rightarrow> ('a \<Rightarrow> 'b res) \<Rightarrow> 'b res" where
  "bind m f =
     (case m of
        (ws, Inl e) \<Rightarrow> (ws, Inl e)
      | (ws, Inr x) \<Rightarrow> (case f x of (ws', r) \<Rightarrow> (ws @ ws', r)))"

section \<open>The abbreviation table\<close>

text \<open>
  Each scraper has its own module-level dictionary \<open>abbreviations\<close>; the one of the spell
  scraper has one more entry. A dictionary is the list of its items in insertion order.
\<close>

definition abbreviations_items :: "(pystr \<times> pystr) list" where
  "abbreviations_items =
     [(ascii ''PRPG Core Rulebook'', ascii ''PF Core''),
      (ascii ''Ultimate Equipment'', ascii ''PF Ult Equip''),
      (ascii ''Ultimate Magic'', ascii ''PF Ult Magic''),
      (ascii ''Ultimate Combat'', ascii ''PF Ult Combat''),
      (ascii ''Advanced Player's Guide'', ascii ''PF Adv Play''),
      (ascii ''Advanced Class Guide'', ascii ''PF Adv Class''),
      (ascii ''Pathfinder Society Field Guide'', ascii ''PFSoc Field Guide''),
      (ascii ''Pathfinder Society Primer'', ascii ''PFSoc Primer''),
      (ascii ''Cheliax, Empire of Devils'', ascii ''PFC Cheliax''),
      (ascii ''Champions of Purity'', ascii ''PFPC Champions of Purity''),
      (ascii ''Advanced Class Origins'', ascii ''PFPC Adv Class Origins''),
      (ascii ''Magic Tactics Toolbox'', ascii ''PFPC Magic Tactics Toolbox''),
      (ascii ''Monster Codex'', ascii ''PF Monster Codex''),
      (ascii ''adept'', ascii ''ade''),
      (ascii ''alchemist'', ascii ''alc''),
      (ascii ''antipaladin'', ascii ''apal''),
      (ascii ''arcanist'', ascii ''arc''),
      (ascii ''bard'', ascii ''bar''),
      (ascii ''bloodrager'', ascii ''brag''),
      (ascii ''cleric'', ascii ''cle''),
      (ascii ''druid'', ascii ''dru''),
      (ascii ''hunter'', ascii ''hun''),
      (ascii ''inquisitor'', ascii ''inq''),
      (ascii ''investigator'', ascii ''inv''),
      (ascii ''magus'', ascii ''mag''),
      (ascii ''medium'', ascii ''med''),
      (ascii ''mesmerist'', ascii ''mes''),
      (ascii ''occultist'', ascii ''occ''),
      (ascii ''oracle'', ascii ''ora''),
      (ascii ''paladin'', ascii ''pal''),
      (ascii ''psychic'', ascii ''psy''),
      (ascii ''ranger'', ascii ''ran''),
      (ascii ''redmantisassassin'', ascii ''rma''),
      (ascii ''shaman'', ascii ''sha''),
      (ascii ''skald'', ascii ''ska''),
      (ascii ''sorcerer'', ascii ''sor''),
      (ascii ''spiritualist'', ascii ''spi''),
      (ascii ''summoner'', ascii ''sum''),
      (ascii ''summoner (unchained)'', ascii ''sumU''),
      (ascii ''warpriest'', ascii ''war''),
      (ascii ''witch'', ascii ''wit''),
      (ascii ''wizard'', ascii ''wiz'')]"

definition abbreviations_spells :: "(pystr \<times> pystr) list" where
  "abbreviations_spells =
     take 13 abbreviations_items
     @ [(ascii ''Adventurer's Guide'', ascii ''PF Adventurer Guide'')]
     @ drop 13 abbreviations_items"

text \<open>\<open>d[k]\<close> raises KeyError when \<open>k\<close> is not a key of \<open>d\<close>.\<close>

definition dict_getitem :: "('k \<times> 'v) list \<Rightarrow> 'k \<Rightarrow> error + 'v" where
  "dict_getitem d k = (case map_of d k of None \<Rightarrow> Inl KeyError | Some v \<Rightarrow> Inr v)"

definition could_not_abbreviate :: "pystr \<Rightarrow> pystr" where
  "could_not_abbreviate name = ascii ''Could not abbreviate '' @ [39] @ name @ [39]"

text \<open>
  \<open>abbreviate\<close> is the same in both scrapers but for the table it reads, which is its
  first argument here. The \<open>except KeyError\<close> clause catches that exception only.
\<close>

definition abbreviate :: "(pystr \<times> pystr) list \<Rightarrow> pystr \<Rightarrow> pystr res" where
  "abbreviate abbreviations name =
     (case dict_getitem abbreviations name of
        Inr newtxt \<Rightarrow> ret newtxt
      | Inl KeyError \<Rightarrow> bind (warn (could_not_abbreviate name)) (\<lambda>_. ret name)
      | Inl e \<Rightarrow> raise e)"

section \<open>JSON values\<close>

text \<open>
  The values the scrapers store in the dictionary they hand to \<open>json.dumps\<close>: \<open>None\<close>, a
  string, an integer, and the dictionary from class names to levels.
\<close>

datatype jval = JNull | JStr pystr | JInt int | JDict "(pystr \<times> int) list"

section \<open>The level summary of the spell scraper\<close>

text \<open>
  \<open>Counter(xs)\<close> counts the elements of \<open>xs\<close>, its items in the order of their first
  occurrence. \<open>most_common()\<close> is \<open>sorted(items, key=itemgetter(1), reverse=True)\<close>: a
  stable sort by falling count, so that equal counts keep the order of first occurrence.
\<close>

fun counter_add :: "'a \<Rightarrow> ('a \<times> nat) list \<Rightarrow> ('a \<times> nat) list" where
  "counter_add x [] = [(x, 1)]"
| "counter_add x ((y, n) # r) = (if x = y then (y, n + 1) # r else (y, n) # counter_add x r)"

definition counter :: "'a list \<Rightarrow> ('a \<times> nat) list" where
  "counter xs = foldl (\<lambda>c x. counter_add x c) [] xs"

definition most_common :: "('a \<times> nat) list \<Rightarrow> ('a \<times> nat) list" where
  "most_common c = sort_key (\<lambda>p. - int (snd p)) c"

text \<open>
  The inner loop of \<open>_level_from_classes\<close>: the abbreviated names of the classes at level
  \<open>L\<close>, in the order of the dictionary. The dictionary \<open>classes\<close> is the list of its items
  (with pairwise different keys), so \<open>classes[key]\<close> is the second component of the item.
\<close>

fun class_list_of :: "(pystr \<times> pystr) list \<Rightarrow> (pystr \<times> int) list \<Rightarrow> int \<Rightarrow> pystr list res" where
  "class_list_of abbreviations [] L = ret []"
| "class_list_of abbreviations ((key, lv) # rest) L =
     (if lv = L
      then bind (abbreviate abbreviations key) (\<lambda>a.
           bind (class_list_of abbreviations rest L) (\<lambda>as. ret (a # as)))
      else class_list_of abbreviations rest L)"

text \<open>The outer loop: one text per level, the sorted names joined by a slash.\<close>

fun levellist_of :: "(pystr \<times> pystr) list \<Rightarrow> (pystr \<times> int) list \<Rightarrow> int list \<Rightarrow> pystr list res" where
  "levellist_of abbreviations classes [] = ret []"
| "levellist_of abbreviations classes (L # Ls) =
     bind (class_list_of abbreviations classes L) (\<lambda>class_list.
     bind (levellist_of abbreviations classes Ls) (\<lambda>rest.
     ret ((py_join (ascii ''/'') (sort class_list) @ ascii '' '' @ str_int L) # rest)))"

text \<open>
  \<open>counts[0] >= sum(counts)/2\<close> compares an integer with the quotient of a true division;
  it holds exactly when twice the count is at least the sum. \<open>counts[1]\<close> is read only
  when that holds. On an empty dictionary \<open>counts[0]\<close> raises IndexError. The function
  returns an integer when there is one level and a string otherwise.
\<close>

definition level_from_classes :: "(pystr \<times> pystr) list \<Rightarrow> (pystr \<times> int) list \<Rightarrow> jval res" where
  "level_from_classes abbreviations classes =
     (let level_counter = most_common (counter (map snd classes)) in
      if length level_counter = 1 then ret (JInt (fst (level_counter ! 0)))
      else
        let counts = map snd level_counter;
            levels = map fst level_counter
        in (case counts of
              [] \<Rightarrow> raise IndexError
            | c0 # cr \<Rightarrow>
               bind (if 2 * c0 \<ge> sum_list counts
                     then (case cr of [] \<Rightarrow> raise IndexError | c1 # _ \<Rightarrow> ret (c0 > c1))
                     else ret False) (\<lambda>majority.
               let main_level = (if majority then Some (hd levels) else None);
                   levels = (if majority then tl levels else levels)
               in bind (levellist_of abbreviations classes levels) (\<lambda>levellist.
                  let leveltxt = py_join (ascii '', '') levellist
                  in (case main_level of
                        Some m \<Rightarrow> ret (JStr (str_int m @ ascii '' ('' @ leveltxt @ ascii '')''))
                      | None \<Rightarrow> ret (JStr leveltxt))))))"


text \<open>
  The summary in the specification's words: the name a class is listed under, the text of
  one group, the number of classes at a level, the level with a plurality (at least half
  of the classes and strictly more than any other level), the case of one level only, and
  the order of the groups (by falling number of classes, levels that tie in the order of
  their first class).
\<close>

definition abbr_or_name :: "(pystr \<times> pystr) list \<Rightarrow> pystr \<Rightarrow> pystr" where
  "abbr_or_name tbl k = (case map_of tbl k of Some short \<Rightarrow> short | None \<Rightarrow> k)"

definition group_text :: "(pystr \<times> pystr) list \<Rightarrow> (pystr \<times> int) list \<Rightarrow> int \<Rightarrow> pystr" where
  "group_text tbl classes L =
     py_join (ascii ''/'') (sort (map (abbr_or_name tbl) (map fst (filter (\<lambda>p. snd p = L) classes))))
     @ ascii '' '' @ str_int L"

definition level_count :: "(pystr \<times> int) list \<Rightarrow> int \<Rightarrow> nat" where
  "level_count classes L = length (filter (\<lambda>p. snd p = L) classes)"

definition plurality :: "(pystr \<times> int) list \<Rightarrow> int \<Rightarrow> bool" where
  "plurality classes m =
     (length classes \<le> 2 * level_count classes m
      \<and> (\<forall>L \<in> snd ` set classes. L \<noteq> m \<longrightarrow> level_count classes L < level_count classes m))"

definition single_level :: "(pystr \<times> int) list \<Rightarrow> bool" where
  "single_level classes = list_all (\<lambda>p. snd p = snd (hd classes)) classes"

definition levels_by_frequency :: "(pystr \<times> int) list \<Rightarrow> int list" where
  "levels_by_frequency classes =
     sort_key (\<lambda>L. - int (level_count classes L)) (rev (remdups (rev (map snd classes))))"

section \<open>Documents\<close>

text \<open>
  A parsed document is a tree of nodes: a string or an element (\<open>Tag\<close>) with its name and
  its children in order. A string is a \<open>NavigableString\<close> or an object of one of its
  subclasses, and the parser chooses the class: \<open>Comment\<close> for a comment, \<open>CData\<close>,
  \<open>Declaration\<close>, \<open>Doctype\<close> and \<open>ProcessingInstruction\<close> for the other markup declarations,
  and \<open>Script\<close>, \<open>Stylesheet\<close>, \<open>TemplateString\<close>, \<open>RubyTextString\<close> and
  \<open>RubyParenthesisString\<close> for a string below a \<open>script\<close>, \<open>style\<close>, \<open>template\<close>, \<open>rt\<close> and
  \<open>rp\<close> element. Attributes are not part of the model; the scrapers never read one.
\<close>

datatype string_class =
    NavigableString | CData | Comment | Declaration | Doctype | ProcessingInstruction
  | Script | Stylesheet | TemplateString | RubyTextString | RubyParenthesisString

datatype node = Str string_class pystr | Tag pystr "node list"

text \<open>\<open>tag.contents\<close>; \<open>isinstance(elem, Tag)\<close>; \<open>isinstance(elem, Tag) and elem.name == nm\<close>.\<close>

fun contents :: "node \<Rightarrow> node list" where
  "contents (Str c s) = []"
| "contents (Tag nm cs) = cs"

fun is_element :: "node \<Rightarrow> bool" where
  "is_element (Str c s) = False"
| "is_element (Tag nm cs) = True"

fun is_tag :: "string \<Rightarrow> node \<Rightarrow> bool" where
  "is_tag name (Str c s) = False"
| "is_tag name (Tag nm cs) = (nm = ascii name)"

text \<open>
  \<open>elem.text\<close> of an element joins the strings below it, at any depth, whose class is one
  of the element's \<open>interesting_string_types\<close>: \<open>NavigableString\<close> and \<open>CData\<close>, but for an
  element that is a string container of the HTML tree builders the class of its own
  strings. So the text of a span has neither the comments nor what stands in a script,
  a style sheet or a template, while the text of a \<open>script\<close> element is the script
  (BeautifulSoup 4.10 and later). \<open>all_strings\<close> compares the class itself, not its
  superclasses, as \<open>_all_strings\<close> does.
\<close>

definition string_containers :: "(pystr \<times> string_class) list" where
  "string_containers =
     [(ascii ''rt'', RubyTextString), (ascii ''rp'', RubyParenthesisString),
      (ascii ''style'', Stylesheet), (ascii ''script'', Script),
      (ascii ''template'', TemplateString)]"

definition interesting_string_types :: "pystr \<Rightarrow> string_class list" where
  "interesting_string_types nm =
     (case map_of string_containers nm of
        None \<Rightarrow> [NavigableString, CData]
      | Some c \<Rightarrow> [c])"

fun all_strings :: "string_class list \<Rightarrow> node \<Rightarrow> pystr" where
  "all_strings types (Str c s) = (if c \<in> set types then s else [])"
| "all_strings types (Tag nm cs) = concat (map (all_strings types) cs)"

text \<open>
  The scrapers take \<open>elem.text\<close> of an element and \<open>str(elem)\<close> of a string; a string of
  any class is a Python \<open>str\<close>, and \<open>str\<close> of it is its content.
\<close>

fun node_text :: "node \<Rightarrow> pystr" where
  "node_text (Str c s) = s"
| "node_text (Tag nm cs) = concat (map (all_strings (interesting_string_types nm)) cs)"

text \<open>
  \<open>tag.string\<close>: an only child that is a string, of any class; the \<open>string\<close> of an only
  child that is an element; and \<open>None\<close> for an element with no or several children.
\<close>

fun node_string :: "node \<Rightarrow> pystr option" where
  "node_string (Str c s) = Some s"
| "node_string (Tag nm [n]) = node_string n"
| "node_string (Tag nm cs) = None"

text \<open>
  \<open>tag.find(...)\<close> returns the first element below \<open>tag\<close>, in document order, that
  matches. \<open>find_first\<close> searches a list of siblings and what is below them, and returns
  the element with the siblings that follow it (its \<open>next_siblings\<close>).
\<close>

fun find_first :: "(node \<Rightarrow> bool) \<Rightarrow> node list \<Rightarrow> (node \<times> node list) option" where
  "find_first p [] = None"
| "find_first p (Str c s # ns) = find_first p ns"
| "find_first p (Tag nm cs # ns) =
     (if p (Tag nm cs) then Some (Tag nm cs, ns)
      else (case find_first p cs of Some r \<Rightarrow> Some r | None \<Rightarrow> find_first p ns))"

text \<open>\<open>tag.find_all(name)\<close>: all elements of that name below \<open>tag\<close>, in document order.\<close>

fun find_all :: "(node \<Rightarrow> bool) \<Rightarrow> node list \<Rightarrow> node list" where
  "find_all p [] = []"
| "find_all p (Str c s # ns) = find_all p ns"
| "find_all p (Tag nm cs # ns) =
     (if p (Tag nm cs) then [Tag nm cs] else []) @ find_all p cs @ find_all p ns"

text \<open>\<open>tag.find(name)\<close>, also written \<open>tag.name\<close>, as in \<open>span.h1\<close>.\<close>

definition find_tag :: "string \<Rightarrow> node \<Rightarrow> node option" where
  "find_tag name tag = map_option fst (find_first (is_tag name) (contents tag))"

text \<open>
  \<open>tag.find(name, string=label)\<close>: the first element of that name whose \<open>string\<close> is the
  label. The result here is the list of the siblings after it, which is all the scrapers
  use of it.
\<close>

definition labelled :: "string \<Rightarrow> string \<Rightarrow> node \<Rightarrow> bool" where
  "labelled name label n = (is_tag name n \<and> node_string n = Some (ascii label))"

definition find_label :: "string \<Rightarrow> string \<Rightarrow> node \<Rightarrow> node list option" where
  "find_label name label tag = map_option snd (find_first (labelled name label) (contents tag))"

text \<open>
  \<open>str(tag.next_sibling)\<close>: \<open>None\<close> prints as the word None, a string as its content, and
  an element as its markup. The markup of an element without attributes: its children
  between the opening and the closing tag; an empty void element is written \<open><br/>\<close>.
  In the markup a comment and the other declarations stand between their delimiters; any
  other string has its ampersands and angle brackets escaped, unless its parent is a
  \<open>script\<close> or a \<open>style\<close> element.
\<close>

definition void_elements :: "string list" where
  "void_elements =
     [''area'', ''base'', ''br'', ''col'', ''embed'', ''hr'', ''img'', ''input'', ''keygen'',
      ''link'', ''menuitem'', ''meta'', ''param'', ''source'', ''track'', ''wbr'',
      ''basefont'', ''bgsound'', ''command'', ''frame'', ''image'', ''isindex'', ''nextid'',
      ''spacer'']"

definition escape_markup :: "pystr \<Rightarrow> pystr" where
  "escape_markup s =
     py_replace (ascii ''>'') (ascii ''&gt;'')
       (py_replace (ascii ''<'') (ascii ''&lt;'')
         (py_replace (ascii ''&'') (ascii ''&amp;'') s))"

definition cdata_containing_tags :: "string list" where
  "cdata_containing_tags = [''script'', ''style'']"

fun string_markup :: "pystr \<Rightarrow> string_class \<Rightarrow> pystr \<Rightarrow> pystr" where
  "string_markup parent Comment s = ascii ''<!--'' @ s @ ascii ''-->''"
| "string_markup parent CData s = ascii ''<![CDATA['' @ s @ ascii '']]>''"
| "string_markup parent Declaration s = ascii ''<?'' @ s @ ascii ''?>''"
| "string_markup parent Doctype s = ascii ''<!DOCTYPE '' @ s @ ascii ''>'' @ [10]"
| "string_markup parent ProcessingInstruction s = ascii ''<?'' @ s @ ascii ''>''"
| "string_markup parent c s =
     (if parent \<in> set (map ascii cdata_containing_tags) then s else escape_markup s)"

fun node_markup :: "pystr \<Rightarrow> node \<Rightarrow> pystr" where
  "node_markup parent (Str c s) = string_markup parent c s"
| "node_markup parent (Tag nm cs) =
     (if cs = [] \<and> nm \<in> set (map ascii void_elements) then ascii ''<'' @ nm @ ascii ''/>''
      else ascii ''<'' @ nm @ ascii ''>'' @ concat (map (node_markup nm) cs)
           @ ascii ''</'' @ nm @ ascii ''>'')"

definition str_next_sibling :: "node list \<Rightarrow> pystr" where
  "str_next_sibling siblings =
     (case siblings of
        [] \<Rightarrow> ascii ''None''
      | Str c s # _ \<Rightarrow> s
      | Tag nm cs # _ \<Rightarrow> node_markup [] (Tag nm cs))"

text \<open>
  The loops over \<open>tag.next_siblings\<close> stop at the first element with one of the given
  names (\<open>break\<close>); \<open>until names siblings\<close> is what they see before.
\<close>

definition until :: "string list \<Rightarrow> node list \<Rightarrow> node list" where
  "until names siblings = takeWhile (\<lambda>e. \<not> list_ex (\<lambda>nm. is_tag nm e) names) siblings"

text \<open>\<open>s[:i]\<close> where \<open>i\<close> is the result of \<open>find\<close>: with -1 the last character is cut off.\<close>

definition slice_to :: "nat option \<Rightarrow> pystr \<Rightarrow> pystr" where
  "slice_to ind s = (case ind of None \<Rightarrow> butlast s | Some i \<Rightarrow> take i s)"

text \<open>\<open>s[a:b]\<close> for indices that are not negative.\<close>

definition slice :: "nat \<Rightarrow> nat \<Rightarrow> pystr \<Rightarrow> pystr" where
  "slice a b s = take (b - a) (drop a s)"

definition quoted :: "string \<Rightarrow> pystr" where
  "quoted s = [39] @ ascii s @ [39]"

section \<open>Fields common to both scrapers\<close>

definition name_from_span :: "node \<Rightarrow> pystr option res" where
  "name_from_span span =
     (case find_tag ''h1'' span of
        None \<Rightarrow> raise AttributeError
      | Some h1 \<Rightarrow> ret (Some (strip_ws (node_text h1))))"

text \<open>
  \<open>_parse_basic_text\<close> reads \<open>item.children\<close>, which a string does not have: on a string
  the attribute access raises AttributeError.
\<close>

fun parse_basic_elem :: "node \<Rightarrow> pystr res" where
  "parse_basic_elem (Str c s) = ret s"
| "parse_basic_elem (Tag nm cs) =
     (if nm = ascii ''b'' then ret ([92] @ ascii ''textbf{'' @ node_text (Tag nm cs) @ ascii ''}'')
      else if nm = ascii ''i'' then ret ([92] @ ascii ''textit{'' @ node_text (Tag nm cs) @ ascii ''}'')
      else bind (warn (ascii ''Found unknown tag '' @ [39] @ node_text (Tag nm cs) @ [39]
                       @ ascii ''.''))
             (\<lambda>_. ret (node_text (Tag nm cs))))"

fun collect :: "('a \<Rightarrow> 'b res) \<Rightarrow> 'a list \<Rightarrow> 'b list res" where
  "collect f [] = ret []"
| "collect f (x # xs) = bind (f x) (\<lambda>y. bind (collect f xs) (\<lambda>ys. ret (y # ys)))"

definition parse_basic_text :: "node \<Rightarrow> pystr res" where
  "parse_basic_text item =
     (case item of
        Str c s \<Rightarrow> raise AttributeError
      | Tag nm cs \<Rightarrow> bind (collect parse_basic_elem cs) (\<lambda>text_list. ret (concat text_list)))"

definition ul_process :: "node \<Rightarrow> pystr res" where
  "ul_process ul =
     bind (collect parse_basic_text (contents ul)) (\<lambda>item_list.
       ret ([10] @ py_join [10] item_list @ [10]))"

definition table_row :: "node \<Rightarrow> pystr list res" where
  "table_row row =
     (case row of
        Str c s \<Rightarrow> ret []
      | Tag nm cs \<Rightarrow> bind (collect parse_basic_text cs) (\<lambda>row_list.
          ret [py_join (ascii ''&'') row_list, [92, 92]]))"

definition htmltable2latex :: "node \<Rightarrow> pystr res" where
  "htmltable2latex table =
     (case find_tag ''tr'' table of
        None \<Rightarrow> raise AttributeError
      | Some tr \<Rightarrow>
          bind (collect table_row (contents table)) (\<lambda>rows.
            ret ([92] @ ascii ''begin{tabular}''
                 @ ascii ''{'' @ replicate (length (contents tr)) (of_char CHR ''c'') @ ascii ''}''
                 @ concat (concat rows)
                 @ [92] @ ascii ''end{tabular}'')))"

text \<open>One element of the description; the elements that end it are cut off before.\<close>

definition description_elem :: "node \<Rightarrow> pystr res" where
  "description_elem elem =
     (case elem of
        Str c s \<Rightarrow> ret s
      | Tag nm cs \<Rightarrow>
          if nm = ascii ''br'' then ret ([92, 92])
          else if nm = ascii ''b'' then ret ([92] @ ascii ''textbf{'' @ node_text elem @ ascii ''}'')
          else if nm = ascii ''i'' then ret ([92] @ ascii ''textit{'' @ node_text elem @ ascii ''}'')
          else if nm = ascii ''ul'' then ul_process elem
          else if nm = ascii ''table'' then htmltable2latex elem
          else bind (warn (ascii ''Found unknown tag '' @ [39] @ nm @ [39]
                           @ ascii '' in Description.''))
                 (\<lambda>_. ret (node_text elem)))"


section \<open>Records\<close>

text \<open>
  The dictionary \<open>json\<close> that \<open>soup2dict\<close> fills, as the list of its items in insertion
  order; \<open>json[k] = v\<close> replaces the value of a key that is present and appends a new key.
  \<open>soup2dict\<close> is a sequence of statements on \<open>json\<close>; \<open>run\<close> executes them in order and
  stops at the first exception. \<open>store k m\<close> is \<open>x = m; if x is not None: json[k] = x\<close>.
\<close>

type_synonym jdict = "(pystr \<times> jval) list"

definition setitem :: "string \<Rightarrow> jval \<Rightarrow> jdict \<Rightarrow> jdict" where
  "setitem k v json = AList.update (ascii k) v json"

fun run :: "('s \<Rightarrow> 's res) list \<Rightarrow> 's \<Rightarrow> 's res" where
  "run [] json = ret json"
| "run (stmt # stmts) json = bind (stmt json) (run stmts)"

definition store :: "string \<Rightarrow> pystr option res \<Rightarrow> jdict \<Rightarrow> jdict res" where
  "store k m json =
     bind m (\<lambda>x. ret (case x of None \<Rightarrow> json | Some v \<Rightarrow> setitem k (JStr v) json))"

text \<open>\<open>None\<close> and a string as JSON values.\<close>

definition jstr_or_null :: "pystr option \<Rightarrow> jval" where
  "jstr_or_null x = (case x of None \<Rightarrow> JNull | Some v \<Rightarrow> JStr v)"

text \<open>
  The warning of most functions that look for a label; some of them add a full stop.
\<close>

definition could_not_find_tag :: "string \<Rightarrow> string \<Rightarrow> pystr" where
  "could_not_find_tag label element =
     ascii ''Could not find '' @ ascii label @ ascii '' tag. Skipping element ''
     @ quoted element"

section \<open>The spell scraper\<close>

definition source_from_span_spells :: "(pystr \<times> pystr) list \<Rightarrow> node \<Rightarrow> pystr option res" where
  "source_from_span_spells abbreviations span =
     (case find_label ''b'' ''Source'' span of
        None \<Rightarrow>
          bind (warn (could_not_find_tag ''Source'' ''source'')) (\<lambda>_. ret None)
      | Some siblings \<Rightarrow>
          (case map node_text (filter (is_tag ''a'') (until [''b''] siblings)) of
             [] \<Rightarrow>
               bind (warn (ascii ''No sources detected. Skipping element '' @ quoted ''source''
                           @ ascii ''.''))
                 (\<lambda>_. ret None)
           | source # more \<Rightarrow>
               if py_in (ascii ''PRPG Core Rulebook'') (concat (source # more))
               then ret (Some (ascii ''PF Core''))
               else bind (abbreviate abbreviations
                            (slice_to (py_find (ascii '' pg. '') source) source))
                      (\<lambda>a. ret (Some a))))"

definition school_from_span :: "node \<Rightarrow> pystr option res" where
  "school_from_span span =
     (case find_label ''b'' ''School'' span of
        None \<Rightarrow>
          bind (warn (could_not_find_tag ''School'' ''school'' @ ascii ''.'')) (\<lambda>_. ret None)
      | Some siblings \<Rightarrow>
          let text_list = map node_text (until [''b''] siblings);
              school = py_replace (ascii '' '') [] (strip_chars '' ;'' (concat text_list));
              school = py_replace (ascii ''seetext'') (ascii ''see text'') school;
              school = py_replace (ascii '','') (ascii '', '') school
          in ret (Some school))"

definition get_text_from_simple_tag :: "node \<Rightarrow> string \<Rightarrow> string option \<Rightarrow> pystr option res" where
  "get_text_from_simple_tag span label warnname =
     (case find_label ''b'' label span of
        None \<Rightarrow>
          (case warnname of
             None \<Rightarrow> ret None
           | Some w \<Rightarrow>
               bind (warn (could_not_find_tag label w @ ascii ''.'')) (\<lambda>_. ret None))
      | Some siblings \<Rightarrow> ret (Some (str_next_sibling siblings)))"

text \<open>
  \<open>int(c)\<close> of a string of one character: the value of a decimal digit, ValueError for any
  other character. Python accepts every character of the Unicode category Nd; they come
  in runs of ten, listed here by the code point of their zero (Unicode 14).
\<close>

definition decimal_zeros :: "codepoint list" where
  "decimal_zeros =
     [48, 1632, 1776, 1984, 2406, 2534, 2662, 2790, 2918, 3046, 3174, 3302, 3430, 3558,
      3664, 3792, 3872, 4160, 4240, 6112, 6160, 6470, 6608, 6784, 6800, 6992, 7088, 7232,
      7248, 42528, 43216, 43264, 43472, 43504, 43600, 44016, 65296, 66720, 68912, 69734,
      69872, 69942, 70096, 70384, 70736, 70864, 71248, 71360, 71472, 71904, 72016, 72784,
      73040, 73120, 92768, 92864, 93008, 120782, 120792, 120802, 120812, 120822, 123200,
      123632, 125264, 130032]"

definition int_of_char :: "codepoint \<Rightarrow> error + int" where
  "int_of_char c =
     (case filter (\<lambda>z. z \<le> c \<and> c < z + 10) decimal_zeros of
        [] \<Rightarrow> Inl ValueError
      | z # _ \<Rightarrow> Inr (int (c - z)))"

text \<open>The loop of \<open>_classes_from_span\<close>; \<open>item[-1]\<close> raises IndexError on an empty item.\<close>

fun classes_loop :: "pystr list \<Rightarrow> (pystr \<times> int) list \<Rightarrow> (pystr \<times> int) list res" where
  "classes_loop [] class_dict = ret class_dict"
| "classes_loop (item # text_list) class_dict =
     (if item = [] then raise IndexError
      else (case int_of_char (last item) of
              Inl e \<Rightarrow> raise e
            | Inr level \<Rightarrow>
                classes_loop text_list
                  (AList.update (strip_ws (butlast item)) level class_dict)))"

definition classes_from_span :: "node \<Rightarrow> (pystr \<times> int) list option res" where
  "classes_from_span span =
     bind (get_text_from_simple_tag span ''Level'' (Some ''classes'')) (\<lambda>text.
       case text of
         None \<Rightarrow> ret None
       | Some t \<Rightarrow> bind (classes_loop (py_split (ascii '','') t) []) (\<lambda>d. ret (Some d)))"

definition time_from_span :: "node \<Rightarrow> pystr option res" where
  "time_from_span span =
     bind (get_text_from_simple_tag span ''Casting Time'' (Some ''time'')) (\<lambda>time.
       ret (map_option (\<lambda>t. texify (strip_chars '' ;.'' t)) time))"

definition components_from_span :: "node \<Rightarrow> pystr option res" where
  "components_from_span span =
     bind (get_text_from_simple_tag span ''Components'' (Some ''components'')) (\<lambda>comp.
       ret (map_option (\<lambda>comp.
         let comp = texify (strip_chars '' ;.'' comp);
             comp = re_sub (cls_seq [\<lambda>c. c \<in> set (ascii ''VSMF)''), \<lambda>c. c = 44, \<lambda>c. c = 32])
                      (\<lambda>m. take 1 m @ ascii '','') comp;
             comp = re_sub (cls_seq [\<lambda>c. c \<in> set (ascii ''MF''), \<lambda>c. c = 32, \<lambda>c. c = 40])
                      (\<lambda>m. take 1 m @ ascii ''('') comp;
             comp = re_sub (lit (ascii '' gp'')) (\<lambda>_. ascii ''gp'') comp;
             comp = re_sub (lit (ascii '' lbs.'')) (\<lambda>_. ascii ''lb'') comp
         in comp) comp))"

definition range_from_span :: "node \<Rightarrow> pystr option res" where
  "range_from_span span =
     bind (get_text_from_simple_tag span ''Range'' (Some ''range'')) (\<lambda>range.
       ret (map_option (\<lambda>range.
         let range = texify (strip_chars '' ;.'' range) in
         (case filter (\<lambda>opt. prefix (ascii opt) range) [''close'', ''medium'', ''long''] of
            opt # _ \<Rightarrow> ascii opt
          | [] \<Rightarrow>
              let range = re_sub (cls_seq [\<lambda>c. c = 32, \<lambda>c. c = 102, \<lambda>c. c = 116, \<lambda>c. c \<noteq> 10])
                            (\<lambda>_. ascii ''ft'') range;
                  range = re_sub (lit (ascii '' ft'')) (\<lambda>_. ascii ''ft'') range
              in range)) range))"

definition ATE_from_span :: "node \<Rightarrow> string \<Rightarrow> pystr option res" where
  "ATE_from_span span ATE =
     bind (get_text_from_simple_tag span ATE None) (\<lambda>text.
       ret (map_option (\<lambda>text.
         let text = texify (strip_chars '' ;.'' text);
             text = re_sub (alt (lit (ascii ''levels'')) (lit (ascii ''level'')))
                      (\<lambda>_. ascii ''lvl'') text;
             text = py_replace (ascii '' per '') (ascii ''/'') text;
             text = re_sub (cls_seq [\<lambda>c. c = 32 \<or> c = 45, \<lambda>c. c = 102, \<lambda>c. c = 116, \<lambda>c. c = 46])
                      (\<lambda>_. ascii ''ft'') text;
             text = re_sub (cls_seq [\<lambda>c. c = 32, \<lambda>c. c = 108, \<lambda>c. c = 98, \<lambda>c. c = 115,
                                     \<lambda>c. c \<noteq> 10])
                      (\<lambda>_. ascii ''lb'') text
         in text) text))"

definition area_from_span :: "node \<Rightarrow> pystr option res" where
  "area_from_span span = ATE_from_span span ''Area''"

definition target_from_span :: "node \<Rightarrow> pystr option res" where
  "target_from_span span =
     bind (ATE_from_span span ''Target'') (\<lambda>target.
       case target of
         None \<Rightarrow> ATE_from_span span ''Targets''
       | Some t \<Rightarrow> ret (Some t))"

definition effect_from_span :: "node \<Rightarrow> pystr option res" where
  "effect_from_span span = ATE_from_span span ''Effect''"

text \<open>
  \<open>_duration_from_span\<close> warns when the label is missing and goes on to call
  \<open>duration.replace\<close>, which raises AttributeError on \<open>None\<close>.
\<close>

definition duration_from_span :: "node \<Rightarrow> pystr option res" where
  "duration_from_span span =
     bind (ATE_from_span span ''Duration'') (\<lambda>duration.
       case duration of
         None \<Rightarrow>
           bind (warn (could_not_find_tag ''Duration'' ''duration'' @ ascii ''.''))
             (\<lambda>_. raise AttributeError)
       | Some d \<Rightarrow>
           let d = py_replace (ascii ''min.'') (ascii ''min'') d;
               d = re_sub (alt (lit (ascii ''minutes'')) (lit (ascii ''minute'')))
                     (\<lambda>_. ascii ''min'') d
           in ret (Some d))"

definition save_from_span :: "node \<Rightarrow> pystr option res" where
  "save_from_span span =
     bind (get_text_from_simple_tag span ''Saving Throw'' None) (\<lambda>save.
       case save of
         None \<Rightarrow> ret (Some (ascii ''none''))
       | Some save \<Rightarrow>
           let save = strip_chars '' ;.'' save;
               save = py_replace (ascii ''Reflex'') (ascii ''Ref'') save;
               save = py_replace (ascii ''Fortitude'') (ascii ''Fort'') save
           in ret (Some save))"

definition sr_from_span :: "node \<Rightarrow> pystr option res" where
  "sr_from_span span =
     bind (get_text_from_simple_tag span ''Spell Resistance'' None) (\<lambda>sr.
       case sr of
         None \<Rightarrow> ret (Some (ascii ''no''))
       | Some sr \<Rightarrow> ret (Some (strip_chars '' ;.'' sr)))"

definition description_from_span_spells :: "node \<Rightarrow> pystr option res" where
  "description_from_span_spells span =
     (case find_label ''h3'' ''Description'' span of
        None \<Rightarrow>
          bind (warn (could_not_find_tag ''Description'' ''description'')) (\<lambda>_. ret None)
      | Some siblings \<Rightarrow>
          bind (collect description_elem (until [''h3'', ''h2'', ''h1''] siblings))
            (\<lambda>text_list. ret (Some (texify (concat text_list)))))"

text \<open>
  The statements of \<open>soup2dict\<close> that are not of the form of \<open>store\<close>: the classes with
  the level summary, and the three fields area, target and effect, which are assigned
  whether or not they are \<open>None\<close>.
\<close>

definition store_classes :: "(pystr \<times> pystr) list \<Rightarrow> node \<Rightarrow> jdict \<Rightarrow> jdict res" where
  "store_classes abbreviations span json =
     bind (classes_from_span span) (\<lambda>classes.
       case classes of
         None \<Rightarrow> ret json
       | Some d \<Rightarrow>
           bind (level_from_classes abbreviations d) (\<lambda>level.
             ret (setitem ''level'' level (setitem ''classes'' (JDict d) json))))"

definition store_ATE :: "node \<Rightarrow> jdict \<Rightarrow> jdict res" where
  "store_ATE span json =
     bind (area_from_span span) (\<lambda>area.
     bind (target_from_span span) (\<lambda>target.
     bind (effect_from_span span) (\<lambda>effect.
     bind (if area = None \<and> target = None \<and> effect = None
           then warn (ascii ''No Area, Target or Effect found.'') else ret ()) (\<lambda>_.
     ret (setitem ''effect'' (jstr_or_null effect)
           (setitem ''target'' (jstr_or_null target)
             (setitem ''area'' (jstr_or_null area) json)))))))"

text \<open>
  The span the spell scraper reads: the first \<open>span\<close> below the first \<open>table\<close>, or, when
  that one has no children, the first later \<open>span\<close> of the table that has some. An
  attribute of \<open>None\<close> raises AttributeError; the loop raises ValueError at the end of the
  list of spans.
\<close>

fun next_nonempty :: "node list \<Rightarrow> node res" where
  "next_nonempty [] = raise ValueError"
| "next_nonempty (span # spans) = (if contents span \<noteq> [] then ret span else next_nonempty spans)"

definition select_span_spells :: "node \<Rightarrow> node res" where
  "select_span_spells soup =
     (case find_tag ''table'' soup of
        None \<Rightarrow> raise AttributeError
      | Some table \<Rightarrow>
          (case find_tag ''span'' table of
             None \<Rightarrow> raise AttributeError
           | Some span \<Rightarrow>
               if contents span \<noteq> [] then ret span
               else next_nonempty (drop 1 (find_all (is_tag ''span'') (contents table)))))"

text \<open>The statements of \<open>soup2dict\<close> that follow the choice of the span, in order.\<close>

definition spells_statements ::
  "(pystr \<times> pystr) list \<Rightarrow> node \<Rightarrow> (jdict \<Rightarrow> jdict res) list" where
  "spells_statements abbreviations span =
     [store ''name'' (name_from_span span),
      store ''source'' (source_from_span_spells abbreviations span),
      store ''school'' (school_from_span span),
      store_classes abbreviations span,
      store ''time'' (time_from_span span),
      store ''components'' (components_from_span span),
      store ''range'' (range_from_span span),
      store_ATE span,
      store ''duration'' (duration_from_span span),
      store ''save'' (save_from_span span),
      store ''sr'' (sr_from_span span),
      store ''description'' (description_from_span_spells span)]"

definition soup2dict_spells :: "(pystr \<times> pystr) list \<Rightarrow> node \<Rightarrow> jdict res" where
  "soup2dict_spells abbreviations soup =
     bind (select_span_spells soup) (\<lambda>span. run (spells_statements abbreviations span) [])"

section \<open>The item scraper\<close>

text \<open>
  \<open>_source_from_span\<close> and \<open>_aura_from_span\<close> of the item scraper search the text of the
  span. \<open>startind < len("Source ")\<close> holds exactly when \<open>find\<close> returned -1. Both functions
  fall off their end, returning \<open>None\<close>, after a warning.
\<close>

definition source_from_span_items :: "(pystr \<times> pystr) list \<Rightarrow> node \<Rightarrow> pystr option res" where
  "source_from_span_items abbreviations span =
     (let spantxt = node_text span in
      case py_find (ascii ''Source '') spantxt of
        None \<Rightarrow>
          bind (warn (ascii ''We could not find '' @ quoted ''Source ''
                      @ ascii ''. Skipping element '' @ quoted ''source''))
            (\<lambda>_. ret None)
      | Some i \<Rightarrow>
          (case py_find (ascii ''Aura'') spantxt of
             None \<Rightarrow>
               bind (warn (ascii ''We could not find '' @ quoted ''Aura''
                           @ ascii ''. Skipping element '' @ quoted ''source''))
                 (\<lambda>_. ret None)
           | Some endind \<Rightarrow>
               let startind = i + length (ascii ''Source '') in
               if py_in (ascii ''PRPG Core Rulebook'') (slice startind endind spantxt)
               then ret (Some (ascii ''PF Core''))
               else (case rev (py_split (ascii '', '') (slice startind endind spantxt)) of
                       [] \<Rightarrow> raise IndexError
                     | source # _ \<Rightarrow>
                         bind (abbreviate abbreviations
                                 (slice_to (py_find (ascii '' pg. '') source) source))
                           (\<lambda>a. ret (Some a)))))"

definition aura_from_span :: "node \<Rightarrow> pystr option res" where
  "aura_from_span span =
     (let spantxt = node_text span in
      case py_find (ascii ''Aura '') spantxt of
        None \<Rightarrow>
          bind (warn (ascii ''We could not find '' @ quoted ''Aura ''
                      @ ascii ''. Skipping element '' @ quoted ''aura''))
            (\<lambda>_. ret None)
      | Some i \<Rightarrow>
          (case py_find (ascii ''CL'') spantxt of
             None \<Rightarrow>
               bind (warn (ascii ''We could not find '' @ quoted ''CL''
                           @ ascii ''. Skipping element '' @ quoted ''aura''))
                 (\<lambda>_. ret None)
           | Some endind \<Rightarrow>
               ret (Some (strip_chars '' ;''
                            (slice (i + length (ascii ''Aura '')) endind spantxt)))))"

definition CL_from_span :: "node \<Rightarrow> pystr option res" where
  "CL_from_span span =
     (case find_label ''b'' ''CL'' span of
        None \<Rightarrow> bind (warn (could_not_find_tag ''CL'' ''cl'')) (\<lambda>_. ret None)
      | Some siblings \<Rightarrow>
          ret (Some (re_sub (cls_seq [\<lambda>c. \<not> (48 \<le> c \<and> c \<le> 57)]) (\<lambda>_. [])
                       (str_next_sibling siblings))))"

text \<open>\<open>slot[-1]\<close> raises IndexError when nothing is left of the text after \<open>strip\<close>.\<close>

definition drop_semicolon :: "pystr \<Rightarrow> pystr res" where
  "drop_semicolon s =
     (if s = [] then raise IndexError
      else if last s = 59 then ret (butlast s) else ret s)"

definition slot_from_span :: "node \<Rightarrow> pystr option res" where
  "slot_from_span span =
     (case find_label ''b'' ''Slot'' span of
        None \<Rightarrow> bind (warn (could_not_find_tag ''Slot'' ''slot'')) (\<lambda>_. ret None)
      | Some siblings \<Rightarrow>
          bind (drop_semicolon (strip_ws (str_next_sibling siblings))) (\<lambda>slot.
            ret (Some (if slot = [8212] then ascii ''--'' else slot))))"

definition price_from_span :: "node \<Rightarrow> pystr option res" where
  "price_from_span span =
     (case find_label ''b'' ''Price'' span of
        None \<Rightarrow> bind (warn (could_not_find_tag ''Price'' ''price'')) (\<lambda>_. ret None)
      | Some siblings \<Rightarrow>
          bind (drop_semicolon
                  (strip_ws (concat (map node_text (until [''b'', ''h3''] siblings)))))
            (\<lambda>price. ret (Some price)))"

definition weight_from_span :: "node \<Rightarrow> pystr option res" where
  "weight_from_span span =
     (case find_label ''b'' ''Weight'' span of
        None \<Rightarrow> bind (warn (could_not_find_tag ''Weight'' ''weight'')) (\<lambda>_. ret None)
      | Some siblings \<Rightarrow>
          let slot = strip_chars '' ;.'' (str_next_sibling siblings)
          in ret (Some (if slot = [8212] then ascii ''--'' else slot)))"

definition description_from_span_items :: "node \<Rightarrow> pystr option res" where
  "description_from_span_items span =
     (case find_label ''h3'' ''Description'' span of
        None \<Rightarrow>
          bind (warn (could_not_find_tag ''Description'' ''description'')) (\<lambda>_. ret None)
      | Some siblings \<Rightarrow>
          bind (collect description_elem (until [''h3''] siblings)) (\<lambda>text_list.
          bind (if list_ex (is_tag ''h3'') siblings then ret ()
                else warn (ascii ''Did not find h3 block after Description.'')) (\<lambda>_.
          ret (Some (texify (concat text_list))))))"

text \<open>
  \<open>_construction_from_span\<close>. \<open>tag.next_sibling\<close> of the heading is \<open>None\<close> when nothing
  follows it, and \<open>None.next_siblings\<close> raises AttributeError. \<open>italic_list\<close> holds the
  indices of the elements among the collected nodes, in rising order, so its minimum is
  its head and its maximum its last entry. An empty result becomes \<open>None\<close>.
\<close>

definition none_if_empty :: "pystr \<Rightarrow> pystr option" where
  "none_if_empty s = (if s = [] then None else Some s)"

definition construction_split :: "node list \<Rightarrow> pystr option \<times> pystr option \<times> pystr option" where
  "construction_split tag_list =
     (let text_list = map node_text tag_list;
          italic_list = filter (\<lambda>i. is_element (tag_list ! i)) [0..<length tag_list];
          (feat, spells, others) =
            (case italic_list of
               [] \<Rightarrow>
                 let splittxt = py_split (ascii '', '') (concat text_list);
                     feat_list = filter (\<lambda>s. py_in (ascii ''Craft'') s \<or> py_in (ascii ''Forge'') s)
                                   splittxt;
                     other_list = filter (\<lambda>s. \<not> (py_in (ascii ''Craft'') s \<or> py_in (ascii ''Forge'') s))
                                    splittxt
                 in (py_join (ascii '', '') feat_list, [], py_join (ascii '', '') other_list)
             | lo # _ \<Rightarrow>
                 let hi = last italic_list
                 in (concat (take lo text_list),
                     concat (take (hi + 1 - lo) (drop lo text_list)),
                     concat (drop (hi + 1) text_list)));
          feat = strip_chars '' ,.;:'' feat;
          others = strip_chars '' ,.;:'' others;
          spells = strip_chars '' ,.;:'' spells;
          feat = (if drop (length feat - 4) feat = ascii '' and''
                  then take (length feat - 4) feat else feat);
          feat = texify feat;
          spells = texify spells;
          others = texify others
      in (none_if_empty feat, none_if_empty spells, none_if_empty others))"

definition construction_from_span ::
  "node \<Rightarrow> (pystr option \<times> pystr option \<times> pystr option) option res" where
  "construction_from_span span =
     (case find_label ''h3'' ''Construction'' span of
        None \<Rightarrow>
          bind (warn (ascii ''Could not find Construction tag. Skipping.'')) (\<lambda>_. ret None)
      | Some [] \<Rightarrow> raise AttributeError
      | Some (tag # siblings) \<Rightarrow> ret (Some (construction_split (until [''b''] siblings))))"

text \<open>
  \<open>feat, spells, others = _construction_from_span(span)\<close>: unpacking \<open>None\<close> raises
  TypeError. The three keys are assigned whatever the values are.
\<close>

definition store_construction :: "node \<Rightarrow> jdict \<Rightarrow> jdict res" where
  "store_construction span json =
     bind (construction_from_span span) (\<lambda>c.
       case c of
         None \<Rightarrow> raise TypeError
       | Some (feat, spells, others) \<Rightarrow>
           ret (setitem ''other_requirements'' (jstr_or_null others)
                 (setitem ''spells'' (jstr_or_null spells)
                   (setitem ''feat'' (jstr_or_null feat) json))))"

text \<open>
  \<open>span = soup.table.span\<close>; when the table has no span, \<open>span\<close> is \<open>None\<close> and the next
  statement, which reads \<open>span.h1\<close>, raises AttributeError.
\<close>

definition select_span_items :: "node \<Rightarrow> node res" where
  "select_span_items soup =
     (case find_tag ''table'' soup of
        None \<Rightarrow> raise AttributeError
      | Some table \<Rightarrow>
          (case find_tag ''span'' table of
             None \<Rightarrow> raise AttributeError
           | Some span \<Rightarrow> ret span))"

text \<open>The statements of \<open>soup2dict\<close> that follow the choice of the span, in order.\<close>

definition items_statements ::
  "(pystr \<times> pystr) list \<Rightarrow> node \<Rightarrow> (jdict \<Rightarrow> jdict res) list" where
  "items_statements abbreviations span =
     [store ''name'' (name_from_span span),
      store ''source'' (source_from_span_items abbreviations span),
      store ''aura'' (aura_from_span span),
      store ''cl'' (CL_from_span span),
      store ''slot'' (slot_from_span span),
      store ''price'' (price_from_span span),
      store ''weight'' (weight_from_span span),
      store ''description'' (description_from_span_items span),
      store_construction span]"

definition soup2dict_items :: "(pystr \<times> pystr) list \<Rightarrow> node \<Rightarrow> jdict res" where
  "soup2dict_items abbreviations soup =
     bind (select_span_items soup) (\<lambda>span. run (items_statements abbreviations span) [])"

section \<open>Document literals\<close>

text \<open>An element and a plain string with ASCII names and texts, to write documents down.\<close>

definition el :: "string \<Rightarrow> node list \<Rightarrow> node" where
  "el nm cs = Tag (ascii nm) cs"

definition tx :: "string \<Rightarrow> node" where
  "tx s = Str NavigableString (ascii s)"

text \<open>
  The value of a key in the record that \<open>soup2dict\<close> returned: \<open>None\<close> when it raised or
  when the record has no such key.
\<close>

definition field :: "string \<Rightarrow> jdict res \<Rightarrow> jval option" where
  "field k r = (case snd r of Inl e \<Rightarrow> None | Inr json \<Rightarrow> map_of json (ascii k))"

section \<open>Sample documents\<close>

text \<open>An item page with no Construction heading, and a spell page with no Duration label.\<close>

definition item_without_construction :: node where
  "item_without_construction =
     el ''html'' [el ''table'' [el ''span''
       [el ''h1'' [tx ''Ring of Protection''],
        el ''b'' [tx ''Source''], tx '' Ultimate Equipment pg. 169'', el ''br'' [],
        el ''b'' [tx ''Aura''], tx '' faint abjuration; '',
        el ''b'' [tx ''CL''], tx '' 5th'', el ''br'' [],
        el ''b'' [tx ''Slot''], tx '' ring; '',
        el ''b'' [tx ''Price''], tx '' 2,000 gp; '',
        el ''b'' [tx ''Weight''], tx '' 1 lb.'',
        el ''h3'' [tx ''Description''],
        tx ''This ring offers magical protection.'']]]"

definition spell_without_duration :: node where
  "spell_without_duration =
     el ''html'' [el ''table'' [el ''span''
       [el ''h1'' [tx ''Fireball''],
        el ''b'' [tx ''Source''], tx '' '', el ''a'' [tx ''PRPG Core Rulebook pg. 283''],
        el ''b'' [tx ''School''], tx '' evocation [fire]; '',
        el ''b'' [tx ''Level''], tx '' sorcerer 3, wizard 3'',
        el ''b'' [tx ''Casting Time''], tx '' 1 standard action'',
        el ''b'' [tx ''Components''], tx '' V, S, M'',
        el ''b'' [tx ''Range''], tx '' long'',
        el ''b'' [tx ''Area''], tx '' 20-ft.-radius spread'',
        el ''h3'' [tx ''Description''],
        tx ''A burst of flame.'']]]"

text \<open>
  An item page whose name and description hold the typographic apostrophe U+2019 and
  whose aura holds a percent sign.
\<close>

definition item_with_apostrophe :: node where
  "item_with_apostrophe =
     el ''html'' [el ''table'' [el ''span''
       [el ''h1'' [Str NavigableString (ascii ''Hunter'' @ [8217] @ ascii ''s Band'')],
        el ''b'' [tx ''Source''], tx '' Ultimate Equipment pg. 169'', el ''br'' [],
        el ''b'' [tx ''Aura''], tx '' faint (50%) divination; '',
        el ''b'' [tx ''CL''], tx '' 5th'', el ''br'' [],
        el ''b'' [tx ''Slot''], tx '' ring; '',
        el ''b'' [tx ''Price''], tx '' 2,000 gp; '',
        el ''b'' [tx ''Weight''], tx '' 1 lb.'',
        el ''h3'' [tx ''Description''],
        Str NavigableString (ascii ''The hunter'' @ [8217] @ ascii ''s band.''),
        el ''h3'' [tx ''Construction''],
        el ''b'' [tx ''Requirements''], tx '' Forge Ring; '',
        el ''b'' [tx ''Cost''], tx '' 1,000 gp'']]]"

section \<open>The Level entries in the specification's words\<close>






section \<open>The source field in the specification's words\<close>

text \<open>
  The name of the core rulebook and the mark before a page number. The spell scraper
  takes as the listed sources the texts of the links after the Source label; the item
  scraper reads the text between \<open>Source\<close> and \<open>Aura\<close>, where the listed sources stand
  separated by a comma and a space. Then an item page and a spell span that list two
  sources, a spell span whose source has no page reference, and an item span whose
  source has a comma in its name.
\<close>

definition core_rulebook :: pystr where
  "core_rulebook = ascii ''PRPG Core Rulebook''"

definition page_mark :: pystr where
  "page_mark = ascii '' pg. ''"

definition item_span_two_sources :: node where
  "item_span_two_sources =
     el ''span''
       [el ''h1'' [tx ''Ring of Protection''],
        el ''b'' [tx ''Source''],
        tx '' Ultimate Equipment pg. 169, Advanced Player's Guide pg. 3'', el ''br'' [],
        el ''b'' [tx ''Aura''], tx '' faint abjuration; '',
        el ''b'' [tx ''CL''], tx '' 5th'', el ''br'' [],
        el ''b'' [tx ''Slot''], tx '' ring; '',
        el ''b'' [tx ''Price''], tx '' 2,000 gp; '',
        el ''b'' [tx ''Weight''], tx '' 1 lb.'',
        el ''h3'' [tx ''Description''],
        tx ''This ring offers magical protection.'',
        el ''h3'' [tx ''Construction''],
        el ''b'' [tx ''Requirements''], tx '' Forge Ring; '',
        el ''b'' [tx ''Cost''], tx '' 1,000 gp'']"

definition item_two_sources :: node where
  "item_two_sources = el ''html'' [el ''table'' [item_span_two_sources]]"

definition spell_two_sources :: node where
  "spell_two_sources =
     el ''span''
       [el ''h1'' [tx ''Ablative Barrier''],
        el ''b'' [tx ''Source''], tx '' '', el ''a'' [tx ''Ultimate Combat pg. 221''],
        tx '', '', el ''a'' [tx ''Advanced Class Guide pg. 90''],
        el ''b'' [tx ''School''], tx '' conjuration'']"

definition spell_source_without_page :: node where
  "spell_source_without_page =
     el ''span''
       [el ''h1'' [tx ''Light''],
        el ''b'' [tx ''Source''], tx '' '', el ''a'' [tx ''Ultimate Magic''],
        el ''b'' [tx ''School''], tx '' evocation'']"

definition item_source_with_comma :: node where
  "item_source_with_comma =
     el ''span''
       [el ''h1'' [tx ''Ring''],
        el ''b'' [tx ''Source''], tx '' Cheliax, Empire of Devils pg. 5'', el ''br'' [],
        el ''b'' [tx ''Aura''], tx '' faint'']"

section \<open>The construction requirements in the specification's words\<close>

text \<open>
  An italicized span is an \<open>i\<close> element. For a property of nodes: the nodes before the
  first node that has it, from the first through the last one that has it, and after
  the last one. Then the text of a list of nodes, which joins the text of each element
  and the content of each string; the entries that name a crafting feat; and what is
  done to each part at the end: strip the punctuation, for the feat cut a trailing
  \<open>and\<close>, escape with \<open>texify\<close>, and return \<open>None\<close> for an empty text.
\<close>

definition italic :: "node \<Rightarrow> bool" where
  "italic n = is_tag ''i'' n"

definition before_first :: "(node \<Rightarrow> bool) \<Rightarrow> node list \<Rightarrow> node list" where
  "before_first P nodes = takeWhile (\<lambda>n. \<not> P n) nodes"

definition after_last :: "(node \<Rightarrow> bool) \<Rightarrow> node list \<Rightarrow> node list" where
  "after_last P nodes =
     rev (takeWhile (\<lambda>n. \<not> P n) (rev (dropWhile (\<lambda>n. \<not> P n) nodes)))"

definition first_to_last :: "(node \<Rightarrow> bool) \<Rightarrow> node list \<Rightarrow> node list" where
  "first_to_last P nodes =
     rev (dropWhile (\<lambda>n. \<not> P n) (rev (dropWhile (\<lambda>n. \<not> P n) nodes)))"

text \<open>
  The requirements in which no element stands before the first or after the last
  italicized span; without an italicized span that is: no element at all.
\<close>

definition italics_outermost :: "node list \<Rightarrow> bool" where
  "italics_outermost nodes =
     (\<not> list_ex is_element (before_first italic nodes)
      \<and> \<not> list_ex is_element (after_last italic nodes))"

definition text_of :: "node list \<Rightarrow> pystr" where
  "text_of nodes = concat (map node_text nodes)"

definition is_craft :: "pystr \<Rightarrow> bool" where
  "is_craft s = (py_in (ascii ''Craft'') s \<or> py_in (ascii ''Forge'') s)"

definition punctuation :: string where
  "punctuation = '' ,.;:''"

definition drop_and :: "pystr \<Rightarrow> pystr" where
  "drop_and s = (if suffix (ascii '' and'') s then take (length s - 4) s else s)"

definition finish :: "pystr \<Rightarrow> pystr option" where
  "finish s = none_if_empty (texify (strip_chars punctuation s))"

definition finish_feat :: "pystr \<Rightarrow> pystr option" where
  "finish_feat s = none_if_empty (texify (drop_and (strip_chars punctuation s)))"

text \<open>
  Requirements whose feat part ends in the word and; requirements without a spell; and
  requirements whose feat is a link.
\<close>

definition requirements_with_and :: "node list" where
  "requirements_with_and =
     [tx '' Craft Wondrous Item and '', el ''i'' [tx ''fly''],
      tx ''; creator must be 5th level'']"

definition requirements_without_spell :: "node list" where
  "requirements_without_spell = [tx '' Craft Rod, Forge Ring, creator must be a dwarf; '']"

definition requirements_with_link :: "node list" where
  "requirements_with_link =
     [tx '' '', el ''a'' [tx ''Forge Ring''], tx '', '', el ''i'' [tx ''shield of faith''],
      tx ''; '']"

text \<open>The indices of the entries of a list that satisfy a predicate, as \<open>italic_list\<close> is built.\<close>

definition idx :: "('a \<Rightarrow> bool) \<Rightarrow> 'a list \<Rightarrow> nat list" where
  "idx P xs = filter (\<lambda>i. P (xs ! i)) [0..<length xs]"

section \<open>Missing labels\<close>

text \<open>
  A label is missing from a span when the search for the element finds nothing. For its
  source and its aura the item scraper does not search for an element: it searches the
  text of the span for \<open>Source\<close> and \<open>Aura\<close>, each followed by a space, and \<open>no_text\<close> says
  that the text has no such occurrence anywhere.
\<close>

definition no_label :: "string \<Rightarrow> string \<Rightarrow> node \<Rightarrow> bool" where
  "no_label name label span = (find_label name label span = None)"

definition no_text :: "string \<Rightarrow> node \<Rightarrow> bool" where
  "no_text marker span = (py_find (ascii marker) (node_text span) = None)"

text \<open>
  The fields that \<open>soup2dict\<close> stores under \<open>if ... is not None\<close>, each with the test that
  its extractor makes first and the warning that the extractor gives when the test
  fails. The Level label guards two keys.
\<close>

definition guarded_spells :: "((node \<Rightarrow> bool) \<times> string \<times> pystr) list" where
  "guarded_spells =
     [(no_label ''b'' ''Source'', ''source'', could_not_find_tag ''Source'' ''source''),
      (no_label ''b'' ''School'', ''school'', could_not_find_tag ''School'' ''school'' @ ascii ''.''),
      (no_label ''b'' ''Level'', ''classes'', could_not_find_tag ''Level'' ''classes'' @ ascii ''.''),
      (no_label ''b'' ''Level'', ''level'', could_not_find_tag ''Level'' ''classes'' @ ascii ''.''),
      (no_label ''b'' ''Casting Time'', ''time'',
         could_not_find_tag ''Casting Time'' ''time'' @ ascii ''.''),
      (no_label ''b'' ''Components'', ''components'',
         could_not_find_tag ''Components'' ''components'' @ ascii ''.''),
      (no_label ''b'' ''Range'', ''range'', could_not_find_tag ''Range'' ''range'' @ ascii ''.''),
      (no_label ''h3'' ''Description'', ''description'',
         could_not_find_tag ''Description'' ''description'')]"

definition guarded_items :: "((node \<Rightarrow> bool) \<times> string \<times> pystr) list" where
  "guarded_items =
     [(no_text ''Source '', ''source'',
         ascii ''We could not find '' @ quoted ''Source ''
         @ ascii ''. Skipping element '' @ quoted ''source''),
      (no_text ''Aura '', ''aura'',
         ascii ''We could not find '' @ quoted ''Aura ''
         @ ascii ''. Skipping element '' @ quoted ''aura''),
      (no_label ''b'' ''CL'', ''cl'', could_not_find_tag ''CL'' ''cl''),
      (no_label ''b'' ''Slot'', ''slot'', could_not_find_tag ''Slot'' ''slot''),
      (no_label ''b'' ''Price'', ''price'', could_not_find_tag ''Price'' ''price''),
      (no_label ''b'' ''Weight'', ''weight'', could_not_find_tag ''Weight'' ''weight''),
      (no_label ''h3'' ''Description'', ''description'',
         could_not_find_tag ''Description'' ''description'')]"


text \<open>The warning of the spell scraper for a page without Area, Target and Effect.\<close>

definition no_ATE :: pystr where
  "no_ATE = ascii ''No Area, Target or Effect found.''"

text \<open>
  The other warnings name what they could not abbreviate or parse. A computation gives
  \<open>only_msgs F\<close> when each of its warnings is of that kind or is listed in \<open>F\<close>; a statement
  of \<open>soup2dict\<close> meets \<open>step_spec K m\<close> when it never gives the warning \<open>m\<close> and leaves the
  keys in \<open>K\<close> as they are.
\<close>

definition free_msg :: "pystr \<Rightarrow> bool" where
  "free_msg w = (prefix (ascii ''Could not abbreviate '') w \<or> prefix (ascii ''Found unknown tag '') w)"

definition only_msgs :: "pystr list \<Rightarrow> 'a res \<Rightarrow> bool" where
  "only_msgs F x = list_all (\<lambda>w. w \<in> set F \<or> free_msg w) (fst x)"

definition step_spec :: "(jdict \<Rightarrow> jdict res) \<Rightarrow> pystr set \<Rightarrow> pystr \<Rightarrow> bool" where
  "step_spec st K m =
     (\<forall>j. m \<notin> set (fst (st j))
          \<and> (\<forall>j'. snd (st j) = Inr j' \<longrightarrow> (\<forall>k\<in>K. map_of j' k = map_of j k)))"

text \<open>
  A page around a span; a spell page with Targets but neither Area nor Effect; a spell
  page and an item page that lack most labels; and an item span without an Aura label
  whose description has the word.
\<close>

definition page_of :: "node \<Rightarrow> node" where
  "page_of span = el ''html'' [el ''table'' [span]]"

definition spell_with_target :: node where
  "spell_with_target =
     el ''span''
       [el ''h1'' [tx ''Magic Missile''],
        el ''b'' [tx ''Source''], tx '' '', el ''a'' [tx ''PRPG Core Rulebook pg. 310''],
        el ''b'' [tx ''School''], tx '' evocation [force]; '',
        el ''b'' [tx ''Level''], tx '' sorcerer 1, wizard 1'',
        el ''b'' [tx ''Casting Time''], tx '' 1 standard action'',
        el ''b'' [tx ''Components''], tx '' V, S'',
        el ''b'' [tx ''Range''], tx '' medium (100 ft. + 10 ft./level)'',
        el ''b'' [tx ''Targets''], tx '' up to five creatures'',
        el ''b'' [tx ''Duration''], tx '' instantaneous'',
        el ''b'' [tx ''Saving Throw''], tx '' none; '',
        el ''b'' [tx ''Spell Resistance''], tx '' yes'',
        el ''h3'' [tx ''Description''],
        tx ''A missile of magical energy darts forth.'']"

definition spell_sparse :: node where
  "spell_sparse =
     el ''span''
       [el ''h1'' [tx ''Light''],
        el ''b'' [tx ''Duration''], tx '' 10 min./level'']"

definition item_sparse :: node where
  "item_sparse =
     el ''span''
       [el ''h1'' [tx ''Ring of Protection''],
        el ''h3'' [tx ''Construction''],
        el ''b'' [tx ''Requirements''], tx '' Forge Ring; '']"

definition item_aura_in_description :: node where
  "item_aura_in_description =
     el ''span''
       [el ''h1'' [tx ''Ring of Protection''],
        el ''b'' [tx ''CL''], tx '' 5th'',
        el ''h3'' [tx ''Description''],
        tx ''The Aura of the ring glows.'']"

section \<open>Properties of the string functions\<close>

lemma re_sub_lit_single: "re_sub (lit [c]) (\<lambda>_. r) s = subst_char c r s"
  by (induction s) (auto simp: lit_def subst_char_def)

lemma subst_char_cr: "subst_char 13 [] s = strip_cr s"
  by (induction s) (auto simp: subst_char_def strip_cr_def)

lemma py_replace_single: "py_replace [c] r s = subst_char c r s"
  by (induction s) (auto simp: subst_char_def)

lemma map_upt_Suc_shift: "map f [0..<Suc n] = f 0 # map (\<lambda>i. f (Suc i)) [0..<n]"
  by (simp add: map_upt_Suc del: upt_Suc)

lemma re_sub_percent_index:
  "re_sub_percent prev s =
     concat (map (\<lambda>i. if s ! i = 37 \<and> \<not> (if i = 0 then prev = Some 92 else s ! (i - 1) = 92)
                        then [92, 37] else [s ! i]) [0..<length s])"
proof (induction s arbitrary: prev)
  case Nil
  then show ?case by simp
next
  case (Cons c cs)
  define g where "g = (\<lambda>i. if cs ! i = 37 \<and> \<not> (if i = 0 then Some c = Some 92 else cs ! (i - 1) = 92)
                    then [92, 37] else [cs ! i])"
  have tl: "map (\<lambda>i. if (c # cs) ! Suc i = 37
                      \<and> \<not> (if Suc i = 0 then prev = Some 92 else (c # cs) ! (Suc i - 1) = 92)
                    then [92, 37] else [(c # cs) ! Suc i]) [0..<length cs]
          = map g [0..<length cs]"
    unfolding g_def by (rule map_cong) (auto simp: nth_Cons')
  have "re_sub_percent prev (c # cs)
          = (if c = 37 \<and> prev \<noteq> Some 92 then [92, 37] else [c]) @ re_sub_percent (Some c) cs"
    by simp
  also have "re_sub_percent (Some c) cs = concat (map g [0..<length cs])"
    unfolding g_def by (rule Cons.IH)
  finally show ?case
    unfolding length_Cons map_upt_Suc_shift tl by simp
qed

lemma re_sub_percent_bare: "re_sub_percent None s = escape_bare_percent s"
  unfolding re_sub_percent_index escape_bare_percent_def
  by (rule arg_cong [where f = concat], rule map_cong) auto

lemma subst_char_absent: "c \<notin> set s \<Longrightarrow> subst_char c r s = s"
  by (induction s) (auto simp: subst_char_def)

lemma strip_cr_absent: "13 \<notin> set s \<Longrightarrow> strip_cr s = s"
  by (induction s) (auto simp: strip_cr_def)

lemma re_sub_percent_absent: "37 \<notin> set s \<Longrightarrow> re_sub_percent prev s = s"
  by (induction s arbitrary: prev) auto

lemma texify_plain_id:
  assumes "list_all (\<lambda>c. c \<notin> set texify_special) s"
  shows "texify s = s"
proof -
  from assms have "\<forall>c\<in>set s. c \<notin> set texify_special" by (simp add: list_all_iff)
  then have a: "13 \<notin> set s" "10 \<notin> set s" "37 \<notin> set s" "8211 \<notin> set s" "8212 \<notin> set s"
    "8217 \<notin> set s" "8220 \<notin> set s" "8221 \<notin> set s"
    by (auto simp: texify_special_def)
  show ?thesis
    by (simp add: texify_def Let_def re_sub_lit_single py_replace_single
        subst_char_absent re_sub_percent_absent a)
qed

section \<open>Properties of the level summary\<close>

lemma counter_add_fst: "set (map fst (counter_add x c)) = insert x (set (map fst c))"
  by (induction x c rule: counter_add.induct) auto

lemma counter_add_distinct: "distinct (map fst c) \<Longrightarrow> distinct (map fst (counter_add x c))"
  by (induction x c rule: counter_add.induct) (auto simp: counter_add_fst [simplified])

lemma counter_add_map_of:
  "map_of (counter_add x c) = (map_of c)(x \<mapsto> (case map_of c x of None \<Rightarrow> 1 | Some n \<Rightarrow> n + 1))"
  by (induction x c rule: counter_add.induct) (auto simp: fun_eq_iff)

lemma counter_foldl:
  "distinct (map fst c) \<Longrightarrow>
   distinct (map fst (foldl (\<lambda>c x. counter_add x c) c xs))
   \<and> set (map fst (foldl (\<lambda>c x. counter_add x c) c xs)) = set (map fst c) \<union> set xs
   \<and> (\<forall>v. map_of (foldl (\<lambda>c x. counter_add x c) c xs) v =
        (if v \<in> set (map fst c) \<union> set xs
         then Some ((case map_of c v of None \<Rightarrow> 0 | Some n \<Rightarrow> n) + count_list xs v) else None))"
proof (induction xs arbitrary: c)
  case Nil
  then show ?case by (auto simp: map_of_eq_None_iff [symmetric] simp del: map_of_eq_None_iff split: option.splits)
next
  case (Cons x xs)
  have d: "distinct (map fst (counter_add x c))" using Cons.prems by (rule counter_add_distinct)
  show ?case
    using Cons.IH [OF d]
    by (auto simp: counter_add_fst [simplified] counter_add_map_of split: option.splits)
qed

lemma counter_props:
  "distinct (map fst (counter xs))"
  "set (map fst (counter xs)) = set xs"
  "map_of (counter xs) v = (if v \<in> set xs then Some (count_list xs v) else None)"
  using counter_foldl [of "[]" xs] by (auto simp: counter_def)

lemma counter_entry: "(v, n) \<in> set (counter xs) \<Longrightarrow> v \<in> set xs \<and> n = count_list xs v"
  using counter_props(1) [of xs] counter_props(3) [of xs v]
  by (auto dest!: map_of_is_SomeI split: if_splits)

lemma counter_add_sum: "sum_list (map snd (counter_add x c)) = Suc (sum_list (map snd c))"
  by (induction x c rule: counter_add.induct) auto

lemma counter_sum_foldl:
  "sum_list (map snd (foldl (\<lambda>c x. counter_add x c) c xs)) = sum_list (map snd c) + length xs"
  by (induction xs arbitrary: c) (auto simp: counter_add_sum)

lemma counter_sum: "sum_list (map snd (counter xs)) = length xs"
  by (simp add: counter_def counter_sum_foldl)

lemma most_common_mset: "mset (most_common c) = mset c"
  by (simp add: most_common_def)

lemma most_common_sum: "sum_list (map snd (most_common c)) = sum_list (map snd c)"
proof -
  have "mset (map snd (most_common c)) = mset (map snd c)"
    by (simp add: most_common_mset)
  then show ?thesis by (metis sum_mset_sum_list)
qed

lemma most_common_sorted: "sorted (map (\<lambda>p. - int (snd p)) (most_common c))"
  by (simp add: most_common_def)

lemma most_common_set: "set (most_common c) = set c"
  by (simp add: most_common_def)

lemma most_common_distinct: "distinct (map fst (most_common c)) = distinct (map fst c)"
proof -
  have "mset (map fst (most_common c)) = mset (map fst c)"
    by (simp add: most_common_mset)
  then show ?thesis by (rule mset_eq_imp_distinct_iff)
qed

lemma count_list_level: "count_list (map snd classes) L = level_count classes L"
  by (induction classes) (auto simp: level_count_def)

lemma class_list_of_value:
  "snd (class_list_of tbl classes L)
     = Inr (map (abbr_or_name tbl) (map fst (filter (\<lambda>p. snd p = L) classes)))"
proof (induction classes)
  case Nil
  then show ?case by (simp add: ret_def)
next
  case (Cons p classes)
  obtain key lv where p: "p = (key, lv)" by (cases p)
  obtain ws where a: "abbreviate tbl key = (ws, Inr (abbr_or_name tbl key))"
    by (cases "map_of tbl key")
       (simp_all add: abbreviate_def dict_getitem_def abbr_or_name_def ret_def warn_def bind_def)
  show ?case using Cons.IH
    by (cases "class_list_of tbl classes L") (simp add: p a bind_def ret_def)
qed

lemma levellist_of_value:
  "snd (levellist_of tbl classes Ls) = Inr (map (group_text tbl classes) Ls)"
proof (induction Ls)
  case Nil
  then show ?case by (simp add: ret_def)
next
  case (Cons L Ls)
  show ?case using Cons.IH class_list_of_value [of tbl classes L]
    by (cases "class_list_of tbl classes L"; cases "levellist_of tbl classes Ls")
       (simp add: bind_def ret_def group_text_def)
qed


lemma counter_snoc: "counter (xs @ [x]) = counter_add x (counter xs)"
  by (simp add: counter_def)

lemma counter_add_keys:
  "map fst (counter_add x c) = (if x \<in> set (map fst c) then map fst c else map fst c @ [x])"
  by (induction x c rule: counter_add.induct) auto

lemma counter_keys: "map fst (counter xs) = rev (remdups (rev xs))"
proof (induction xs rule: rev_induct)
  case Nil
  then show ?case by (simp add: counter_def)
next
  case (snoc x xs)
  have "set (map fst (counter xs)) = set xs" by (rule counter_props(2))
  then show ?case
    by (simp add: counter_snoc counter_add_keys snoc.IH)
qed

lemma insort_key_fst:
  assumes "\<forall>p\<in>set (x # ys). snd p = g (fst p)"
  shows "map fst (insort_key (\<lambda>p. f (snd p)) x ys) = insort_key (\<lambda>v. f (g v)) (fst x) (map fst ys)"
  using assms by (induction ys) auto

lemma sort_key_fst:
  assumes "\<forall>p\<in>set c. snd p = g (fst p)"
  shows "map fst (sort_key (\<lambda>p. f (snd p)) c) = sort_key (\<lambda>v. f (g v)) (map fst c)"
  using assms
proof (induction c)
  case Nil
  then show ?case by simp
next
  case (Cons x c)
  have a: "\<forall>p\<in>set (x # sort_key (\<lambda>p. f (snd p)) c). snd p = g (fst p)"
    using Cons.prems by simp
  have ih: "map fst (sort_key (\<lambda>p. f (snd p)) c) = sort_key (\<lambda>v. f (g v)) (map fst c)"
    using Cons by simp
  show ?case
    by (simp add: insort_key_fst [OF a] ih)
qed

lemma most_common_levels:
  "map fst (most_common (counter (map snd classes))) = levels_by_frequency classes"
proof -
  have "\<forall>p\<in>set (counter (map snd classes)). snd p = level_count classes (fst p)"
    using counter_entry [of _ _ "map snd classes"] by (auto simp: count_list_level)
  then show ?thesis
    unfolding most_common_def levels_by_frequency_def counter_keys [symmetric]
    by (rule sort_key_fst)
qed

lemma most_common_counts:
  "map snd (most_common (counter (map snd classes)))
     = map (level_count classes) (levels_by_frequency classes)"
proof -
  have "\<forall>p\<in>set (most_common (counter (map snd classes))). snd p = level_count classes (fst p)"
    using counter_entry [of _ _ "map snd classes"]
    by (auto simp: count_list_level most_common_set)
  then have "map snd (most_common (counter (map snd classes)))
      = map (level_count classes) (map fst (most_common (counter (map snd classes))))"
    by (simp add: map_eq_conv) 
  then show ?thesis by (simp only: most_common_levels)
qed

lemma levels_distinct: "distinct (levels_by_frequency classes)"
  by (simp add: levels_by_frequency_def)

lemma levels_set: "set (levels_by_frequency classes) = snd ` set classes"
  by (simp add: levels_by_frequency_def)

lemma levels_sorted:
  "sorted (map (\<lambda>L. - int (level_count classes L)) (levels_by_frequency classes))"
  by (simp add: levels_by_frequency_def)

lemma levels_sum:
  "sum_list (map (level_count classes) (levels_by_frequency classes)) = length classes"
  using most_common_sum [of "counter (map snd classes)"]
  by (simp add: most_common_counts counter_sum)

lemma level_from_classes_unfold:
  "snd (level_from_classes tbl classes) =
     (case levels_by_frequency classes of
        [] \<Rightarrow> Inl IndexError
      | [v] \<Rightarrow> Inr (JInt v)
      | v0 # v1 # r \<Rightarrow>
          (if length classes \<le> 2 * level_count classes v0
              \<and> level_count classes v1 < level_count classes v0
           then Inr (JStr (str_int v0 @ ascii '' ('' @
                  py_join (ascii '', '') (map (group_text tbl classes) (v1 # r)) @ ascii '')''))
           else Inr (JStr (py_join (ascii '', '') (map (group_text tbl classes) (v0 # v1 # r))))))"
proof -
  define mc where "mc = most_common (counter (map snd classes))"
  have f: "map fst mc = levels_by_frequency classes"
    and c: "map snd mc = map (level_count classes) (levels_by_frequency classes)"
    unfolding mc_def by (rule most_common_levels, rule most_common_counts)
  have len: "length mc = length (levels_by_frequency classes)"
    using f by (metis length_map)
  have s: "sum_list (map (level_count classes) (levels_by_frequency classes)) = length classes"
    by (rule levels_sum)
  show ?thesis
  proof (cases "levels_by_frequency classes")
    case Nil
    then show ?thesis using len
      by (simp add: level_from_classes_def mc_def [symmetric] Let_def raise_def)
  next
    case (Cons v0 t)
    note outer = Cons
    show ?thesis
    proof (cases t)
      case Nil
      with outer f have "fst (mc ! 0) = v0" by (cases mc) auto
      with outer Nil len show ?thesis
        by (simp add: level_from_classes_def mc_def [symmetric] Let_def ret_def)
    next
      case (Cons v1 r)
      have l2: "length mc \<noteq> 1" using len outer Cons by simp
      obtain ws1 where g1: "levellist_of tbl classes (v1 # r) = (ws1, Inr (map (group_text tbl classes) (v1 # r)))"
        using levellist_of_value [of tbl classes "v1 # r"] by (cases "levellist_of tbl classes (v1 # r)") simp
      obtain ws0 where g0: "levellist_of tbl classes (v0 # v1 # r) = (ws0, Inr (map (group_text tbl classes) (v0 # v1 # r)))"
        using levellist_of_value [of tbl classes "v0 # v1 # r"] by (cases "levellist_of tbl classes (v0 # v1 # r)") simp
      show ?thesis
        using l2 s
        unfolding level_from_classes_def mc_def [symmetric] Let_def f c outer Cons
        by (simp add: g0 g1 bind_def ret_def del: levellist_of.simps)
    qed
  qed
qed


lemma level_count_absent: "L \<notin> snd ` set classes \<Longrightarrow> level_count classes L = 0"
  by (auto simp: level_count_def filter_empty_conv)

lemma single_level_iff: "classes \<noteq> [] \<Longrightarrow> single_level classes \<longleftrightarrow> (\<exists>v. snd ` set classes = {v})"
proof
  assume ne: "classes \<noteq> []" and *: "single_level classes"
  then have "snd ` set classes = {snd (hd classes)}"
    by (cases classes) (auto simp: single_level_def list_all_iff)
  then show "\<exists>v. snd ` set classes = {v}" ..
next
  assume ne: "classes \<noteq> []" and ex: "\<exists>v. snd ` set classes = {v}"
  from ex obtain v where v: "snd ` set classes = {v}" ..
  then have "\<forall>p\<in>set classes. snd p = v" by auto
  moreover from ne have "hd classes \<in> set classes" by simp
  ultimately show "single_level classes"
    by (simp add: single_level_def list_all_iff)
qed

section \<open>Evaluation\<close>

text \<open>The definitions that the simplifier unfolds to run the scrapers on a document.\<close>

lemmas res_defs = bind_def ret_def warn_def raise_def

lemmas doc_defs = el_def tx_def ascii_def quoted_def labelled_def find_label_def find_tag_def
  until_def str_next_sibling_def interesting_string_types_def string_containers_def
  cdata_containing_tags_def

lemmas str_defs = strip_chars_def strip_ws_def py_strip_def py_isspace_def py_in_def
  slice_def slice_to_def texify_def lit_def cls_seq_def alt_def Let_def

lemmas items_defs = soup2dict_items_def items_statements_def select_span_items_def store_def store_construction_def
  setitem_def jstr_or_null_def name_from_span_def source_from_span_items_def aura_from_span_def
  CL_from_span_def slot_from_span_def price_from_span_def weight_from_span_def
  description_from_span_items_def description_elem_def construction_from_span_def
  construction_split_def none_if_empty_def could_not_find_tag_def drop_semicolon_def
  abbreviate_def dict_getitem_def abbreviations_items_def could_not_abbreviate_def

lemmas spells_defs = soup2dict_spells_def spells_statements_def select_span_spells_def store_def store_classes_def
  store_ATE_def setitem_def jstr_or_null_def name_from_span_def source_from_span_spells_def
  school_from_span_def get_text_from_simple_tag_def classes_from_span_def int_of_char_def
  decimal_zeros_def time_from_span_def components_from_span_def range_from_span_def
  ATE_from_span_def area_from_span_def target_from_span_def effect_from_span_def
  duration_from_span_def save_from_span_def sr_from_span_def description_from_span_spells_def
  description_elem_def abbreviate_def dict_getitem_def abbreviations_spells_def
  abbreviations_items_def could_not_abbreviate_def could_not_find_tag_def
  level_from_classes_def counter_def
  most_common_def str_int_def

section \<open>Properties of the class extraction\<close>






section \<open>Properties of the source extraction\<close>

lemma prefix_append_short:
  assumes "prefix p (xs @ ys)" "length p \<le> length xs"
  shows "prefix p xs"
  using assms by (auto simp: prefix_append)

lemma py_find_first:
  assumes "pat \<noteq> []" "\<not> py_in pat (name @ butlast pat)"
  shows "py_find pat (name @ pat @ rest) = Some (length name)"
  using assms(2)
proof (induction name)
  case Nil
  with assms(1) show ?case by (cases pat) auto
next
  case (Cons c cs)
  have none: "py_find pat (c # (cs @ butlast pat)) = None"
    using Cons.prems by (simp add: py_in_def)
  have np: "\<not> prefix pat (c # cs @ pat @ rest)"
  proof
    assume p: "prefix pat (c # cs @ pat @ rest)"
    have "c # cs @ pat @ rest = (c # cs @ butlast pat) @ (last pat # rest)"
      using assms(1) by simp
    with p have "prefix pat ((c # cs @ butlast pat) @ (last pat # rest))" by simp
    moreover have "length pat \<le> length (c # cs @ butlast pat)" using assms(1) by simp
    ultimately have "prefix pat (c # cs @ butlast pat)" by (rule prefix_append_short)
    with none show False by simp
  qed
  from none have "py_find pat (cs @ butlast pat) = None"
    by (simp split: if_splits)
  then have "\<not> py_in pat (cs @ butlast pat)" by (simp add: py_in_def)
  from Cons.IH [OF this] np show ?case by simp
qed

lemma page_mark_cut:
  assumes "\<not> py_in page_mark (name @ ascii '' pg.'')"
  shows "slice_to (py_find page_mark (name @ page_mark @ page)) (name @ page_mark @ page) = name"
proof -
  have b: "butlast page_mark = ascii '' pg.''" by (simp add: page_mark_def ascii_def)
  have "py_find page_mark (name @ page_mark @ page) = Some (length name)"
  proof (rule py_find_first)
    show "page_mark \<noteq> []" by (simp add: page_mark_def ascii_def)
    show "\<not> py_in page_mark (name @ butlast page_mark)" using assms by (simp add: b)
  qed
  then show ?thesis by (simp add: slice_to_def)
qed

lemma abbreviate_value: "abbreviate tbl name = (fst (abbreviate tbl name), Inr (abbr_or_name tbl name))"
  by (cases "map_of tbl name")
     (simp_all add: abbreviate_def dict_getitem_def abbr_or_name_def res_defs)

lemma py_split_nonempty: "py_split sep s \<noteq> []"
  by (induction s) (auto split: list.splits)

lemma py_split_no_sep: "\<not> py_in sep s \<Longrightarrow> py_split sep s = [s]"
proof (induction s)
  case Nil
  then show ?case by simp
next
  case (Cons c cs)
  from Cons.prems have np: "\<not> prefix sep (c # cs)" and "py_find sep cs = None"
    by (simp_all add: py_in_def split: if_splits)
  then have "py_split sep cs = [cs]" using Cons.IH by (simp add: py_in_def)
  with np show ?case by simp
qed

lemma py_split_comma_space:
  "py_split (ascii '', '') (x @ ascii '', '' @ r)
     = py_split (ascii '', '') x @ py_split (ascii '', '') r"
proof (induction x rule: length_induct)
  case (1 x)
  have sep: "ascii '', '' = [44, 32]" by (simp add: ascii_def)
  show ?case
  proof (cases x)
    case Nil
    then show ?thesis by (simp add: sep)
  next
    case (Cons c cs)
    show ?thesis
    proof (cases "prefix [44, 32] (c # cs @ [44, 32] @ r)")
      case True
      then have c: "c = 44" by simp
      from True have "cs \<noteq> []" by (cases cs) (simp_all add: c)
      then obtain d ds where cs: "cs = d # ds" by (cases cs) auto
      with True have d: "d = 32" by simp
      have "length ds < length x" by (simp add: Cons cs)
      with 1 have "py_split (ascii '', '') (ds @ ascii '', '' @ r)
          = py_split (ascii '', '') ds @ py_split (ascii '', '') r" by blast
      then show ?thesis by (simp add: Cons cs c d sep)
    next
      case False
      then have np: "\<not> prefix [44, 32] (c # cs)" by (auto simp: prefix_def)
      have "length cs < length x" by (simp add: Cons)
      with 1 have ih: "py_split (ascii '', '') (cs @ ascii '', '' @ r)
          = py_split (ascii '', '') cs @ py_split (ascii '', '') r" by blast
      obtain w ws where w: "py_split [44, 32] cs = w # ws"
        using py_split_nonempty [of "[44, 32]" cs] by (cases "py_split [44, 32] cs") auto
      from False np ih show ?thesis by (simp add: Cons sep w)
    qed
  qed
qed

lemma last_split_join:
  assumes "srcs \<noteq> []" "\<not> py_in (ascii '', '') (last srcs)"
  shows "last (py_split (ascii '', '') (py_join (ascii '', '') srcs)) = last srcs"
  using assms
proof (induction srcs)
  case Nil
  then show ?case by simp
next
  case (Cons x xs)
  show ?case
  proof (cases xs)
    case Nil
    with Cons.prems show ?thesis by (simp add: py_split_no_sep)
  next
    case (Cons y ys)
    with Cons.prems Cons.IH
    have "last (py_split (ascii '', '') (py_join (ascii '', '') (y # ys))) = last (y # ys)"
      by simp
    then show ?thesis
      by (simp add: Cons py_split_comma_space py_split_nonempty del: py_split.simps)
  qed
qed

text \<open>
  Outside these conditions: a source without a page reference loses its last character,
  and of a source with a comma and a space in its name the item scraper keeps what
  follows them.
\<close>

lemma source_without_page_reference:
  "source_from_span_spells abbreviations_spells spell_source_without_page
     = ([could_not_abbreviate (ascii ''Ultimate Magi'')], Inr (Some (ascii ''Ultimate Magi'')))"
  by (simp add: spell_source_without_page_def spells_defs res_defs doc_defs str_defs)

lemma source_with_comma:
  "source_from_span_items abbreviations_items item_source_with_comma
     = ([could_not_abbreviate (ascii ''Empire of Devils'')], Inr (Some (ascii ''Empire of Devils'')))"
  by (simp add: item_source_with_comma_def items_defs res_defs doc_defs str_defs)


section \<open>Properties of the construction requirements\<close>

lemma idx_Nil: "idx P [] = []"
  by (simp add: idx_def)

lemma idx_Cons: "idx P (x # xs) = (if P x then [0] else []) @ map Suc (idx P xs)"
proof -
  have "[0..<length (x # xs)] = 0 # map Suc [0..<length xs]"
    by (simp add: upt_conv_Cons map_Suc_upt del: upt_Suc)
  then show ?thesis
    by (simp add: idx_def filter_map comp_def del: upt_Suc)
qed

lemma idx_append: "idx P (xs @ ys) = idx P xs @ map (\<lambda>i. i + length xs) (idx P ys)"
  by (induction xs) (simp_all add: idx_Nil idx_Cons comp_def)

lemma idx_none: "\<forall>x\<in>set xs. \<not> P x \<Longrightarrow> idx P xs = []"
  by (induction xs) (simp_all add: idx_Nil idx_Cons)

lemma idx_empty_iff: "idx P xs = [] \<longleftrightarrow> \<not> list_ex P xs"
  by (induction xs) (auto simp: idx_Nil idx_Cons)

lemma idx_hd: "xs \<noteq> [] \<Longrightarrow> P (hd xs) \<Longrightarrow> \<exists>r. idx P xs = 0 # r"
  by (cases xs) (simp_all add: idx_Cons)

lemma idx_last: "xs \<noteq> [] \<Longrightarrow> P (last xs) \<Longrightarrow> last (idx P xs) = length xs - 1 \<and> idx P xs \<noteq> []"
proof (induction xs rule: rev_induct)
  case Nil
  then show ?case by simp
next
  case (snoc x xs)
  then have "P x" by simp
  then have "idx P (xs @ [x]) = idx P xs @ [length xs]"
    by (simp add: idx_append idx_Cons idx_Nil)
  then show ?case by simp
qed

lemma suffix_last4: "drop (length s - 4) s = ascii '' and'' \<longleftrightarrow> suffix (ascii '' and'') s"
proof
  assume "drop (length s - 4) s = ascii '' and''"
  then show "suffix (ascii '' and'') s" by (metis suffix_drop)
next
  assume "suffix (ascii '' and'') s"
  then obtain p where "s = p @ ascii '' and''" by (auto simp: suffix_def)
  then show "drop (length s - 4) s = ascii '' and''" by (simp add: ascii_def)
qed

lemma split_at_elements:
  assumes "list_ex is_element nodes"
  shows "nodes = before_first is_element nodes @ first_to_last is_element nodes @ after_last is_element nodes
       \<and> first_to_last is_element nodes \<noteq> []
       \<and> is_element (hd (first_to_last is_element nodes))
       \<and> is_element (last (first_to_last is_element nodes))
       \<and> (\<forall>n\<in>set (before_first is_element nodes). \<not> is_element n)
       \<and> (\<forall>n\<in>set (after_last is_element nodes). \<not> is_element n)"
proof -
  let ?Q = "\<lambda>n. \<not> is_element n"
  define R where "R = dropWhile ?Q nodes"
  have ne: "R \<noteq> []" using assms by (auto simp: R_def list_ex_iff)
  then have hdR: "is_element (hd R)" unfolding R_def using hd_dropWhile [of ?Q nodes] by auto
  define C' where "C' = dropWhile ?Q (rev R)"
  have "hd R \<in> set (rev R)" using ne by simp
  with hdR have ne': "C' \<noteq> []" by (auto simp: C'_def)
  then have hdC': "is_element (hd C')" unfolding C'_def using hd_dropWhile [of ?Q "rev R"] by auto
  have Rsplit: "R = rev C' @ rev (takeWhile ?Q (rev R))"
  proof -
    have "rev R = takeWhile ?Q (rev R) @ C'" by (simp add: C'_def)
    then have "rev (rev R) = rev (takeWhile ?Q (rev R) @ C')" by simp
    then show ?thesis by simp
  qed
  have ftl: "first_to_last is_element nodes = rev C'" and al: "after_last is_element nodes = rev (takeWhile ?Q (rev R))"
    and bf: "before_first is_element nodes = takeWhile ?Q nodes"
    by (simp_all add: first_to_last_def after_last_def before_first_def R_def C'_def)
  have 1: "nodes = before_first is_element nodes @ first_to_last is_element nodes @ after_last is_element nodes"
    using Rsplit unfolding ftl al bf by (metis R_def takeWhile_dropWhile_id)
  have 2: "first_to_last is_element nodes \<noteq> []" using ne' by (simp add: ftl)
  have 3: "is_element (last (first_to_last is_element nodes))" using hdC' ne' by (simp add: ftl last_rev)
  have "hd R = hd (rev C')" using Rsplit ne' by (metis hd_append2 rev_is_Nil_conv)
  with hdR have 4: "is_element (hd (first_to_last is_element nodes))" by (simp add: ftl)
  have 5: "\<forall>n\<in>set (before_first is_element nodes). \<not> is_element n"
    unfolding bf by (auto dest: set_takeWhileD)
  have 6: "\<forall>n\<in>set (after_last is_element nodes). \<not> is_element n"
    unfolding al by (auto dest: set_takeWhileD)
  from 1 2 3 4 5 6 show ?thesis by blast
qed


lemma construction_cuts:
  assumes ex: "list_ex is_element nodes"
  shows "\<exists>lo r. filter (\<lambda>i. is_element (nodes ! i)) [0..<length nodes] = lo # r
      \<and> concat (take lo (map node_text nodes)) = text_of (before_first is_element nodes)
      \<and> concat (take (last (lo # r) + 1 - lo) (drop lo (map node_text nodes)))
          = text_of (first_to_last is_element nodes)
      \<and> concat (drop (last (lo # r) + 1) (map node_text nodes)) = text_of (after_last is_element nodes)"
proof -
  define A where "A = before_first is_element nodes"
  define C where "C = first_to_last is_element nodes"
  define B where "B = after_last is_element nodes"
  from split_at_elements [OF ex]
  have n: "nodes = A @ C @ B" and ne: "C \<noteq> []" and h: "is_element (hd C)"
    and l: "is_element (last C)" and a: "\<forall>n\<in>set A. \<not> is_element n"
    and b: "\<forall>n\<in>set B. \<not> is_element n"
    unfolding A_def C_def B_def by blast+
  from idx_hd [where P = is_element, OF ne h] obtain r where r: "idx is_element C = 0 # r" by blast
  from idx_last [where P = is_element, OF ne l] have la: "last (idx is_element C) = length C - 1" by simp
  have i: "idx is_element nodes = length A # map (\<lambda>i. i + length A) r"
    unfolding n by (simp add: idx_append idx_none [OF a] idx_none [OF b] r)
  have "last (idx is_element nodes) = last (map (\<lambda>i. i + length A) (idx is_element C))"
    unfolding i r by simp
  also have "\<dots> = length C - 1 + length A"
  proof -
    have "idx is_element C \<noteq> []" by (simp add: r)
    then have "last (map (\<lambda>i. i + length A) (idx is_element C))
        = last (idx is_element C) + length A" by (rule last_map)
    then show ?thesis by (simp only: la)
  qed
  finally have hi: "last (length A # map (\<lambda>i. i + length A) r) = length C - 1 + length A"
    by (simp add: i)
  have w: "length C - 1 + length A + 1 - length A = length C" using ne by (cases C) simp_all
  have w2: "length C - 1 + length A + 1 = length A + length C" using ne by (cases C) simp_all
  have t: "map node_text nodes = map node_text A @ map node_text C @ map node_text B"
    by (simp add: n)
  have "filter (\<lambda>i. is_element (nodes ! i)) [0..<length nodes] = length A # map (\<lambda>i. i + length A) r"
    using i by (simp add: idx_def)
  moreover have "concat (take (length A) (map node_text nodes)) = text_of A"
    by (simp add: t text_of_def)
  moreover have "concat (take (last (length A # map (\<lambda>i. i + length A) r) + 1 - length A)
                      (drop (length A) (map node_text nodes))) = text_of C"
    unfolding hi w by (simp add: t text_of_def)
  moreover have "concat (drop (last (length A # map (\<lambda>i. i + length A) r) + 1) (map node_text nodes))
      = text_of B"
    unfolding hi w2 by (simp add: t text_of_def)
  ultimately show ?thesis unfolding A_def C_def B_def by blast
qed

text \<open>
  When no element stands before the first or after the last italicized span, the cuts at
  the italicized spans are the cuts at the elements.
\<close>

lemma cuts_agree:
  assumes sub: "\<And>n. P n \<Longrightarrow> Q n"
    and none: "\<not> list_ex Q (takeWhile (\<lambda>n. \<not> P n) xs)"
  shows "takeWhile (\<lambda>n. \<not> Q n) xs = takeWhile (\<lambda>n. \<not> P n) xs
       \<and> dropWhile (\<lambda>n. \<not> Q n) xs = dropWhile (\<lambda>n. \<not> P n) xs"
  using none
proof (induction xs)
  case Nil
  then show ?case by simp
next
  case (Cons x xs)
  show ?case
  proof (cases "P x")
    case True
    then have "Q x" by (rule sub)
    with True show ?thesis by simp
  next
    case False
    with Cons.prems have "\<not> Q x" and "\<not> list_ex Q (takeWhile (\<lambda>n. \<not> P n) xs)"
      by simp_all
    with Cons.IH False show ?thesis by simp
  qed
qed

lemma italic_is_element: "italic n \<Longrightarrow> is_element n"
  by (cases n) (simp_all add: italic_def)

lemma italics_outermost_cuts:
  assumes "italics_outermost nodes"
  shows "before_first is_element nodes = before_first italic nodes"
    and "first_to_last is_element nodes = first_to_last italic nodes"
    and "after_last is_element nodes = after_last italic nodes"
    and "list_ex is_element nodes \<longleftrightarrow> list_ex italic nodes"
proof -
  from assms have b: "\<not> list_ex is_element (takeWhile (\<lambda>n. \<not> italic n) nodes)"
    and a: "\<not> list_ex is_element
              (takeWhile (\<lambda>n. \<not> italic n) (rev (dropWhile (\<lambda>n. \<not> italic n) nodes)))"
    by (simp_all add: italics_outermost_def before_first_def after_last_def list_ex_iff)
  from cuts_agree [of italic is_element nodes, OF italic_is_element b]
  have t: "takeWhile (\<lambda>n. \<not> is_element n) nodes = takeWhile (\<lambda>n. \<not> italic n) nodes"
    and d: "dropWhile (\<lambda>n. \<not> is_element n) nodes = dropWhile (\<lambda>n. \<not> italic n) nodes"
    by simp_all
  from cuts_agree [of italic is_element "rev (dropWhile (\<lambda>n. \<not> italic n) nodes)",
      OF italic_is_element a]
  have t': "takeWhile (\<lambda>n. \<not> is_element n) (rev (dropWhile (\<lambda>n. \<not> italic n) nodes))
          = takeWhile (\<lambda>n. \<not> italic n) (rev (dropWhile (\<lambda>n. \<not> italic n) nodes))"
    and d': "dropWhile (\<lambda>n. \<not> is_element n) (rev (dropWhile (\<lambda>n. \<not> italic n) nodes))
          = dropWhile (\<lambda>n. \<not> italic n) (rev (dropWhile (\<lambda>n. \<not> italic n) nodes))"
    by simp_all
  show "before_first is_element nodes = before_first italic nodes"
    by (simp add: before_first_def t)
  show "first_to_last is_element nodes = first_to_last italic nodes"
    by (simp add: first_to_last_def d d')
  show "after_last is_element nodes = after_last italic nodes"
    by (simp add: after_last_def d t')
  have "list_ex is_element nodes \<longleftrightarrow> dropWhile (\<lambda>n. \<not> is_element n) nodes \<noteq> []"
    by (auto simp: list_ex_iff dropWhile_eq_Nil_conv)
  also have "\<dots> \<longleftrightarrow> list_ex italic nodes"
    unfolding d by (auto simp: list_ex_iff dropWhile_eq_Nil_conv)
  finally show "list_ex is_element nodes \<longleftrightarrow> list_ex italic nodes" .
qed

text \<open>
  The split at the elements, whatever their names. \<open>construction_split\<close> takes every
  element for an italicized span: a feat that is a link comes back among the spells.
\<close>

lemma construction_split_elements:
  "(list_ex is_element nodes \<longrightarrow>
      construction_split nodes
        = (finish_feat (text_of (before_first is_element nodes)),
           finish (text_of (first_to_last is_element nodes)),
           finish (text_of (after_last is_element nodes))))
   \<and> (\<not> list_ex is_element nodes \<longrightarrow>
      construction_split nodes
        = (finish_feat (py_join (ascii '', '')
                          (filter is_craft (py_split (ascii '', '') (text_of nodes)))),
           None,
           finish (py_join (ascii '', '')
                     (filter (\<lambda>s. \<not> is_craft s) (py_split (ascii '', '') (text_of nodes))))))"
proof (intro conjI impI)
  assume ex: "list_ex is_element nodes"
  from construction_cuts [OF ex] obtain lo r where
    f: "filter (\<lambda>i. is_element (nodes ! i)) [0..<length nodes] = lo # r"
    and c1: "concat (take lo (map node_text nodes)) = text_of (before_first is_element nodes)"
    and c2: "concat (take (last (lo # r) + 1 - lo) (drop lo (map node_text nodes)))
          = text_of (first_to_last is_element nodes)"
    and c3: "concat (drop (last (lo # r) + 1) (map node_text nodes))
          = text_of (after_last is_element nodes)"
    by blast
  show "construction_split nodes
        = (finish_feat (text_of (before_first is_element nodes)),
           finish (text_of (first_to_last is_element nodes)),
           finish (text_of (after_last is_element nodes)))"
    unfolding construction_split_def Let_def f
    by (simp only: list.case c1 c2 c3 prod.case finish_def finish_feat_def drop_and_def
        suffix_last4 punctuation_def)
next
  assume nex: "\<not> list_ex is_element nodes"
  then have f: "filter (\<lambda>i. is_element (nodes ! i)) [0..<length nodes] = []"
    using idx_empty_iff [of is_element nodes] by (simp add: idx_def)
  have e: "strip_chars '' ,.;:'' [] = []" by (simp add: strip_chars_def py_strip_def)
  have t: "texify [] = []" by (simp add: texify_def)
  show "construction_split nodes
        = (finish_feat (py_join (ascii '', '')
                          (filter is_craft (py_split (ascii '', '') (text_of nodes)))),
           None,
           finish (py_join (ascii '', '')
                     (filter (\<lambda>s. \<not> is_craft s) (py_split (ascii '', '') (text_of nodes)))))"
    unfolding construction_split_def Let_def f
    by (simp add: e t none_if_empty_def finish_def finish_feat_def drop_and_def
        suffix_last4 punctuation_def is_craft_def [abs_def] text_of_def)
qed

lemma linked_feat_among_spells:
  "construction_split requirements_with_link
     = (None, Some (ascii ''Forge Ring, shield of faith''), None)"
  by (simp add: requirements_with_link_def construction_split_def none_if_empty_def
      doc_defs str_defs)


section \<open>Properties of the statements of soup2dict\<close>

lemma only_msgs_ret: "only_msgs F (ret x)"
  by (simp add: only_msgs_def ret_def)

lemma only_msgs_raise: "only_msgs F (raise e)"
  by (simp add: only_msgs_def raise_def)

lemma only_msgs_warn: "m \<in> set F \<or> free_msg m \<Longrightarrow> only_msgs F (warn m)"
  by (simp add: only_msgs_def warn_def)

lemma only_msgs_bind:
  assumes "only_msgs F m" "\<And>x. only_msgs F (f x)"
  shows "only_msgs F (bind m f)"
proof (cases m)
  case (Pair ws r)
  show ?thesis
  proof (cases r)
    case (Inl e)
    with Pair assms(1) show ?thesis by (simp add: only_msgs_def bind_def)
  next
    case (Inr x)
    with Pair assms(1) assms(2) [of x] show ?thesis
      by (cases "f x") (simp add: only_msgs_def bind_def)
  qed
qed

lemma only_msgs_collect:
  assumes "\<And>x. only_msgs F (f x)"
  shows "only_msgs F (collect f xs)"
  by (induction xs) (auto intro!: only_msgs_ret only_msgs_bind assms)

lemma only_msgs_mono: "only_msgs F x \<Longrightarrow> set F \<subseteq> set G \<Longrightarrow> only_msgs G x"
  by (auto simp: only_msgs_def list_all_iff)

lemma not_emitted: "only_msgs F x \<Longrightarrow> m \<notin> set F \<Longrightarrow> \<not> free_msg m \<Longrightarrow> m \<notin> set (fst x)"
  by (auto simp: only_msgs_def list_all_iff)

lemma fst_bind: "fst (bind m f) = fst m @ (case snd m of Inl e \<Rightarrow> [] | Inr x \<Rightarrow> fst (f x))"
  by (cases m; cases "snd m") (auto simp: bind_def split: prod.splits)

lemma snd_bind: "snd (bind m f) = (case snd m of Inl e \<Rightarrow> Inl e | Inr x \<Rightarrow> snd (f x))"
  by (cases m; cases "snd m") (auto simp: bind_def split: prod.splits)

lemma bind_Inr:
  assumes "bind m f = (ws, Inr y)"
  obtains w1 x w2 where "m = (w1, Inr x)" "f x = (w2, Inr y)" "ws = w1 @ w2"
  using assms by (cases m; cases "snd m") (auto simp: bind_def split: prod.splits)

lemma run_append: "run (xs @ ys) j = bind (run xs j) (run ys)"
proof (induction xs arbitrary: j)
  case Nil
  then show ?case by (cases "run ys j") (simp add: bind_def ret_def)
next
  case (Cons st xs)
  show ?case
    by (cases "st j"; cases "snd (st j)")
       (auto simp: Cons bind_def split: prod.splits sum.splits)
qed

lemma run_Cons_fun: "run (st # stmts) = (\<lambda>j. bind (st j) (run stmts))"
  by (rule ext) simp

lemma run_spec:
  assumes "\<forall>st\<in>set steps. step_spec st K m"
  shows "step_spec (run steps) K m"
  using assms
proof (induction steps)
  case Nil
  then show ?case by (simp add: step_spec_def ret_def)
next
  case (Cons st steps)
  then have a: "step_spec st K m" and b: "step_spec (run steps) K m" by simp_all
  show ?case
    unfolding step_spec_def
  proof (intro allI conjI impI ballI)
    fix j
    show "m \<notin> set (fst (run (st # steps) j))"
      using a b by (auto simp: step_spec_def fst_bind split: sum.splits)
  next
    fix j j' k
    assume r: "snd (run (st # steps) j) = Inr j'" and k: "k \<in> K"
    then obtain j1 where j1: "snd (st j) = Inr j1" "snd (run steps j1) = Inr j'"
      by (auto simp: snd_bind split: sum.splits)
    from a j1(1) k have "map_of j1 k = map_of j k" by (simp add: step_spec_def)
    moreover from b j1(2) k have "map_of j' k = map_of j1 k" by (simp add: step_spec_def)
    ultimately show "map_of j' k = map_of j k" by simp
  qed
qed

lemma run_at:
  assumes n: "n < length steps"
    and others: "\<forall>st\<in>set (take n steps @ drop (Suc n) steps). step_spec st K m"
    and res: "run steps [] = (ws, Inr json)"
  shows "\<exists>j1 w2 j2. (steps ! n) j1 = (w2, Inr j2)
            \<and> count_list ws m = count_list w2 m
            \<and> (\<forall>k\<in>K. map_of j1 k = None \<and> map_of json k = map_of j2 k)"
proof -
  have pre: "step_spec (run (take n steps)) K m" and post: "step_spec (run (drop (Suc n) steps)) K m"
    using others by (auto intro!: run_spec)
  have e: "steps = take n steps @ (steps ! n) # drop (Suc n) steps"
    using n by (rule id_take_nth_drop)
  have "run steps [] = run (take n steps @ (steps ! n) # drop (Suc n) steps) []"
    by (rule arg_cong [where f = "\<lambda>s. run s []", OF e])
  also have "\<dots> = bind (run (take n steps) [])
                     (\<lambda>j1. bind ((steps ! n) j1) (run (drop (Suc n) steps)))"
    by (simp only: run_append run_Cons_fun)
  finally have "bind (run (take n steps) [])
                  (\<lambda>j1. bind ((steps ! n) j1) (run (drop (Suc n) steps))) = (ws, Inr json)"
    using res by simp
  then obtain w1 j1 w23 where 1: "run (take n steps) [] = (w1, Inr j1)"
    and 23: "bind ((steps ! n) j1) (run (drop (Suc n) steps)) = (w23, Inr json)"
    and ws1: "ws = w1 @ w23"
    by (rule bind_Inr)
  from 23 obtain w2 j2 w3 where 2: "(steps ! n) j1 = (w2, Inr j2)"
    and 3: "run (drop (Suc n) steps) j2 = (w3, Inr json)" and ws2: "w23 = w2 @ w3"
    by (rule bind_Inr)
  from pre have "m \<notin> set (fst (run (take n steps) []))"
    and "\<forall>j'. snd (run (take n steps) []) = Inr j' \<longrightarrow> (\<forall>k\<in>K. map_of j' k = map_of [] k)"
    unfolding step_spec_def by blast+
  with 1 have m1: "m \<notin> set w1" and k1: "\<forall>k\<in>K. map_of j1 k = None"
    by simp_all
  from post have "m \<notin> set (fst (run (drop (Suc n) steps) j2))"
    and "\<forall>j'. snd (run (drop (Suc n) steps) j2) = Inr j' \<longrightarrow> (\<forall>k\<in>K. map_of j' k = map_of j2 k)"
    unfolding step_spec_def by blast+
  with 3 have m3: "m \<notin> set w3" and k3: "\<forall>k\<in>K. map_of json k = map_of j2 k"
    by simp_all
  have "count_list ws m = count_list w2 m"
    using m1 m3 by (simp add: ws1 ws2 count_list_0_iff)
  with 2 k1 k3 show ?thesis by blast
qed


lemma free_abbreviate: "free_msg (could_not_abbreviate name)"
  by (simp add: free_msg_def could_not_abbreviate_def)

lemma free_unknown: "free_msg (ascii ''Found unknown tag '' @ w)"
  by (simp add: free_msg_def)

lemma only_msgs_abbreviate: "only_msgs F (abbreviate tbl name)"
  by (cases "map_of tbl name")
     (auto simp: abbreviate_def dict_getitem_def free_abbreviate
           intro!: only_msgs_ret only_msgs_bind only_msgs_warn)

lemma only_msgs_class_list_of: "only_msgs F (class_list_of tbl classes L)"
  by (induction tbl classes L rule: class_list_of.induct)
     (auto intro!: only_msgs_ret only_msgs_bind only_msgs_abbreviate)

lemma only_msgs_levellist_of: "only_msgs F (levellist_of tbl classes Ls)"
  by (induction Ls) (auto intro!: only_msgs_ret only_msgs_bind only_msgs_class_list_of)

lemma only_msgs_level_from_classes: "only_msgs F (level_from_classes tbl classes)"
  unfolding level_from_classes_def Let_def
  by (auto intro!: only_msgs_ret only_msgs_raise only_msgs_bind only_msgs_levellist_of
           split: list.splits option.splits)

lemma only_msgs_simple_tag:
  "only_msgs [could_not_find_tag label w @ ascii ''.''] (get_text_from_simple_tag span label (Some w))"
  unfolding get_text_from_simple_tag_def
  by (auto intro!: only_msgs_ret only_msgs_bind only_msgs_warn split: option.splits)

lemma only_msgs_simple_tag_silent:
  "only_msgs [] (get_text_from_simple_tag span label None)"
  unfolding get_text_from_simple_tag_def
  by (auto intro!: only_msgs_ret split: option.splits)

lemma only_msgs_name: "only_msgs [] (name_from_span span)"
  unfolding name_from_span_def
  by (auto intro!: only_msgs_ret only_msgs_raise split: option.splits)

lemma only_msgs_source_spells:
  "only_msgs [could_not_find_tag ''Source'' ''source'',
              ascii ''No sources detected. Skipping element '' @ quoted ''source'' @ ascii ''.'']
     (source_from_span_spells tbl span)"
  unfolding source_from_span_spells_def
  by (auto intro!: only_msgs_ret only_msgs_bind only_msgs_warn only_msgs_abbreviate
           split: option.splits list.splits)

lemma only_msgs_school:
  "only_msgs [could_not_find_tag ''School'' ''school'' @ ascii ''.''] (school_from_span span)"
  unfolding school_from_span_def Let_def
  by (auto intro!: only_msgs_ret only_msgs_bind only_msgs_warn split: option.splits)

lemma only_msgs_classes_loop: "only_msgs F (classes_loop es acc)"
  by (induction es acc rule: classes_loop.induct)
     (auto intro!: only_msgs_ret only_msgs_raise split: sum.splits)

lemma only_msgs_classes:
  "only_msgs [could_not_find_tag ''Level'' ''classes'' @ ascii ''.''] (classes_from_span span)"
  unfolding classes_from_span_def
  by (auto intro!: only_msgs_ret only_msgs_bind only_msgs_simple_tag only_msgs_classes_loop
           split: option.splits)

lemma only_msgs_time:
  "only_msgs [could_not_find_tag ''Casting Time'' ''time'' @ ascii ''.''] (time_from_span span)"
  unfolding time_from_span_def
  by (auto intro!: only_msgs_ret only_msgs_bind only_msgs_simple_tag)

lemma only_msgs_components:
  "only_msgs [could_not_find_tag ''Components'' ''components'' @ ascii ''.'']
     (components_from_span span)"
  unfolding components_from_span_def
  by (auto intro!: only_msgs_ret only_msgs_bind only_msgs_simple_tag)

lemma only_msgs_range:
  "only_msgs [could_not_find_tag ''Range'' ''range'' @ ascii ''.''] (range_from_span span)"
  unfolding range_from_span_def
  by (auto intro!: only_msgs_ret only_msgs_bind only_msgs_simple_tag)

lemma only_msgs_ATE: "only_msgs [] (ATE_from_span span l)"
  unfolding ATE_from_span_def
  by (auto intro!: only_msgs_ret only_msgs_bind only_msgs_simple_tag_silent)

lemma only_msgs_target: "only_msgs [] (target_from_span span)"
  unfolding target_from_span_def
  by (auto intro!: only_msgs_ret only_msgs_bind only_msgs_ATE split: option.splits)

lemma only_msgs_duration:
  "only_msgs [could_not_find_tag ''Duration'' ''duration'' @ ascii ''.''] (duration_from_span span)"
  unfolding duration_from_span_def Let_def
  by (auto intro!: only_msgs_ret only_msgs_raise only_msgs_bind only_msgs_warn
           only_msgs_mono [OF only_msgs_ATE] split: option.splits)

lemma only_msgs_save: "only_msgs [] (save_from_span span)"
  unfolding save_from_span_def Let_def
  by (auto intro!: only_msgs_ret only_msgs_bind only_msgs_simple_tag_silent split: option.splits)

lemma only_msgs_sr: "only_msgs [] (sr_from_span span)"
  unfolding sr_from_span_def
  by (auto intro!: only_msgs_ret only_msgs_bind only_msgs_simple_tag_silent split: option.splits)

lemma only_msgs_parse_basic_elem: "only_msgs F (parse_basic_elem e)"
  by (cases e)
     (auto intro!: only_msgs_ret only_msgs_bind only_msgs_warn simp: free_msg_def)

lemma only_msgs_parse_basic_text: "only_msgs F (parse_basic_text item)"
  unfolding parse_basic_text_def
  by (auto intro!: only_msgs_ret only_msgs_raise only_msgs_bind only_msgs_collect
           only_msgs_parse_basic_elem split: node.splits)

lemma only_msgs_ul_process: "only_msgs F (ul_process ul)"
  unfolding ul_process_def
  by (auto intro!: only_msgs_ret only_msgs_bind only_msgs_collect only_msgs_parse_basic_text)

lemma only_msgs_table_row: "only_msgs F (table_row row)"
  unfolding table_row_def
  by (auto intro!: only_msgs_ret only_msgs_bind only_msgs_collect only_msgs_parse_basic_text
           split: node.splits)

lemma only_msgs_htmltable2latex: "only_msgs F (htmltable2latex table)"
  unfolding htmltable2latex_def
  by (auto intro!: only_msgs_ret only_msgs_raise only_msgs_bind only_msgs_collect
           only_msgs_table_row split: option.splits)

lemma only_msgs_description_elem: "only_msgs F (description_elem e)"
  unfolding description_elem_def
  by (auto intro!: only_msgs_ret only_msgs_bind only_msgs_warn only_msgs_ul_process
           only_msgs_htmltable2latex simp: free_msg_def split: node.splits)

lemma only_msgs_description_spells:
  "only_msgs [could_not_find_tag ''Description'' ''description'']
     (description_from_span_spells span)"
  unfolding description_from_span_spells_def
  by (auto intro!: only_msgs_ret only_msgs_bind only_msgs_warn only_msgs_collect
           only_msgs_description_elem split: option.splits)


lemma only_msgs_source_items:
  "only_msgs [ascii ''We could not find '' @ quoted ''Source ''
                @ ascii ''. Skipping element '' @ quoted ''source'',
              ascii ''We could not find '' @ quoted ''Aura''
                @ ascii ''. Skipping element '' @ quoted ''source'']
     (source_from_span_items tbl span)"
  unfolding source_from_span_items_def Let_def
  by (auto intro!: only_msgs_ret only_msgs_raise only_msgs_bind only_msgs_warn
           only_msgs_abbreviate split: option.splits list.splits)

lemma only_msgs_aura:
  "only_msgs [ascii ''We could not find '' @ quoted ''Aura ''
                @ ascii ''. Skipping element '' @ quoted ''aura'',
              ascii ''We could not find '' @ quoted ''CL''
                @ ascii ''. Skipping element '' @ quoted ''aura'']
     (aura_from_span span)"
  unfolding aura_from_span_def Let_def
  by (auto intro!: only_msgs_ret only_msgs_bind only_msgs_warn split: option.splits)

lemma only_msgs_CL: "only_msgs [could_not_find_tag ''CL'' ''cl''] (CL_from_span span)"
  unfolding CL_from_span_def
  by (auto intro!: only_msgs_ret only_msgs_bind only_msgs_warn split: option.splits)

lemma only_msgs_drop_semicolon: "only_msgs F (drop_semicolon s)"
  unfolding drop_semicolon_def by (auto intro!: only_msgs_ret only_msgs_raise)

lemma only_msgs_slot: "only_msgs [could_not_find_tag ''Slot'' ''slot''] (slot_from_span span)"
  unfolding slot_from_span_def
  by (auto intro!: only_msgs_ret only_msgs_bind only_msgs_warn only_msgs_drop_semicolon
           split: option.splits)

lemma only_msgs_price: "only_msgs [could_not_find_tag ''Price'' ''price''] (price_from_span span)"
  unfolding price_from_span_def
  by (auto intro!: only_msgs_ret only_msgs_bind only_msgs_warn only_msgs_drop_semicolon
           split: option.splits)

lemma only_msgs_weight: "only_msgs [could_not_find_tag ''Weight'' ''weight''] (weight_from_span span)"
  unfolding weight_from_span_def Let_def
  by (auto intro!: only_msgs_ret only_msgs_bind only_msgs_warn split: option.splits)

lemma only_msgs_description_items:
  "only_msgs [could_not_find_tag ''Description'' ''description'',
              ascii ''Did not find h3 block after Description.'']
     (description_from_span_items span)"
  unfolding description_from_span_items_def
  by (auto intro!: only_msgs_ret only_msgs_bind only_msgs_warn only_msgs_collect
           only_msgs_description_elem split: option.splits)

lemma only_msgs_construction:
  "only_msgs [ascii ''Could not find Construction tag. Skipping.''] (construction_from_span span)"
  unfolding construction_from_span_def
  by (auto intro!: only_msgs_ret only_msgs_raise only_msgs_bind only_msgs_warn
           split: option.splits list.splits)

lemma map_of_setitem: "k' \<noteq> ascii k \<Longrightarrow> map_of (setitem k v j) k' = map_of j k'"
  by (simp add: setitem_def update_conv')

lemma map_of_setitem_same: "map_of (setitem k v j) (ascii k) = Some v"
  by (simp add: setitem_def update_conv')

lemma step_specI:
  assumes "\<And>j. only_msgs F (st j)" "m \<notin> set F" "\<not> free_msg m"
    and "\<And>j j' k. snd (st j) = Inr j' \<Longrightarrow> k \<in> K \<Longrightarrow> map_of j' k = map_of j k"
  shows "step_spec st K m"
  unfolding step_spec_def using assms not_emitted by blast

lemma store_spec:
  assumes "only_msgs F x" "m \<notin> set F" "\<not> free_msg m" "ascii k \<notin> K"
  shows "step_spec (store k x) K m"
proof (rule step_specI [where F = F])
  fix j
  show "only_msgs F (store k x j)"
    unfolding store_def by (intro only_msgs_bind only_msgs_ret assms(1))
next
  fix j j' k'
  assume "snd (store k x j) = Inr j'" "k' \<in> K"
  moreover from this assms(4) have "k' \<noteq> ascii k" by blast
  ultimately show "map_of j' k' = map_of j k'"
    by (auto simp: store_def snd_bind ret_def map_of_setitem split: sum.splits option.splits)
qed (rule assms)+

lemma store_classes_spec:
  assumes "m \<noteq> could_not_find_tag ''Level'' ''classes'' @ ascii ''.''" "\<not> free_msg m"
    "ascii ''classes'' \<notin> K" "ascii ''level'' \<notin> K"
  shows "step_spec (store_classes tbl span) K m"
proof (rule step_specI [where F = "[could_not_find_tag ''Level'' ''classes'' @ ascii ''.'']"])
  fix j
  show "only_msgs [could_not_find_tag ''Level'' ''classes'' @ ascii ''.''] (store_classes tbl span j)"
    unfolding store_classes_def
    by (auto intro!: only_msgs_bind only_msgs_ret only_msgs_classes only_msgs_level_from_classes
             split: option.splits)
next
  fix j j' k'
  assume "snd (store_classes tbl span j) = Inr j'" "k' \<in> K"
  moreover from this assms(3,4) have "k' \<noteq> ascii ''classes''" "k' \<noteq> ascii ''level''"
    by blast+
  ultimately show "map_of j' k' = map_of j k'"
    by (auto simp: store_classes_def snd_bind ret_def map_of_setitem
             split: sum.splits option.splits)
qed (use assms in simp_all)

lemma store_ATE_spec:
  assumes "m \<noteq> no_ATE" "\<not> free_msg m"
    "ascii ''area'' \<notin> K" "ascii ''target'' \<notin> K" "ascii ''effect'' \<notin> K"
  shows "step_spec (store_ATE span) K m"
proof (rule step_specI [where F = "[no_ATE]"])
  fix j
  show "only_msgs [no_ATE] (store_ATE span j)"
    unfolding store_ATE_def area_from_span_def effect_from_span_def
    by (auto intro!: only_msgs_bind only_msgs_ret only_msgs_warn
             only_msgs_mono [OF only_msgs_ATE] only_msgs_mono [OF only_msgs_target]
             simp: no_ATE_def)
next
  fix j j' k'
  assume "snd (store_ATE span j) = Inr j'" "k' \<in> K"
  moreover from this assms(3,4,5)
  have "k' \<noteq> ascii ''area''" "k' \<noteq> ascii ''target''" "k' \<noteq> ascii ''effect''"
    by blast+
  ultimately show "map_of j' k' = map_of j k'"
    by (auto simp: store_ATE_def snd_bind ret_def warn_def map_of_setitem
             split: sum.splits option.splits if_splits)
qed (use assms in simp_all)

lemma store_construction_spec:
  assumes "m \<noteq> ascii ''Could not find Construction tag. Skipping.''" "\<not> free_msg m"
    "ascii ''feat'' \<notin> K" "ascii ''spells'' \<notin> K" "ascii ''other_requirements'' \<notin> K"
  shows "step_spec (store_construction span) K m"
proof (rule step_specI [where F = "[ascii ''Could not find Construction tag. Skipping.'']"])
  fix j
  show "only_msgs [ascii ''Could not find Construction tag. Skipping.''] (store_construction span j)"
    unfolding store_construction_def
    by (auto intro!: only_msgs_bind only_msgs_ret only_msgs_raise only_msgs_construction
             split: option.splits prod.splits)
next
  fix j j' k'
  assume "snd (store_construction span j) = Inr j'" "k' \<in> K"
  moreover from this assms(3,4,5)
  have "k' \<noteq> ascii ''feat''" "k' \<noteq> ascii ''spells''" "k' \<noteq> ascii ''other_requirements''"
    by blast+
  ultimately show "map_of j' k' = map_of j k'"
    by (auto simp: store_construction_def snd_bind ret_def raise_def map_of_setitem
             split: sum.splits option.splits prod.splits)
qed (use assms in simp_all)


lemmas step_rules =
  store_spec [OF only_msgs_name] store_spec [OF only_msgs_source_spells]
  store_spec [OF only_msgs_school] store_classes_spec store_spec [OF only_msgs_time]
  store_spec [OF only_msgs_components] store_spec [OF only_msgs_range] store_ATE_spec
  store_spec [OF only_msgs_duration] store_spec [OF only_msgs_save] store_spec [OF only_msgs_sr]
  store_spec [OF only_msgs_description_spells]
  store_spec [OF only_msgs_source_items] store_spec [OF only_msgs_aura]
  store_spec [OF only_msgs_CL] store_spec [OF only_msgs_slot] store_spec [OF only_msgs_price]
  store_spec [OF only_msgs_weight] store_spec [OF only_msgs_description_items]
  store_construction_spec

lemmas msg_defs = could_not_find_tag_def quoted_def ascii_def free_msg_def no_ATE_def

lemma guarded_field:
  assumes res: "run steps [] = (ws, Inr json)"
    and n: "n < length steps"
    and tgt: "\<And>j. (steps ! n) j = ([m], Inr j)"
    and others: "\<forall>st\<in>set (take n steps @ drop (Suc n) steps). step_spec st K m"
  shows "(\<forall>k\<in>K. map_of json k = None) \<and> count_list ws m = 1"
proof -
  from run_at [OF n others res] obtain j1 w2 j2 where
    a: "(steps ! n) j1 = (w2, Inr j2)" and c: "count_list ws m = count_list w2 m"
    and k: "\<forall>k\<in>K. map_of j1 k = None \<and> map_of json k = map_of j2 k"
    by blast
  from a tgt [of j1] have "w2 = [m]" "j2 = j1" by simp_all
  with c k show ?thesis by simp
qed

lemma store_absent: "x = ([m], Inr None) \<Longrightarrow> store k x j = ([m], Inr j)"
  by (simp add: store_def res_defs)


lemma spells_guarded:
  assumes res: "run (spells_statements tbl span) [] = (ws, Inr json)"
  shows "\<forall>(absent, key, msg)\<in>set guarded_spells.
           absent span \<longrightarrow> map_of json (ascii key) = None \<and> count_list ws msg = 1"
proof -
  have source: "map_of json (ascii ''source'') = None
      \<and> count_list ws (could_not_find_tag ''Source'' ''source'') = 1"
    if absent: "find_label ''b'' ''Source'' span = None"
  proof -
    have tgt: "\<And>j. (spells_statements tbl span ! 1) j = ([could_not_find_tag ''Source'' ''source''], Inr j)"
      by (simp add: spells_statements_def store_def source_from_span_spells_def absent res_defs)
    have others: "\<forall>st\<in>set (take 1 (spells_statements tbl span) @ drop (Suc 1) (spells_statements tbl span)).
        step_spec st {ascii ''source''} (could_not_find_tag ''Source'' ''source'')"
      apply (simp add: spells_statements_def)
      apply (intro conjI step_rules)
      apply (simp_all add: msg_defs)
      done
    have "(\<forall>k\<in>{ascii ''source''}. map_of json k = None) \<and> count_list ws (could_not_find_tag ''Source'' ''source'') = 1"
      by (rule guarded_field [OF res _ tgt others]) (simp add: spells_statements_def)
    then show ?thesis by simp
  qed
  have school: "map_of json (ascii ''school'') = None
      \<and> count_list ws (could_not_find_tag ''School'' ''school'' @ ascii ''.'') = 1"
    if absent: "find_label ''b'' ''School'' span = None"
  proof -
    have tgt: "\<And>j. (spells_statements tbl span ! 2) j = ([could_not_find_tag ''School'' ''school'' @ ascii ''.''], Inr j)"
      by (simp add: spells_statements_def store_def school_from_span_def absent res_defs)
    have others: "\<forall>st\<in>set (take 2 (spells_statements tbl span) @ drop (Suc 2) (spells_statements tbl span)).
        step_spec st {ascii ''school''} (could_not_find_tag ''School'' ''school'' @ ascii ''.'')"
      apply (simp add: spells_statements_def)
      apply (intro conjI step_rules)
      apply (simp_all add: msg_defs)
      done
    have "(\<forall>k\<in>{ascii ''school''}. map_of json k = None) \<and> count_list ws (could_not_find_tag ''School'' ''school'' @ ascii ''.'') = 1"
      by (rule guarded_field [OF res _ tgt others]) (simp add: spells_statements_def)
    then show ?thesis by simp
  qed
  have level: "map_of json (ascii ''classes'') = None \<and> map_of json (ascii ''level'') = None
      \<and> count_list ws (could_not_find_tag ''Level'' ''classes'' @ ascii ''.'') = 1"
    if absent: "find_label ''b'' ''Level'' span = None"
  proof -
    have tgt: "\<And>j. (spells_statements tbl span ! 3) j = ([could_not_find_tag ''Level'' ''classes'' @ ascii ''.''], Inr j)"
      by (simp add: spells_statements_def store_classes_def classes_from_span_def get_text_from_simple_tag_def absent res_defs)
    have others: "\<forall>st\<in>set (take 3 (spells_statements tbl span) @ drop (Suc 3) (spells_statements tbl span)).
        step_spec st {ascii ''classes'', ascii ''level''} (could_not_find_tag ''Level'' ''classes'' @ ascii ''.'')"
      apply (simp add: spells_statements_def)
      apply (intro conjI step_rules)
      apply (simp_all add: msg_defs)
      done
    have "(\<forall>k\<in>{ascii ''classes'', ascii ''level''}. map_of json k = None) \<and> count_list ws (could_not_find_tag ''Level'' ''classes'' @ ascii ''.'') = 1"
      by (rule guarded_field [OF res _ tgt others]) (simp add: spells_statements_def)
    then show ?thesis by simp
  qed
  have time: "map_of json (ascii ''time'') = None
      \<and> count_list ws (could_not_find_tag ''Casting Time'' ''time'' @ ascii ''.'') = 1"
    if absent: "find_label ''b'' ''Casting Time'' span = None"
  proof -
    have tgt: "\<And>j. (spells_statements tbl span ! 4) j = ([could_not_find_tag ''Casting Time'' ''time'' @ ascii ''.''], Inr j)"
      by (simp add: spells_statements_def store_def time_from_span_def get_text_from_simple_tag_def absent res_defs)
    have others: "\<forall>st\<in>set (take 4 (spells_statements tbl span) @ drop (Suc 4) (spells_statements tbl span)).
        step_spec st {ascii ''time''} (could_not_find_tag ''Casting Time'' ''time'' @ ascii ''.'')"
      apply (simp add: spells_statements_def)
      apply (intro conjI step_rules)
      apply (simp_all add: msg_defs)
      done
    have "(\<forall>k\<in>{ascii ''time''}. map_of json k = None) \<and> count_list ws (could_not_find_tag ''Casting Time'' ''time'' @ ascii ''.'') = 1"
      by (rule guarded_field [OF res _ tgt others]) (simp add: spells_statements_def)
    then show ?thesis by simp
  qed
  have components: "map_of json (ascii ''components'') = None
      \<and> count_list ws (could_not_find_tag ''Components'' ''components'' @ ascii ''.'') = 1"
    if absent: "find_label ''b'' ''Components'' span = None"
  proof -
    have tgt: "\<And>j. (spells_statements tbl span ! 5) j = ([could_not_find_tag ''Components'' ''components'' @ ascii ''.''], Inr j)"
      by (simp add: spells_statements_def store_def components_from_span_def get_text_from_simple_tag_def absent res_defs)
    have others: "\<forall>st\<in>set (take 5 (spells_statements tbl span) @ drop (Suc 5) (spells_statements tbl span)).
        step_spec st {ascii ''components''} (could_not_find_tag ''Components'' ''components'' @ ascii ''.'')"
      apply (simp add: spells_statements_def)
      apply (intro conjI step_rules)
      apply (simp_all add: msg_defs)
      done
    have "(\<forall>k\<in>{ascii ''components''}. map_of json k = None) \<and> count_list ws (could_not_find_tag ''Components'' ''components'' @ ascii ''.'') = 1"
      by (rule guarded_field [OF res _ tgt others]) (simp add: spells_statements_def)
    then show ?thesis by simp
  qed
  have range: "map_of json (ascii ''range'') = None
      \<and> count_list ws (could_not_find_tag ''Range'' ''range'' @ ascii ''.'') = 1"
    if absent: "find_label ''b'' ''Range'' span = None"
  proof -
    have tgt: "\<And>j. (spells_statements tbl span ! 6) j = ([could_not_find_tag ''Range'' ''range'' @ ascii ''.''], Inr j)"
      by (simp add: spells_statements_def store_def range_from_span_def get_text_from_simple_tag_def absent res_defs)
    have others: "\<forall>st\<in>set (take 6 (spells_statements tbl span) @ drop (Suc 6) (spells_statements tbl span)).
        step_spec st {ascii ''range''} (could_not_find_tag ''Range'' ''range'' @ ascii ''.'')"
      apply (simp add: spells_statements_def)
      apply (intro conjI step_rules)
      apply (simp_all add: msg_defs)
      done
    have "(\<forall>k\<in>{ascii ''range''}. map_of json k = None) \<and> count_list ws (could_not_find_tag ''Range'' ''range'' @ ascii ''.'') = 1"
      by (rule guarded_field [OF res _ tgt others]) (simp add: spells_statements_def)
    then show ?thesis by simp
  qed
  have description: "map_of json (ascii ''description'') = None
      \<and> count_list ws (could_not_find_tag ''Description'' ''description'') = 1"
    if absent: "find_label ''h3'' ''Description'' span = None"
  proof -
    have tgt: "\<And>j. (spells_statements tbl span ! 11) j = ([could_not_find_tag ''Description'' ''description''], Inr j)"
      by (simp add: spells_statements_def store_def description_from_span_spells_def absent res_defs)
    have others: "\<forall>st\<in>set (take 11 (spells_statements tbl span) @ drop (Suc 11) (spells_statements tbl span)).
        step_spec st {ascii ''description''} (could_not_find_tag ''Description'' ''description'')"
      apply (simp add: spells_statements_def)
      apply (intro conjI step_rules)
      apply (simp_all add: msg_defs)
      done
    have "(\<forall>k\<in>{ascii ''description''}. map_of json k = None) \<and> count_list ws (could_not_find_tag ''Description'' ''description'') = 1"
      by (rule guarded_field [OF res _ tgt others]) (simp add: spells_statements_def)
    then show ?thesis by simp
  qed
  show ?thesis
    unfolding guarded_spells_def
    using source school level time components range description
    by (simp add: no_label_def)
qed

lemma items_guarded:
  assumes res: "run (items_statements tbl span) [] = (ws, Inr json)"
  shows "\<forall>(absent, key, msg)\<in>set guarded_items.
           absent span \<longrightarrow> map_of json (ascii key) = None \<and> count_list ws msg = 1"
proof -
  have source: "map_of json (ascii ''source'') = None
      \<and> count_list ws (ascii ''We could not find '' @ quoted ''Source '' @ ascii ''. Skipping element '' @ quoted ''source'') = 1"
    if absent: "py_find (ascii ''Source '') (node_text span) = None"
  proof -
    have tgt: "\<And>j. (items_statements tbl span ! 1) j = ([ascii ''We could not find '' @ quoted ''Source '' @ ascii ''. Skipping element '' @ quoted ''source''], Inr j)"
      by (simp add: items_statements_def store_def source_from_span_items_def Let_def absent res_defs)
    have others: "\<forall>st\<in>set (take 1 (items_statements tbl span) @ drop (Suc 1) (items_statements tbl span)).
        step_spec st {ascii ''source''} (ascii ''We could not find '' @ quoted ''Source '' @ ascii ''. Skipping element '' @ quoted ''source'')"
      apply (simp add: items_statements_def)
      apply (intro conjI step_rules)
      apply (simp_all add: msg_defs)
      done
    have "(\<forall>k\<in>{ascii ''source''}. map_of json k = None) \<and> count_list ws (ascii ''We could not find '' @ quoted ''Source '' @ ascii ''. Skipping element '' @ quoted ''source'') = 1"
      by (rule guarded_field [OF res _ tgt others]) (simp add: items_statements_def)
    then show ?thesis by simp
  qed
  have aura: "map_of json (ascii ''aura'') = None
      \<and> count_list ws (ascii ''We could not find '' @ quoted ''Aura '' @ ascii ''. Skipping element '' @ quoted ''aura'') = 1"
    if absent: "py_find (ascii ''Aura '') (node_text span) = None"
  proof -
    have tgt: "\<And>j. (items_statements tbl span ! 2) j = ([ascii ''We could not find '' @ quoted ''Aura '' @ ascii ''. Skipping element '' @ quoted ''aura''], Inr j)"
      by (simp add: items_statements_def store_def aura_from_span_def Let_def absent res_defs)
    have others: "\<forall>st\<in>set (take 2 (items_statements tbl span) @ drop (Suc 2) (items_statements tbl span)).
        step_spec st {ascii ''aura''} (ascii ''We could not find '' @ quoted ''Aura '' @ ascii ''. Skipping element '' @ quoted ''aura'')"
      apply (simp add: items_statements_def)
      apply (intro conjI step_rules)
      apply (simp_all add: msg_defs)
      done
    have "(\<forall>k\<in>{ascii ''aura''}. map_of json k = None) \<and> count_list ws (ascii ''We could not find '' @ quoted ''Aura '' @ ascii ''. Skipping element '' @ quoted ''aura'') = 1"
      by (rule guarded_field [OF res _ tgt others]) (simp add: items_statements_def)
    then show ?thesis by simp
  qed
  have cl: "map_of json (ascii ''cl'') = None
      \<and> count_list ws (could_not_find_tag ''CL'' ''cl'') = 1"
    if absent: "find_label ''b'' ''CL'' span = None"
  proof -
    have tgt: "\<And>j. (items_statements tbl span ! 3) j = ([could_not_find_tag ''CL'' ''cl''], Inr j)"
      by (simp add: items_statements_def store_def CL_from_span_def absent res_defs)
    have others: "\<forall>st\<in>set (take 3 (items_statements tbl span) @ drop (Suc 3) (items_statements tbl span)).
        step_spec st {ascii ''cl''} (could_not_find_tag ''CL'' ''cl'')"
      apply (simp add: items_statements_def)
      apply (intro conjI step_rules)
      apply (simp_all add: msg_defs)
      done
    have "(\<forall>k\<in>{ascii ''cl''}. map_of json k = None) \<and> count_list ws (could_not_find_tag ''CL'' ''cl'') = 1"
      by (rule guarded_field [OF res _ tgt others]) (simp add: items_statements_def)
    then show ?thesis by simp
  qed
  have slot: "map_of json (ascii ''slot'') = None
      \<and> count_list ws (could_not_find_tag ''Slot'' ''slot'') = 1"
    if absent: "find_label ''b'' ''Slot'' span = None"
  proof -
    have tgt: "\<And>j. (items_statements tbl span ! 4) j = ([could_not_find_tag ''Slot'' ''slot''], Inr j)"
      by (simp add: items_statements_def store_def slot_from_span_def absent res_defs)
    have others: "\<forall>st\<in>set (take 4 (items_statements tbl span) @ drop (Suc 4) (items_statements tbl span)).
        step_spec st {ascii ''slot''} (could_not_find_tag ''Slot'' ''slot'')"
      apply (simp add: items_statements_def)
      apply (intro conjI step_rules)
      apply (simp_all add: msg_defs)
      done
    have "(\<forall>k\<in>{ascii ''slot''}. map_of json k = None) \<and> count_list ws (could_not_find_tag ''Slot'' ''slot'') = 1"
      by (rule guarded_field [OF res _ tgt others]) (simp add: items_statements_def)
    then show ?thesis by simp
  qed
  have price: "map_of json (ascii ''price'') = None
      \<and> count_list ws (could_not_find_tag ''Price'' ''price'') = 1"
    if absent: "find_label ''b'' ''Price'' span = None"
  proof -
    have tgt: "\<And>j. (items_statements tbl span ! 5) j = ([could_not_find_tag ''Price'' ''price''], Inr j)"
      by (simp add: items_statements_def store_def price_from_span_def absent res_defs)
    have others: "\<forall>st\<in>set (take 5 (items_statements tbl span) @ drop (Suc 5) (items_statements tbl span)).
        step_spec st {ascii ''price''} (could_not_find_tag ''Price'' ''price'')"
      apply (simp add: items_statements_def)
      apply (intro conjI step_rules)
      apply (simp_all add: msg_defs)
      done
    have "(\<forall>k\<in>{ascii ''price''}. map_of json k = None) \<and> count_list ws (could_not_find_tag ''Price'' ''price'') = 1"
      by (rule guarded_field [OF res _ tgt others]) (simp add: items_statements_def)
    then show ?thesis by simp
  qed
  have weight: "map_of json (ascii ''weight'') = None
      \<and> count_list ws (could_not_find_tag ''Weight'' ''weight'') = 1"
    if absent: "find_label ''b'' ''Weight'' span = None"
  proof -
    have tgt: "\<And>j. (items_statements tbl span ! 6) j = ([could_not_find_tag ''Weight'' ''weight''], Inr j)"
      by (simp add: items_statements_def store_def weight_from_span_def absent res_defs)
    have others: "\<forall>st\<in>set (take 6 (items_statements tbl span) @ drop (Suc 6) (items_statements tbl span)).
        step_spec st {ascii ''weight''} (could_not_find_tag ''Weight'' ''weight'')"
      apply (simp add: items_statements_def)
      apply (intro conjI step_rules)
      apply (simp_all add: msg_defs)
      done
    have "(\<forall>k\<in>{ascii ''weight''}. map_of json k = None) \<and> count_list ws (could_not_find_tag ''Weight'' ''weight'') = 1"
      by (rule guarded_field [OF res _ tgt others]) (simp add: items_statements_def)
    then show ?thesis by simp
  qed
  have description: "map_of json (ascii ''description'') = None
      \<and> count_list ws (could_not_find_tag ''Description'' ''description'') = 1"
    if absent: "find_label ''h3'' ''Description'' span = None"
  proof -
    have tgt: "\<And>j. (items_statements tbl span ! 7) j = ([could_not_find_tag ''Description'' ''description''], Inr j)"
      by (simp add: items_statements_def store_def description_from_span_items_def absent res_defs)
    have others: "\<forall>st\<in>set (take 7 (items_statements tbl span) @ drop (Suc 7) (items_statements tbl span)).
        step_spec st {ascii ''description''} (could_not_find_tag ''Description'' ''description'')"
      apply (simp add: items_statements_def)
      apply (intro conjI step_rules)
      apply (simp_all add: msg_defs)
      done
    have "(\<forall>k\<in>{ascii ''description''}. map_of json k = None) \<and> count_list ws (could_not_find_tag ''Description'' ''description'') = 1"
      by (rule guarded_field [OF res _ tgt others]) (simp add: items_statements_def)
    then show ?thesis by simp
  qed
  show ?thesis
    unfolding guarded_items_def
    using source aura cl slot price weight description
    by (simp add: no_label_def no_text_def)
qed

lemma ATE_value:
  "\<exists>v. ATE_from_span span l = ([], Inr v) \<and> (v = None \<longleftrightarrow> find_label ''b'' l span = None)"
  by (simp add: ATE_from_span_def get_text_from_simple_tag_def res_defs split: option.splits)

lemma target_value:
  "\<exists>v. target_from_span span = ([], Inr v)
      \<and> (v = None \<longleftrightarrow> find_label ''b'' ''Target'' span = None
                       \<and> find_label ''b'' ''Targets'' span = None)"
  using ATE_value [of span "''Target''"] ATE_value [of span "''Targets''"]
  by (auto simp: target_from_span_def res_defs)

lemma jstr_or_null_JNull: "jstr_or_null v = JNull \<longleftrightarrow> v = None"
  by (cases v) (simp_all add: jstr_or_null_def)

lemma store_ATE_result:
  assumes "store_ATE span j = (w2, Inr j2)"
  shows "\<exists>a t e. (a = None \<longleftrightarrow> no_label ''b'' ''Area'' span)
       \<and> (t = None \<longleftrightarrow> no_label ''b'' ''Target'' span \<and> no_label ''b'' ''Targets'' span)
       \<and> (e = None \<longleftrightarrow> no_label ''b'' ''Effect'' span)
       \<and> w2 = (if a = None \<and> t = None \<and> e = None then [no_ATE] else [])
       \<and> map_of j2 (ascii ''area'') = Some (jstr_or_null a)
       \<and> map_of j2 (ascii ''target'') = Some (jstr_or_null t)
       \<and> map_of j2 (ascii ''effect'') = Some (jstr_or_null e)"
proof -
  obtain a where a: "area_from_span span = ([], Inr a)"
    "a = None \<longleftrightarrow> find_label ''b'' ''Area'' span = None"
    using ATE_value [of span "''Area''"] by (auto simp: area_from_span_def)
  obtain e where e: "effect_from_span span = ([], Inr e)"
    "e = None \<longleftrightarrow> find_label ''b'' ''Effect'' span = None"
    using ATE_value [of span "''Effect''"] by (auto simp: effect_from_span_def)
  obtain t where t: "target_from_span span = ([], Inr t)"
    "t = None \<longleftrightarrow> find_label ''b'' ''Target'' span = None \<and> find_label ''b'' ''Targets'' span = None"
    using target_value [of span] by auto
  have ne: "ascii ''area'' \<noteq> ascii ''target''" "ascii ''area'' \<noteq> ascii ''effect''"
    "ascii ''target'' \<noteq> ascii ''effect''"
    by (simp_all add: ascii_def)
  have r: "store_ATE span j =
     ((if a = None \<and> t = None \<and> e = None then [no_ATE] else []),
      Inr (setitem ''effect'' (jstr_or_null e)
            (setitem ''target'' (jstr_or_null t)
              (setitem ''area'' (jstr_or_null a) j))))"
    by (simp add: store_ATE_def a(1) t(1) e(1) res_defs no_ATE_def)
  from assms r have w: "w2 = (if a = None \<and> t = None \<and> e = None then [no_ATE] else [])"
    and j2: "j2 = setitem ''effect'' (jstr_or_null e)
            (setitem ''target'' (jstr_or_null t)
              (setitem ''area'' (jstr_or_null a) j))"
    by simp_all
  have "map_of j2 (ascii ''area'') = Some (jstr_or_null a)"
    "map_of j2 (ascii ''target'') = Some (jstr_or_null t)"
    "map_of j2 (ascii ''effect'') = Some (jstr_or_null e)"
    unfolding j2 using ne by (simp_all add: map_of_setitem map_of_setitem_same)
  with a(2) t(2) e(2) w
  have "(a = None \<longleftrightarrow> no_label ''b'' ''Area'' span)
       \<and> (t = None \<longleftrightarrow> no_label ''b'' ''Target'' span \<and> no_label ''b'' ''Targets'' span)
       \<and> (e = None \<longleftrightarrow> no_label ''b'' ''Effect'' span)
       \<and> w2 = (if a = None \<and> t = None \<and> e = None then [no_ATE] else [])
       \<and> map_of j2 (ascii ''area'') = Some (jstr_or_null a)
       \<and> map_of j2 (ascii ''target'') = Some (jstr_or_null t)
       \<and> map_of j2 (ascii ''effect'') = Some (jstr_or_null e)"
    by (simp add: no_label_def)
  then show ?thesis by (intro exI)
qed

lemma spells_ATE:
  assumes res: "run (spells_statements tbl span) [] = (ws, Inr json)"
  shows "\<exists>a t e. (a = None \<longleftrightarrow> no_label ''b'' ''Area'' span)
       \<and> (t = None \<longleftrightarrow> no_label ''b'' ''Target'' span \<and> no_label ''b'' ''Targets'' span)
       \<and> (e = None \<longleftrightarrow> no_label ''b'' ''Effect'' span)
       \<and> count_list ws no_ATE = (if a = None \<and> t = None \<and> e = None then 1 else 0)
       \<and> map_of json (ascii ''area'') = Some (jstr_or_null a)
       \<and> map_of json (ascii ''target'') = Some (jstr_or_null t)
       \<and> map_of json (ascii ''effect'') = Some (jstr_or_null e)"
proof -
  have others: "\<forall>st\<in>set (take 7 (spells_statements tbl span) @ drop (Suc 7) (spells_statements tbl span)).
        step_spec st {ascii ''area'', ascii ''target'', ascii ''effect''} no_ATE"
    apply (simp add: spells_statements_def)
    apply (intro conjI step_rules)
    apply (simp_all add: msg_defs)
    done
  have n: "7 < length (spells_statements tbl span)" by (simp add: spells_statements_def)
  from run_at [OF n others res] obtain j1 w2 j2 where
    st: "(spells_statements tbl span ! 7) j1 = (w2, Inr j2)"
    and c: "count_list ws no_ATE = count_list w2 no_ATE"
    and k: "\<forall>k\<in>{ascii ''area'', ascii ''target'', ascii ''effect''}.
              map_of j1 k = None \<and> map_of json k = map_of j2 k"
    by blast
  from st have "store_ATE span j1 = (w2, Inr j2)" by (simp add: spells_statements_def)
  from store_ATE_result [OF this] obtain a t e where
    r: "a = None \<longleftrightarrow> no_label ''b'' ''Area'' span"
       "t = None \<longleftrightarrow> no_label ''b'' ''Target'' span \<and> no_label ''b'' ''Targets'' span"
       "e = None \<longleftrightarrow> no_label ''b'' ''Effect'' span"
       "w2 = (if a = None \<and> t = None \<and> e = None then [no_ATE] else [])"
       "map_of j2 (ascii ''area'') = Some (jstr_or_null a)"
       "map_of j2 (ascii ''target'') = Some (jstr_or_null t)"
       "map_of j2 (ascii ''effect'') = Some (jstr_or_null e)"
    by blast
  have "count_list ws no_ATE = (if a = None \<and> t = None \<and> e = None then 1 else 0)"
    using c r(4) by simp
  moreover have "map_of json (ascii ''area'') = Some (jstr_or_null a)"
    "map_of json (ascii ''target'') = Some (jstr_or_null t)"
    "map_of json (ascii ''effect'') = Some (jstr_or_null e)"
    using k r(5,6,7) by simp_all
  ultimately show ?thesis using r(1,2,3) by blast
qed

lemma items_construction:
  assumes res: "run (items_statements tbl span) [] = (ws, Inr json)"
  shows "\<exists>feat spells others.
           snd (construction_from_span span) = Inr (Some (feat, spells, others))
         \<and> map_of json (ascii ''feat'') = Some (jstr_or_null feat)
         \<and> map_of json (ascii ''spells'') = Some (jstr_or_null spells)
         \<and> map_of json (ascii ''other_requirements'') = Some (jstr_or_null others)"
proof -
  let ?m = "ascii ''Could not find Construction tag. Skipping.''"
  have others: "\<forall>st\<in>set (take 8 (items_statements tbl span) @ drop (Suc 8) (items_statements tbl span)).
        step_spec st {ascii ''feat'', ascii ''spells'', ascii ''other_requirements''} ?m"
    apply (simp add: items_statements_def)
    apply (intro conjI step_rules)
    apply (simp_all add: msg_defs)
    done
  have n: "8 < length (items_statements tbl span)" by (simp add: items_statements_def)
  from run_at [OF n others res] obtain j1 w2 j2 where
    st: "(items_statements tbl span ! 8) j1 = (w2, Inr j2)"
    and k: "\<forall>k\<in>{ascii ''feat'', ascii ''spells'', ascii ''other_requirements''}.
              map_of j1 k = None \<and> map_of json k = map_of j2 k"
    by blast
  from st have sc: "store_construction span j1 = (w2, Inr j2)" by (simp add: items_statements_def)
  then have "snd (store_construction span j1) = Inr j2" by simp
  then obtain f s o' where c: "snd (construction_from_span span) = Inr (Some (f, s, o'))"
    and j2: "j2 = setitem ''other_requirements'' (jstr_or_null o')
                 (setitem ''spells'' (jstr_or_null s) (setitem ''feat'' (jstr_or_null f) j1))"
    unfolding store_construction_def snd_bind
    by (auto simp: ret_def raise_def split: sum.splits option.splits prod.splits)
  have ne: "ascii ''feat'' \<noteq> ascii ''spells''" "ascii ''feat'' \<noteq> ascii ''other_requirements''"
    "ascii ''spells'' \<noteq> ascii ''other_requirements''"
    by (simp_all add: ascii_def)
  have "map_of j2 (ascii ''feat'') = Some (jstr_or_null f)"
    "map_of j2 (ascii ''spells'') = Some (jstr_or_null s)"
    "map_of j2 (ascii ''other_requirements'') = Some (jstr_or_null o')"
    unfolding j2 using ne by (simp_all add: map_of_setitem map_of_setitem_same)
  with k c show ?thesis by simp
qed

lemma next_nonempty_silent: "fst (next_nonempty spans) = []"
  by (induction spans) (simp_all add: res_defs)

lemma select_span_spells_silent: "fst (select_span_spells soup) = []"
  by (simp add: select_span_spells_def res_defs next_nonempty_silent split: option.splits)

lemma select_span_items_silent: "fst (select_span_items soup) = []"
  by (simp add: select_span_items_def res_defs split: option.splits)

lemma soup2dict_spells_run:
  assumes "snd (select_span_spells soup) = Inr span" "soup2dict_spells tbl soup = (ws, Inr json)"
  shows "run (spells_statements tbl span) [] = (ws, Inr json)"
proof -
  have "select_span_spells soup = ([], Inr span)"
    using assms(1) select_span_spells_silent [of soup] by (cases "select_span_spells soup") simp
  with assms(2) show ?thesis
    by (cases "run (spells_statements tbl span) []") (simp add: soup2dict_spells_def bind_def)
qed

lemma soup2dict_items_run:
  assumes "snd (select_span_items soup) = Inr span" "soup2dict_items tbl soup = (ws, Inr json)"
  shows "run (items_statements tbl span) [] = (ws, Inr json)"
proof -
  have "select_span_items soup = ([], Inr span)"
    using assms(1) select_span_items_silent [of soup] by (cases "select_span_items soup") simp
  with assms(2) show ?thesis
    by (cases "run (items_statements tbl span) []") (simp add: soup2dict_items_def bind_def)
qed

text \<open>
  The item scraper finds the word in the description when there is no Aura label; here
  it stores an empty aura and gives no warning.
\<close>

lemma aura_without_label:
  "no_label ''b'' ''Aura'' item_aura_in_description
   \<and> aura_from_span item_aura_in_description = ([], Inr (Some []))"
  by (simp add: no_label_def item_aura_in_description_def aura_from_span_def res_defs
      doc_defs str_defs)
section \<open>The claims\<close>

text \<open>
  C1. For every non-empty dictionary from class names to levels, the summary is: the one
  level, as an integer, when all classes have the same level; otherwise, when a level
  \<open>m\<close> has a plurality (its classes are at least half of all and strictly more than those
  of any other level), the text of \<open>m\<close>, a space, and in parentheses the groups of the other
  levels separated by a comma and a space; and when no level has a plurality, the groups of
  all levels, with no bare main level. A group is the abbreviated names of the classes at
  the level, sorted and joined by a slash, a space and the level. The groups stand in the
  order of falling class count, ties in the order of first occurrence. The witness derives
  the three examples of the specification.
\<close>

theorem level_from_classes_summary:
  assumes ne: "classes \<noteq> []"
  shows "(single_level classes \<longrightarrow>
            snd (level_from_classes tbl classes) = Inr (JInt (snd (hd classes))))
       \<and> (\<not> single_level classes \<and> plurality classes m \<longrightarrow>
            snd (level_from_classes tbl classes)
              = Inr (JStr (str_int m @ ascii '' ('' @
                  py_join (ascii '', '')
                    (map (group_text tbl classes)
                       (filter (\<lambda>L. L \<noteq> m) (levels_by_frequency classes))) @ ascii '')'')))
       \<and> (\<not> single_level classes \<and> \<not> (\<exists>m. plurality classes m) \<longrightarrow>
            snd (level_from_classes tbl classes)
              = Inr (JStr (py_join (ascii '', '')
                    (map (group_text tbl classes) (levels_by_frequency classes)))))"
proof -
  define lv where "lv = levels_by_frequency classes"
  define cnt where "cnt = level_count classes"
  have d: "distinct lv" and st: "set lv = snd ` set classes"
    and so: "sorted (map (\<lambda>L. - int (cnt L)) lv)"
    unfolding lv_def cnt_def by (rule levels_distinct, rule levels_set, rule levels_sorted)
  have hd_in: "snd (hd classes) \<in> snd ` set classes" using ne by simp
  show ?thesis
  proof (cases lv)
    case Nil
    with st ne show ?thesis by simp
  next
    case (Cons v0 t)
    note outer = Cons
    show ?thesis
    proof (cases t)
      case Nil
      with outer st have one: "snd ` set classes = {v0}" by simp
      then have sl: "single_level classes" using ne by (auto simp: single_level_iff)
      from one hd_in have "snd (hd classes) = v0" by simp
      with sl outer Nil show ?thesis
        by (simp add: level_from_classes_unfold lv_def [symmetric])
    next
      case (Cons v1 r)
      have lv: "lv = v0 # v1 # r" using outer Cons by simp
      have neq: "v0 \<noteq> v1" using d lv by auto
      have in0: "v0 \<in> snd ` set classes" and in1: "v1 \<in> snd ` set classes"
        using st lv by auto
      have nsl: "\<not> single_level classes"
      proof
        assume "single_level classes"
        then obtain v where "snd ` set classes = {v}" using ne by (auto simp: single_level_iff)
        with in0 in1 have "v0 = v" "v1 = v" by blast+
        with neq show False by simp
      qed
      have top: "\<forall>L\<in>set lv. cnt L \<le> cnt v0" using so lv by auto
      have second: "\<forall>L\<in>set (v1 # r). cnt L \<le> cnt v1" using so lv by auto
      define majority where
        "majority \<longleftrightarrow> length classes \<le> 2 * cnt v0 \<and> cnt v1 < cnt v0"
      have maj_plur: "plurality classes v0" if majority
        unfolding plurality_def cnt_def [symmetric]
      proof (intro conjI ballI impI)
        show "length classes \<le> 2 * cnt v0" using that by (simp add: majority_def)
      next
        fix L assume "L \<in> snd ` set classes" "L \<noteq> v0"
        then have "L \<in> set (v1 # r)" using st lv by auto
        with second have "cnt L \<le> cnt v1" by blast
        with that show "cnt L < cnt v0" by (simp add: majority_def)
      qed
      have plur_maj: "m' = v0 \<and> majority" if p: "plurality classes m'" for m'
      proof -
        from p have a: "length classes \<le> 2 * cnt m'"
          and b: "\<forall>L \<in> snd ` set classes. L \<noteq> m' \<longrightarrow> cnt L < cnt m'"
          by (auto simp: plurality_def cnt_def)
        have "m' \<in> snd ` set classes"
        proof (rule ccontr)
          assume "m' \<notin> snd ` set classes"
          then have "cnt m' = 0" by (simp add: cnt_def level_count_absent)
          with a ne show False by simp
        qed
        then have in_lv: "m' \<in> set lv" using st by simp
        have eq: "m' = v0"
        proof (rule ccontr)
          assume "m' \<noteq> v0"
          moreover have "v0 \<in> snd ` set classes" using st lv by auto
          ultimately have "cnt v0 < cnt m'" using b by auto
          moreover have "cnt m' \<le> cnt v0" using top in_lv by blast
          ultimately show False by simp
        qed
        have "v1 \<in> snd ` set classes" using st lv by auto
        with b neq eq have "cnt v1 < cnt v0" by auto
        with a eq show ?thesis by (simp add: majority_def)
      qed
      have flt: "filter (\<lambda>L. L \<noteq> v0) lv = v1 # r"
        using d lv by (auto simp: filter_id_conv)
      have res: "snd (level_from_classes tbl classes) =
          (if majority
           then Inr (JStr (str_int v0 @ ascii '' ('' @
                  py_join (ascii '', '') (map (group_text tbl classes) (v1 # r)) @ ascii '')''))
           else Inr (JStr (py_join (ascii '', '') (map (group_text tbl classes) (v0 # v1 # r)))))"
        unfolding level_from_classes_unfold lv_def [symmetric] lv majority_def cnt_def by simp
      have c2: "snd (level_from_classes tbl classes)
              = Inr (JStr (str_int m @ ascii '' ('' @
                  py_join (ascii '', '')
                    (map (group_text tbl classes)
                       (filter (\<lambda>L. L \<noteq> m) (levels_by_frequency classes))) @ ascii '')''))"
        if "plurality classes m"
        using plur_maj [OF that] flt res by (simp add: lv_def)
      have c3: "snd (level_from_classes tbl classes)
              = Inr (JStr (py_join (ascii '', '')
                    (map (group_text tbl classes) (levels_by_frequency classes))))"
        if "\<not> (\<exists>m. plurality classes m)"
      proof -
        from that maj_plur have "\<not> majority" by blast
        then show ?thesis using res by (simp add: lv_def [symmetric] lv)
      qed
      show ?thesis using nsl c2 c3 by blast
    qed
  qed
qed

theorem level_from_classes_summary_witness:
  "snd (level_from_classes abbreviations_spells
          [(ascii ''sorcerer'', 1), (ascii ''wizard'', 1)]) = Inr (JInt 1)
   \<and> snd (level_from_classes abbreviations_spells
          [(ascii ''sorcerer'', 1), (ascii ''wizard'', 1), (ascii ''bard'', 2)])
       = Inr (JStr (ascii ''1 (bar 2)''))
   \<and> snd (level_from_classes abbreviations_spells
          [(ascii ''cleric'', 1), (ascii ''druid'', 2)])
       = Inr (JStr (ascii ''cle 1, dru 2''))"
proof -
  define ex1 :: "(pystr \<times> int) list" where
    "ex1 = [(ascii ''sorcerer'', 1), (ascii ''wizard'', 1)]"
  define ex2 :: "(pystr \<times> int) list" where
    "ex2 = [(ascii ''sorcerer'', 1), (ascii ''wizard'', 1), (ascii ''bard'', 2)]"
  define ex3 :: "(pystr \<times> int) list" where
    "ex3 = [(ascii ''cleric'', 1), (ascii ''druid'', 2)]"
  have tbl: "abbr_or_name abbreviations_spells (ascii ''bard'') = ascii ''bar''"
    "abbr_or_name abbreviations_spells (ascii ''cleric'') = ascii ''cle''"
    "abbr_or_name abbreviations_spells (ascii ''druid'') = ascii ''dru''"
    by (simp_all add: abbr_or_name_def abbreviations_spells_def abbreviations_items_def ascii_def)
  have s1: "single_level ex1" by (simp add: single_level_def ex1_def)
  have r1: "snd (level_from_classes abbreviations_spells ex1) = Inr (JInt 1)"
    using level_from_classes_summary [of ex1 abbreviations_spells 0] s1
    by (simp add: ex1_def)
  have n2: "\<not> single_level ex2" by (simp add: single_level_def ex2_def)
  have p2: "plurality ex2 1" by (simp add: plurality_def level_count_def ex2_def)
  have o2: "levels_by_frequency ex2 = [1, 2]"
    by (simp add: levels_by_frequency_def level_count_def ex2_def)
  have g2: "group_text abbreviations_spells ex2 2 = ascii ''bar 2''"
    by (simp add: group_text_def ex2_def tbl) (simp add: ascii_def str_int_def)
  have r2: "snd (level_from_classes abbreviations_spells ex2) = Inr (JStr (ascii ''1 (bar 2)''))"
    using level_from_classes_summary [of ex2 abbreviations_spells 1] n2 p2
    by (simp add: o2 g2) (simp add: ex2_def ascii_def str_int_def)
  have n3: "\<not> single_level ex3" by (simp add: single_level_def ex3_def)
  have p3: "\<not> (\<exists>m. plurality ex3 m)"
    by (auto simp: plurality_def level_count_def ex3_def)
  have o3: "levels_by_frequency ex3 = [1, 2]"
    by (simp add: levels_by_frequency_def level_count_def ex3_def)
  have g3: "group_text abbreviations_spells ex3 1 = ascii ''cle 1''"
    "group_text abbreviations_spells ex3 2 = ascii ''dru 2''"
    by (simp_all add: group_text_def ex3_def tbl) (simp_all add: ascii_def str_int_def)
  have r3: "snd (level_from_classes abbreviations_spells ex3) = Inr (JStr (ascii ''cle 1, dru 2''))"
    using level_from_classes_summary [of ex3 abbreviations_spells 0] n3 p3
    by (simp add: o3 g3) (simp add: ex3_def ascii_def)
  show ?thesis using r1 r2 r3 by (simp add: ex1_def ex2_def ex3_def)
qed

text \<open>
  C4. For every input string, \<open>texify\<close> is the composition of the escaping rules in the
  order of the specification: carriage returns are removed; U+2013 becomes \<open>$-$\<close>; the
  em-dash U+2014 becomes \<open>--\<close>; U+2019 becomes an apostrophe; U+201C and U+201D each
  become two apostrophes; every percent sign whose predecessor is not a backslash gets
  a backslash in front, an escaped percent sign stays as it is; and last every newline
  becomes two backslashes.
\<close>

theorem texify_rules_in_order: "texify s = texify_rules s"
  by (simp add: texify_def texify_rules_def Let_def re_sub_lit_single subst_char_cr
      py_replace_single re_sub_percent_bare ascii_def)

text \<open>
  C9. A string with no carriage return, newline, percent sign, U+2013, U+2014, U+2019,
  U+201C or U+201D (plain ASCII words in particular) is returned unchanged by
  \<open>texify\<close>, so \<open>texify\<close> is idempotent on such strings.
\<close>

theorem texify_plain:
  assumes "list_all (\<lambda>c. c \<notin> set texify_special) s"
  shows "texify s = s \<and> texify (texify s) = texify s"
  using texify_plain_id [OF assms] by simp

theorem texify_plain_witness:
  "list_all (\<lambda>c. c \<notin> set texify_special) (ascii ''magic missile'')
   \<and> texify (ascii ''magic missile'') = ascii ''magic missile''
   \<and> texify (texify (ascii ''magic missile'')) = texify (ascii ''magic missile'')"
proof -
  have h: "list_all (\<lambda>c. c \<notin> set texify_special) (ascii ''magic missile'')"
    by (simp add: ascii_def texify_special_def)
  show ?thesis using h texify_plain [OF h] by simp
qed

text \<open>
  C10. For every name, \<open>abbreviate\<close> returns the table's short code, with no warning,
  when the name is a key of the table, and otherwise the name itself with exactly one
  warning. It never raises (the result is always an \<open>Inr\<close>). The table is an argument
  that the function reads; the result holds no table, so none is modified. The equation
  holds for every table, the two static ones among them: \<open>wizard\<close> is a key of both,
  \<open>Adventurer's Guide\<close> of the spell scraper's table only.
\<close>

theorem abbreviate_total:
  "abbreviate tbl name =
     (case map_of tbl name of
        Some short \<Rightarrow> ([], Inr short)
      | None \<Rightarrow> ([could_not_abbreviate name], Inr name))
   \<and> abbreviate abbreviations_items (ascii ''wizard'') = ([], Inr (ascii ''wiz''))
   \<and> abbreviate abbreviations_spells (ascii ''wizard'') = ([], Inr (ascii ''wiz''))
   \<and> abbreviate abbreviations_spells (ascii ''Adventurer's Guide'')
       = ([], Inr (ascii ''PF Adventurer Guide''))
   \<and> abbreviate abbreviations_items (ascii ''Adventurer's Guide'')
       = ([could_not_abbreviate (ascii ''Adventurer's Guide'')],
          Inr (ascii ''Adventurer's Guide''))"
proof -
  have general: "\<And>tbl name. abbreviate tbl name =
     (case map_of tbl name of
        Some short \<Rightarrow> ([], Inr short)
      | None \<Rightarrow> ([could_not_abbreviate name], Inr name))"
    by (simp add: abbreviate_def dict_getitem_def ret_def warn_def bind_def
        split: option.splits)
  have items: "map_of abbreviations_items (ascii ''wizard'') = Some (ascii ''wiz'')"
    by (simp add: abbreviations_items_def ascii_def)
  have spells: "map_of abbreviations_spells (ascii ''wizard'') = Some (ascii ''wiz'')"
    by (simp add: abbreviations_spells_def abbreviations_items_def ascii_def)
  have ag_spells: "map_of abbreviations_spells (ascii ''Adventurer's Guide'')
      = Some (ascii ''PF Adventurer Guide'')"
    by (simp add: abbreviations_spells_def abbreviations_items_def ascii_def)
  have ag_items: "map_of abbreviations_items (ascii ''Adventurer's Guide'') = None"
    by (simp add: abbreviations_items_def ascii_def)
  show ?thesis
    by (simp add: general items spells ag_spells ag_items)
qed

text \<open>
  C3. The claim: a field whose label is absent is reported as not found and the assembly
  of the record goes on without an exception; in particular the item record is assembled
  when the Construction heading is absent, and the spell record when the Duration label
  is absent. The code does not do so on these two documents. On the item page without a
  Construction heading \<open>_construction_from_span\<close> warns and returns \<open>None\<close>, and \<open>soup2dict\<close>
  unpacks the result into three names, which raises TypeError. On the spell page without
  a Duration label \<open>_duration_from_span\<close> warns that it skips the element and then calls
  \<open>replace\<close> on \<open>None\<close>, which raises AttributeError. No record is returned.
\<close>

theorem soup2dict_raises_on_missing_label:
  "soup2dict_items abbreviations_items item_without_construction
     = ([ascii ''Did not find h3 block after Description.'',
         ascii ''Could not find Construction tag. Skipping.''],
        Inl TypeError)
   \<and> soup2dict_spells abbreviations_spells spell_without_duration
     = ([ascii ''Could not find Duration tag. Skipping element '' @ quoted ''duration''
         @ ascii ''.''],
        Inl AttributeError)"
proof -
  have items: "soup2dict_items abbreviations_items item_without_construction
     = ([ascii ''Did not find h3 block after Description.'',
         ascii ''Could not find Construction tag. Skipping.''],
        Inl TypeError)"
    by (simp add: item_without_construction_def items_defs res_defs doc_defs str_defs)
  have spells: "soup2dict_spells abbreviations_spells spell_without_duration
     = ([ascii ''Could not find Duration tag. Skipping element '' @ quoted ''duration''
         @ ascii ''.''],
        Inl AttributeError)"
    by (simp add: spell_without_duration_def spells_defs res_defs doc_defs str_defs)
  show ?thesis using items spells by (rule conjI)
qed

text \<open>
  C7. The claim: every string field of an emitted record is free of the characters that
  \<open>texify\<close> rewrites. The docstring of \<open>soup2dict\<close> says the same (the dictionary has strings
  which are TeX compatible), and the description and the construction fields are passed
  through \<open>texify\<close>; the name and the aura are not. On this item page the record is
  returned with the apostrophe U+2019 in the name and a bare percent sign in the aura,
  while the description has the apostrophe replaced.
\<close>

theorem name_and_aura_not_texified:
  "field ''name'' (soup2dict_items abbreviations_items item_with_apostrophe)
     = Some (JStr (ascii ''Hunter'' @ [8217] @ ascii ''s Band''))
   \<and> field ''aura'' (soup2dict_items abbreviations_items item_with_apostrophe)
     = Some (JStr (ascii ''faint (50%) divination''))
   \<and> field ''description'' (soup2dict_items abbreviations_items item_with_apostrophe)
     = Some (JStr (ascii ''The hunter's band.''))
   \<and> texify (ascii ''Hunter'' @ [8217] @ ascii ''s Band'') = ascii ''Hunter's Band''
   \<and> texify (ascii ''faint (50%) divination'') = ascii ''faint (50'' @ [92] @ ascii ''%) divination''"
proof -
  have r: "soup2dict_items abbreviations_items item_with_apostrophe
     = ([],
        Inr [(ascii ''name'', JStr (ascii ''Hunter'' @ [8217] @ ascii ''s Band'')),
             (ascii ''source'', JStr (ascii ''PF Ult Equip'')),
             (ascii ''aura'', JStr (ascii ''faint (50%) divination'')),
             (ascii ''cl'', JStr (ascii ''5'')),
             (ascii ''slot'', JStr (ascii ''ring'')),
             (ascii ''price'', JStr (ascii ''2,000 gp'')),
             (ascii ''weight'', JStr (ascii ''1 lb'')),
             (ascii ''description'', JStr (ascii ''The hunter's band.'')),
             (ascii ''feat'', JStr (ascii ''Forge Ring'')),
             (ascii ''spells'', JNull),
             (ascii ''other_requirements'', JNull)])"
    by (simp add: item_with_apostrophe_def items_defs res_defs doc_defs str_defs)
  have t: "texify (ascii ''Hunter'' @ [8217] @ ascii ''s Band'') = ascii ''Hunter's Band''"
    "texify (ascii ''faint (50%) divination'') = ascii ''faint (50'' @ [92] @ ascii ''%) divination''"
    by (simp_all add: str_defs ascii_def)
  show ?thesis
    unfolding r field_def using t by (simp add: ascii_def)
qed


text \<open>
  C6. The claim: the source is \<open>PF Core\<close> when the core rulebook is among the listed
  sources, and otherwise the abbreviation of the first listed source without its page
  reference. The item scraper takes the last listed source instead, as its comment says:
  on an item page that lists Ultimate Equipment and then the Advanced Player's Guide the
  source is \<open>PF Adv Play\<close>.
\<close>

theorem source_last_listed_counterexample:
  "field ''source'' (soup2dict_items abbreviations_items item_two_sources)
     = Some (JStr (ascii ''PF Adv Play''))
   \<and> abbr_or_name abbreviations_items (ascii ''Ultimate Equipment'') = ascii ''PF Ult Equip''
   \<and> abbr_or_name abbreviations_items (ascii ''Advanced Player's Guide'') = ascii ''PF Adv Play''"
proof -
  have r: "soup2dict_items abbreviations_items item_two_sources
     = ([],
        Inr [(ascii ''name'', JStr (ascii ''Ring of Protection'')),
             (ascii ''source'', JStr (ascii ''PF Adv Play'')),
             (ascii ''aura'', JStr (ascii ''faint abjuration'')),
             (ascii ''cl'', JStr (ascii ''5'')),
             (ascii ''slot'', JStr (ascii ''ring'')),
             (ascii ''price'', JStr (ascii ''2,000 gp'')),
             (ascii ''weight'', JStr (ascii ''1 lb'')),
             (ascii ''description'', JStr (ascii ''This ring offers magical protection.'')),
             (ascii ''feat'', JStr (ascii ''Forge Ring'')),
             (ascii ''spells'', JNull),
             (ascii ''other_requirements'', JNull)])"
    by (simp add: item_two_sources_def item_span_two_sources_def items_defs res_defs doc_defs str_defs)
  have t: "abbr_or_name abbreviations_items (ascii ''Ultimate Equipment'') = ascii ''PF Ult Equip''"
   "abbr_or_name abbreviations_items (ascii ''Advanced Player's Guide'') = ascii ''PF Adv Play''"
    by (simp_all add: abbr_or_name_def abbreviations_items_def ascii_def)
  show ?thesis unfolding r field_def using t by (simp add: ascii_def)
qed

text \<open>
  C6 as amended. For every document that lists one or more sources, the source is
  \<open>PF Core\<close> whenever the name of the core rulebook appears in the listing. Otherwise it is
  the abbreviation of one listed source without its page reference: of the first listed
  source in the spell scraper, of the last listed source in the item scraper. This holds
  when that source has a page reference, which begins at the first page mark in it, and,
  in the item scraper, when that source has no comma followed by a space in it. The
  abbreviation of a name that the table does not have is the name, with a warning.
  A spell page lists its sources as the links after the Source label, up to the next
  bold element; an item page lists them in its text between \<open>Source\<close> and \<open>Aura\<close>, separated
  by a comma and a space.
\<close>

theorem source_first_or_last:
  "(find_label ''b'' ''Source'' span = Some siblings
      \<and> map node_text (filter (is_tag ''a'') (until [''b''] siblings)) = srcs
      \<and> srcs \<noteq> [] \<longrightarrow>
      (py_in core_rulebook (concat srcs) \<longrightarrow>
         source_from_span_spells tbl span = ([], Inr (Some (ascii ''PF Core''))))
      \<and> (\<not> py_in core_rulebook (concat srcs)
           \<and> hd srcs = name @ page_mark @ page
           \<and> \<not> py_in page_mark (name @ ascii '' pg.'') \<longrightarrow>
         source_from_span_spells tbl span
           = (fst (abbreviate tbl name), Inr (Some (abbr_or_name tbl name)))))
   \<and> (py_find (ascii ''Source '') (node_text span) = Some i
      \<and> py_find (ascii ''Aura'') (node_text span) = Some j
      \<and> slice (i + 7) j (node_text span) = py_join (ascii '', '') srcs
      \<and> srcs \<noteq> [] \<longrightarrow>
      (py_in core_rulebook (py_join (ascii '', '') srcs) \<longrightarrow>
         source_from_span_items tbl span = ([], Inr (Some (ascii ''PF Core''))))
      \<and> (\<not> py_in core_rulebook (py_join (ascii '', '') srcs)
           \<and> \<not> py_in (ascii '', '') (last srcs)
           \<and> last srcs = name @ page_mark @ page
           \<and> \<not> py_in page_mark (name @ ascii '' pg.'') \<longrightarrow>
         source_from_span_items tbl span
           = (fst (abbreviate tbl name), Inr (Some (abbr_or_name tbl name)))))"
proof (intro conjI impI; (elim conjE)?)
  assume f: "find_label ''b'' ''Source'' span = Some siblings"
    and l: "map node_text (filter (is_tag ''a'') (until [''b''] siblings)) = srcs"
    and ne: "srcs \<noteq> []"
    and c: "py_in core_rulebook (concat srcs)"
  from ne obtain first more where s: "srcs = first # more" by (cases srcs) auto
  show "source_from_span_spells tbl span = ([], Inr (Some (ascii ''PF Core'')))"
    using c by (simp add: source_from_span_spells_def f l s core_rulebook_def ret_def)
next
  assume f: "find_label ''b'' ''Source'' span = Some siblings"
    and l: "map node_text (filter (is_tag ''a'') (until [''b''] siblings)) = srcs"
    and ne: "srcs \<noteq> []"
    and c: "\<not> py_in core_rulebook (concat srcs)"
    and n: "hd srcs = name @ page_mark @ page"
    and p: "\<not> py_in page_mark (name @ ascii '' pg.'')"
  from ne obtain first more where s: "srcs = first # more" by (cases srcs) auto
  with n have n': "first = name @ page_mark @ page" by simp
  have cut: "slice_to (py_find (ascii '' pg. '') first) first = name"
    using page_mark_cut [OF p, of page] by (simp add: n' page_mark_def)
  have "source_from_span_spells tbl span = bind (abbreviate tbl name) (\<lambda>a. ret (Some a))"
    using c by (simp add: source_from_span_spells_def f l s core_rulebook_def cut)
  also have "\<dots> = (fst (abbreviate tbl name), Inr (Some (abbr_or_name tbl name)))"
    by (subst abbreviate_value) (simp add: res_defs)
  finally show "source_from_span_spells tbl span
           = (fst (abbreviate tbl name), Inr (Some (abbr_or_name tbl name)))" .
next
  assume i: "py_find (ascii ''Source '') (node_text span) = Some i"
    and j: "py_find (ascii ''Aura'') (node_text span) = Some j"
    and l: "slice (i + 7) j (node_text span) = py_join (ascii '', '') srcs"
    and c: "py_in core_rulebook (py_join (ascii '', '') srcs)"
  have len: "length (ascii ''Source '') = 7" by (simp add: ascii_def)
  show "source_from_span_items tbl span = ([], Inr (Some (ascii ''PF Core'')))"
    using c by (simp add: source_from_span_items_def i j l len core_rulebook_def ret_def Let_def)
next
  assume i: "py_find (ascii ''Source '') (node_text span) = Some i"
    and j: "py_find (ascii ''Aura'') (node_text span) = Some j"
    and l: "slice (i + 7) j (node_text span) = py_join (ascii '', '') srcs"
    and ne: "srcs \<noteq> []"
    and c: "\<not> py_in core_rulebook (py_join (ascii '', '') srcs)"
    and q: "\<not> py_in (ascii '', '') (last srcs)"
    and n: "last srcs = name @ page_mark @ page"
    and p: "\<not> py_in page_mark (name @ ascii '' pg.'')"
  have la: "last (py_split (ascii '', '') (py_join (ascii '', '') srcs)) = name @ page_mark @ page"
    using last_split_join [OF ne q] by (simp add: n)
  obtain r where r: "rev (py_split (ascii '', '') (py_join (ascii '', '') srcs))
      = (name @ page_mark @ page) # r"
    using py_split_nonempty [of "ascii '', ''" "py_join (ascii '', '') srcs"] la
    by (cases "py_split (ascii '', '') (py_join (ascii '', '') srcs)" rule: rev_cases) auto
  have len: "length (ascii ''Source '') = 7" by (simp add: ascii_def)
  have cut: "slice_to (py_find (ascii '' pg. '') (name @ page_mark @ page)) (name @ page_mark @ page) = name"
    using page_mark_cut [OF p, of page] by (simp add: page_mark_def)
  have "source_from_span_items tbl span = bind (abbreviate tbl name) (\<lambda>a. ret (Some a))"
    using c
    by (simp add: source_from_span_items_def i j l len core_rulebook_def r cut Let_def)
  also have "\<dots> = (fst (abbreviate tbl name), Inr (Some (abbr_or_name tbl name)))"
    by (subst abbreviate_value) (simp add: res_defs)
  finally show "source_from_span_items tbl span
           = (fst (abbreviate tbl name), Inr (Some (abbr_or_name tbl name)))" .
qed

theorem source_first_or_last_witness:
  "source_from_span_spells abbreviations_spells spell_two_sources
     = ([], Inr (Some (ascii ''PF Ult Combat'')))
   \<and> source_from_span_items abbreviations_items item_span_two_sources
     = ([], Inr (Some (ascii ''PF Adv Play'')))"
proof -
  define sib where "sib = [tx '' '', el ''a'' [tx ''Ultimate Combat pg. 221''],
        tx '', '', el ''a'' [tx ''Advanced Class Guide pg. 90''],
        el ''b'' [tx ''School''], tx '' conjuration'']"
  define srcs where "srcs = [ascii ''Ultimate Combat'' @ page_mark @ ascii ''221'',
        ascii ''Advanced Class Guide pg. 90'']"
  have f: "find_label ''b'' ''Source'' spell_two_sources = Some sib"
    by (simp add: spell_two_sources_def sib_def doc_defs)
  have l: "map node_text (filter (is_tag ''a'') (until [''b''] sib)) = srcs"
    by (simp add: sib_def srcs_def doc_defs page_mark_def)
  have ne: "srcs \<noteq> []" by (simp add: srcs_def)
  have c: "\<not> py_in core_rulebook (concat srcs)"
    by (simp add: srcs_def core_rulebook_def page_mark_def py_in_def ascii_def)
  have h: "hd srcs = ascii ''Ultimate Combat'' @ page_mark @ ascii ''221''"
    by (simp add: srcs_def)
  have p: "\<not> py_in page_mark (ascii ''Ultimate Combat'' @ ascii '' pg.'')"
    by (simp add: page_mark_def py_in_def ascii_def)
  have a: "abbreviate abbreviations_spells (ascii ''Ultimate Combat'') = ([], Inr (ascii ''PF Ult Combat''))"
    by (simp add: abbreviate_def dict_getitem_def abbreviations_spells_def abbreviations_items_def res_defs ascii_def)
  have a': "abbr_or_name abbreviations_spells (ascii ''Ultimate Combat'') = ascii ''PF Ult Combat''"
    by (simp add: abbr_or_name_def abbreviations_spells_def abbreviations_items_def ascii_def)
  have spells: "source_from_span_spells abbreviations_spells spell_two_sources
     = ([], Inr (Some (ascii ''PF Ult Combat'')))"
    using source_first_or_last [of spell_two_sources sib srcs abbreviations_spells
        "ascii ''Ultimate Combat''" "ascii ''221''"] f l ne c h p
    by (simp add: a a')
  define srcs' where "srcs' = [ascii ''Ultimate Equipment pg. 169'',
        ascii ''Advanced Player's Guide'' @ page_mark @ ascii ''3'']"
  have i: "py_find (ascii ''Source '') (node_text item_span_two_sources) = Some 18"
    and j: "py_find (ascii ''Aura'') (node_text item_span_two_sources) = Some 82"
    by (simp_all add: item_span_two_sources_def doc_defs)
  have li: "slice (18 + 7) 82 (node_text item_span_two_sources) = py_join (ascii '', '') srcs'"
    by (simp add: item_span_two_sources_def srcs'_def page_mark_def doc_defs slice_def)
  have ne': "srcs' \<noteq> []" by (simp add: srcs'_def)
  have ci: "\<not> py_in core_rulebook (py_join (ascii '', '') srcs')"
    by (simp add: srcs'_def core_rulebook_def page_mark_def py_in_def ascii_def)
  have q: "\<not> py_in (ascii '', '') (last srcs')"
    by (simp add: srcs'_def page_mark_def py_in_def ascii_def)
  have la: "last srcs' = ascii ''Advanced Player's Guide'' @ page_mark @ ascii ''3''"
    by (simp add: srcs'_def)
  have pi: "\<not> py_in page_mark (ascii ''Advanced Player's Guide'' @ ascii '' pg.'')"
    by (simp add: page_mark_def py_in_def ascii_def)
  have b: "abbreviate abbreviations_items (ascii ''Advanced Player's Guide'') = ([], Inr (ascii ''PF Adv Play''))"
    by (simp add: abbreviate_def dict_getitem_def abbreviations_items_def res_defs ascii_def)
  have b': "abbr_or_name abbreviations_items (ascii ''Advanced Player's Guide'') = ascii ''PF Adv Play''"
    by (simp add: abbr_or_name_def abbreviations_items_def ascii_def)
  have items: "source_from_span_items abbreviations_items item_span_two_sources
     = ([], Inr (Some (ascii ''PF Adv Play'')))"
    using source_first_or_last [of item_span_two_sources _ srcs' abbreviations_items
        "ascii ''Advanced Player's Guide''" "ascii ''3''" 18 82] i j li ne' ci q la pi
    by (simp add: b b')
  show ?thesis using spells items by (rule conjI)
qed

text \<open>
  C5. The claim: the feat field is the text before the first italicized element, stripped
  of white space and separator punctuation (and likewise the other two fields). The code
  also removes a trailing \<open>and\<close> from the feat field: for the requirements
  \<open>Craft Wondrous Item and <i>fly</i>; creator must be 5th level\<close> the stripped text before
  the italicized element is \<open>Craft Wondrous Item and\<close>, and the feat field is
  \<open>Craft Wondrous Item\<close>.
\<close>

theorem trailing_and_removed_counterexample:
  "construction_split requirements_with_and
     = (Some (ascii ''Craft Wondrous Item''), Some (ascii ''fly''),
        Some (ascii ''creator must be 5th level''))
   \<and> strip_chars punctuation (text_of (before_first italic requirements_with_and))
     = ascii ''Craft Wondrous Item and''"
  by (simp add: requirements_with_and_def construction_split_def none_if_empty_def
      before_first_def italic_def text_of_def punctuation_def doc_defs str_defs)

text \<open>
  C5 as amended. For every sequence of requirement nodes in which no element other than
  an italicized span stands before the first or after the last italicized span: if it
  contains an italicized span, the feat field comes from the text before the first
  italicized span, the spells field from the text from the first through the last
  italicized span, and the other requirements from the text after the last italicized
  span, where the text of nodes joins the text of each element and the content of each
  string; if it contains none, the text is split at comma and space, the entries that
  contain \<open>Craft\<close> or \<open>Forge\<close>, joined again, give the feat field, the other entries the
  other requirements, and the spells field is \<open>None\<close>. Each field is stripped of the
  characters space, comma, full stop, semicolon and colon at both ends; the feat field
  then loses a trailing \<open>and\<close>; each field is escaped by \<open>texify\<close>; and an empty field is
  returned as \<open>None\<close>.
\<close>

theorem construction_split_three_way:
  "italics_outermost nodes \<longrightarrow>
     (list_ex italic nodes \<longrightarrow>
        construction_split nodes
          = (finish_feat (text_of (before_first italic nodes)),
             finish (text_of (first_to_last italic nodes)),
             finish (text_of (after_last italic nodes))))
     \<and> (\<not> list_ex italic nodes \<longrightarrow>
        construction_split nodes
          = (finish_feat (py_join (ascii '', '')
                            (filter is_craft (py_split (ascii '', '') (text_of nodes)))),
             None,
             finish (py_join (ascii '', '')
                       (filter (\<lambda>s. \<not> is_craft s) (py_split (ascii '', '') (text_of nodes))))))"
proof (intro conjI impI)
  assume o: "italics_outermost nodes" and ex: "list_ex italic nodes"
  from italics_outermost_cuts(4) [OF o] ex have "list_ex is_element nodes" by simp
  with construction_split_elements [of nodes]
  show "construction_split nodes
          = (finish_feat (text_of (before_first italic nodes)),
             finish (text_of (first_to_last italic nodes)),
             finish (text_of (after_last italic nodes)))"
    by (simp add: italics_outermost_cuts(1-3) [OF o])
next
  assume o: "italics_outermost nodes" and nex: "\<not> list_ex italic nodes"
  from italics_outermost_cuts(4) [OF o] nex have "\<not> list_ex is_element nodes" by simp
  with construction_split_elements [of nodes]
  show "construction_split nodes
          = (finish_feat (py_join (ascii '', '')
                            (filter is_craft (py_split (ascii '', '') (text_of nodes)))),
             None,
             finish (py_join (ascii '', '')
                       (filter (\<lambda>s. \<not> is_craft s) (py_split (ascii '', '') (text_of nodes)))))"
    by simp
qed

theorem construction_split_three_way_witness:
  "italics_outermost requirements_with_and
   \<and> construction_split requirements_with_and
     = (Some (ascii ''Craft Wondrous Item''), Some (ascii ''fly''),
        Some (ascii ''creator must be 5th level''))
   \<and> italics_outermost requirements_without_spell
   \<and> construction_split requirements_without_spell
     = (Some (ascii ''Craft Rod, Forge Ring''), None, Some (ascii ''creator must be a dwarf''))"
proof -
  have o: "italics_outermost requirements_with_and"
    by (simp add: italics_outermost_def requirements_with_and_def before_first_def
        after_last_def italic_def doc_defs)
  have ex: "list_ex italic requirements_with_and"
    by (simp add: requirements_with_and_def italic_def doc_defs)
  have p: "before_first italic requirements_with_and = [tx '' Craft Wondrous Item and '']"
    "first_to_last italic requirements_with_and = [el ''i'' [tx ''fly'']]"
    "after_last italic requirements_with_and = [tx ''; creator must be 5th level'']"
    by (simp_all add: requirements_with_and_def before_first_def first_to_last_def
        after_last_def italic_def doc_defs)
  have v: "finish_feat (text_of [tx '' Craft Wondrous Item and '']) = Some (ascii ''Craft Wondrous Item'')"
    "finish (text_of [el ''i'' [tx ''fly'']]) = Some (ascii ''fly'')"
    "finish (text_of [tx ''; creator must be 5th level'']) = Some (ascii ''creator must be 5th level'')"
    by (simp_all add: finish_feat_def finish_def drop_and_def text_of_def none_if_empty_def
        punctuation_def suffix_def doc_defs str_defs)
  have one: "construction_split requirements_with_and
     = (Some (ascii ''Craft Wondrous Item''), Some (ascii ''fly''),
        Some (ascii ''creator must be 5th level''))"
    using construction_split_three_way [of requirements_with_and] o ex by (simp add: p v)
  have o': "italics_outermost requirements_without_spell"
    by (simp add: italics_outermost_def requirements_without_spell_def before_first_def
        after_last_def italic_def doc_defs)
  have nex: "\<not> list_ex italic requirements_without_spell"
    by (simp add: requirements_without_spell_def italic_def doc_defs)
  have s: "py_split (ascii '', '') (text_of requirements_without_spell)
      = [ascii '' Craft Rod'', ascii ''Forge Ring'', ascii ''creator must be a dwarf; '']"
    by (simp add: requirements_without_spell_def text_of_def doc_defs)
  have c: "is_craft (ascii '' Craft Rod'')" "is_craft (ascii ''Forge Ring'')"
    "\<not> is_craft (ascii ''creator must be a dwarf; '')"
    by (simp_all add: is_craft_def py_in_def ascii_def)
  have w: "finish_feat (ascii '' Craft Rod'' @ ascii '', '' @ ascii ''Forge Ring'') = Some (ascii ''Craft Rod, Forge Ring'')"
    "finish (ascii ''creator must be a dwarf; '') = Some (ascii ''creator must be a dwarf'')"
    by (simp_all add: finish_feat_def finish_def drop_and_def none_if_empty_def
        punctuation_def suffix_def doc_defs str_defs)
  have two: "construction_split requirements_without_spell
     = (Some (ascii ''Craft Rod, Forge Ring''), None, Some (ascii ''creator must be a dwarf''))"
    using construction_split_three_way [of requirements_without_spell] o' nex
    by (simp add: s c w)
  show ?thesis using o one o' two by simp
qed


text \<open>
  C2. The claim: when an optional label such as Area, Target or Effect is absent, the
  record has no entry for the field, and one warning is given for it. The spell scraper
  stores \<open>area\<close>, \<open>target\<close> and \<open>effect\<close> without a test: on a spell page with Targets but
  neither Area nor Effect the record has \<open>area\<close> with the value null, and no warning is
  given.
\<close>

theorem area_null_counterexample:
  "no_label ''b'' ''Area'' spell_with_target
   \<and> fst (soup2dict_spells abbreviations_spells (page_of spell_with_target)) = []
   \<and> field ''area'' (soup2dict_spells abbreviations_spells (page_of spell_with_target)) = Some JNull"
proof -
  have r: "soup2dict_spells abbreviations_spells (page_of spell_with_target)
     = ([],
        Inr [(ascii ''name'', JStr (ascii ''Magic Missile'')),
             (ascii ''source'', JStr (ascii ''PF Core'')),
             (ascii ''school'', JStr (ascii ''evocation[force]'')),
             (ascii ''classes'', JDict [(ascii ''sorcerer'', 1), (ascii ''wizard'', 1)]),
             (ascii ''level'', JInt 1),
             (ascii ''time'', JStr (ascii ''1 standard action'')),
             (ascii ''components'', JStr (ascii ''V,S'')),
             (ascii ''range'', JStr (ascii ''medium'')),
             (ascii ''area'', JNull),
             (ascii ''target'', JStr (ascii ''up to five creatures'')),
             (ascii ''effect'', JNull),
             (ascii ''duration'', JStr (ascii ''instantaneous'')),
             (ascii ''save'', JStr (ascii ''none'')),
             (ascii ''sr'', JStr (ascii ''yes'')),
             (ascii ''description'', JStr (ascii ''A missile of magical energy darts forth.''))])"
    by (simp add: page_of_def spell_with_target_def spells_defs res_defs doc_defs str_defs)
  have a: "no_label ''b'' ''Area'' spell_with_target"
    by (simp add: no_label_def spell_with_target_def doc_defs)
  show ?thesis unfolding r field_def using a by (simp add: ascii_def)
qed

text \<open>
  C2 as amended. When \<open>soup2dict\<close> returns a record, for each guarded field whose test
  fails the record has no entry for the key and the warning of that field is given
  exactly once. For spells the tests are the absence of the labels Source, School, Level
  (which guards the keys \<open>classes\<close> and \<open>level\<close>), Casting Time, Components and Range and of
  the heading Description. For items they are the absence of the labels CL, Slot, Price
  and Weight and of the heading Description; for the source and the aura the test is
  that the text of the span nowhere has \<open>Source\<close> or \<open>Aura\<close> followed by a space. The spell
  record always has \<open>area\<close>, \<open>target\<close> and \<open>effect\<close>, each null exactly when its label is
  absent (Target also answers to Targets), and one warning
  \<open>No Area, Target or Effect found.\<close> is given exactly when all three are null. The item
  record always has \<open>feat\<close>, \<open>spells\<close> and \<open>other_requirements\<close>, each null when its part of the
  construction requirements is empty.
\<close>

theorem missing_label_omitted:
  "(snd (select_span_spells soup) = Inr span \<and> soup2dict_spells tbl soup = (ws, Inr json) \<longrightarrow>
      (\<forall>(absent, key, msg)\<in>set guarded_spells.
         absent span \<longrightarrow> map_of json (ascii key) = None \<and> count_list ws msg = 1)
      \<and> (\<exists>area target effect.
            (area = None \<longleftrightarrow> no_label ''b'' ''Area'' span)
          \<and> (target = None \<longleftrightarrow> no_label ''b'' ''Target'' span \<and> no_label ''b'' ''Targets'' span)
          \<and> (effect = None \<longleftrightarrow> no_label ''b'' ''Effect'' span)
          \<and> count_list ws no_ATE = (if area = None \<and> target = None \<and> effect = None then 1 else 0)
          \<and> map_of json (ascii ''area'') = Some (jstr_or_null area)
          \<and> map_of json (ascii ''target'') = Some (jstr_or_null target)
          \<and> map_of json (ascii ''effect'') = Some (jstr_or_null effect)))
   \<and> (snd (select_span_items soup) = Inr span \<and> soup2dict_items tbl soup = (ws, Inr json) \<longrightarrow>
      (\<forall>(absent, key, msg)\<in>set guarded_items.
         absent span \<longrightarrow> map_of json (ascii key) = None \<and> count_list ws msg = 1)
      \<and> (\<exists>feat spells others.
            snd (construction_from_span span) = Inr (Some (feat, spells, others))
          \<and> map_of json (ascii ''feat'') = Some (jstr_or_null feat)
          \<and> map_of json (ascii ''spells'') = Some (jstr_or_null spells)
          \<and> map_of json (ascii ''other_requirements'') = Some (jstr_or_null others)))"
proof (intro conjI impI; elim conjE)
  assume "snd (select_span_spells soup) = Inr span" "soup2dict_spells tbl soup = (ws, Inr json)"
  then have res: "run (spells_statements tbl span) [] = (ws, Inr json)"
    by (rule soup2dict_spells_run)
  show "\<forall>(absent, key, msg)\<in>set guarded_spells.
         absent span \<longrightarrow> map_of json (ascii key) = None \<and> count_list ws msg = 1"
    using res by (rule spells_guarded)
  show "\<exists>area target effect.
            (area = None \<longleftrightarrow> no_label ''b'' ''Area'' span)
          \<and> (target = None \<longleftrightarrow> no_label ''b'' ''Target'' span \<and> no_label ''b'' ''Targets'' span)
          \<and> (effect = None \<longleftrightarrow> no_label ''b'' ''Effect'' span)
          \<and> count_list ws no_ATE = (if area = None \<and> target = None \<and> effect = None then 1 else 0)
          \<and> map_of json (ascii ''area'') = Some (jstr_or_null area)
          \<and> map_of json (ascii ''target'') = Some (jstr_or_null target)
          \<and> map_of json (ascii ''effect'') = Some (jstr_or_null effect)"
    using res by (rule spells_ATE)
next
  assume "snd (select_span_items soup) = Inr span" "soup2dict_items tbl soup = (ws, Inr json)"
  then have res: "run (items_statements tbl span) [] = (ws, Inr json)"
    by (rule soup2dict_items_run)
  show "\<forall>(absent, key, msg)\<in>set guarded_items.
         absent span \<longrightarrow> map_of json (ascii key) = None \<and> count_list ws msg = 1"
    using res by (rule items_guarded)
  show "\<exists>feat spells others.
            snd (construction_from_span span) = Inr (Some (feat, spells, others))
          \<and> map_of json (ascii ''feat'') = Some (jstr_or_null feat)
          \<and> map_of json (ascii ''spells'') = Some (jstr_or_null spells)
          \<and> map_of json (ascii ''other_requirements'') = Some (jstr_or_null others)"
    using res by (rule items_construction)
qed

theorem missing_label_omitted_witness:
  "field ''school'' (soup2dict_spells abbreviations_spells (page_of spell_sparse)) = None
   \<and> count_list (fst (soup2dict_spells abbreviations_spells (page_of spell_sparse)))
        (could_not_find_tag ''School'' ''school'' @ ascii ''.'') = 1
   \<and> field ''area'' (soup2dict_spells abbreviations_spells (page_of spell_sparse)) = Some JNull
   \<and> count_list (fst (soup2dict_spells abbreviations_spells (page_of spell_sparse))) no_ATE = 1
   \<and> field ''weight'' (soup2dict_items abbreviations_items (page_of item_sparse)) = None
   \<and> count_list (fst (soup2dict_items abbreviations_items (page_of item_sparse)))
        (could_not_find_tag ''Weight'' ''weight'') = 1
   \<and> field ''spells'' (soup2dict_items abbreviations_items (page_of item_sparse)) = Some JNull"
proof -
  have "case snd (soup2dict_spells abbreviations_spells (page_of spell_sparse)) of
          Inl e \<Rightarrow> False | Inr json \<Rightarrow> True"
    by (simp add: page_of_def spell_sparse_def spells_defs res_defs doc_defs str_defs)
  then obtain ws json where
    r: "soup2dict_spells abbreviations_spells (page_of spell_sparse) = (ws, Inr json)"
    by (cases "soup2dict_spells abbreviations_spells (page_of spell_sparse)")
       (auto split: sum.splits)
  have sel: "snd (select_span_spells (page_of spell_sparse)) = Inr spell_sparse"
    by (simp add: page_of_def spell_sparse_def select_span_spells_def res_defs doc_defs)
  have absent: "no_label ''b'' ''School'' spell_sparse" "no_label ''b'' ''Area'' spell_sparse"
    "no_label ''b'' ''Target'' spell_sparse" "no_label ''b'' ''Targets'' spell_sparse"
    "no_label ''b'' ''Effect'' spell_sparse"
    by (simp_all add: no_label_def spell_sparse_def doc_defs)
  have entry: "(no_label ''b'' ''School'', ''school'',
                could_not_find_tag ''School'' ''school'' @ ascii ''.'') \<in> set guarded_spells"
    by (simp add: guarded_spells_def)
  note spells_inst = missing_label_omitted
    [of "page_of spell_sparse" spell_sparse abbreviations_spells ws json,
     THEN conjunct1, THEN mp, OF conjI [OF sel r]]
  from spells_inst have g: "\<forall>(absent, key, msg)\<in>set guarded_spells.
         absent spell_sparse \<longrightarrow> map_of json (ascii key) = None \<and> count_list ws msg = 1"
    by (rule conjunct1)
  from bspec [OF g entry] absent(1)
  have school: "map_of json (ascii ''school'') = None"
    "count_list ws (could_not_find_tag ''School'' ''school'' @ ascii ''.'') = 1"
    by simp_all
  from spells_inst absent
  have area: "map_of json (ascii ''area'') = Some JNull" "count_list ws no_ATE = 1"
    by (auto simp: jstr_or_null_def)
  have "case snd (soup2dict_items abbreviations_items (page_of item_sparse)) of
          Inl e \<Rightarrow> False | Inr json \<Rightarrow> True"
    by (simp add: page_of_def item_sparse_def items_defs res_defs doc_defs str_defs)
  then obtain ws' json' where
    r': "soup2dict_items abbreviations_items (page_of item_sparse) = (ws', Inr json')"
    by (cases "soup2dict_items abbreviations_items (page_of item_sparse)")
       (auto split: sum.splits)
  have sel': "snd (select_span_items (page_of item_sparse)) = Inr item_sparse"
    by (simp add: page_of_def item_sparse_def select_span_items_def res_defs doc_defs)
  have absent': "no_label ''b'' ''Weight'' item_sparse"
    by (simp add: no_label_def item_sparse_def doc_defs)
  have entry': "(no_label ''b'' ''Weight'', ''weight'', could_not_find_tag ''Weight'' ''weight'')
                 \<in> set guarded_items"
    by (simp add: guarded_items_def)
  note items_inst = missing_label_omitted
    [of "page_of item_sparse" item_sparse abbreviations_items ws' json',
     THEN conjunct2, THEN mp, OF conjI [OF sel' r']]
  from items_inst have g': "\<forall>(absent, key, msg)\<in>set guarded_items.
         absent item_sparse \<longrightarrow> map_of json' (ascii key) = None \<and> count_list ws' msg = 1"
    by (rule conjunct1)
  from bspec [OF g' entry'] absent'
  have weight: "map_of json' (ascii ''weight'') = None"
    "count_list ws' (could_not_find_tag ''Weight'' ''weight'') = 1"
    by simp_all
  have c: "snd (construction_from_span item_sparse) = Inr (Some (Some (ascii ''Forge Ring''), None, None))"
    by (simp add: item_sparse_def construction_from_span_def construction_split_def
        none_if_empty_def res_defs doc_defs str_defs)
  from items_inst obtain feat spells others where
    "snd (construction_from_span item_sparse) = Inr (Some (feat, spells, others))"
    "map_of json' (ascii ''spells'') = Some (jstr_or_null spells)"
    by blast
  with c have spells: "map_of json' (ascii ''spells'') = Some JNull"
    by (simp add: jstr_or_null_def)
  show ?thesis
    unfolding r r' field_def using school area weight spells by simp
qed
end
